theory Spec2Isabelle
  imports Complex_Main "HOL-Library.Word" "HOL-Library.AList"
begin

unbundle bit_operations_syntax

section \<open>Values, errors and loops\<close>

text \<open>
  The development embeds \<^verbatim>\<open>samples-generator/lib/createPointCloudTile.js\<close>.
  Lengths, offsets, indices, counts and batch ids are natural numbers, bytes are
  \<^typ>\<open>8 word\<close>, a Node \<^verbatim>\<open>Buffer\<close> is a list of bytes. The numbers the code computes
  with are of the type \<open>number\<close> below, which holds NaN and the infinities. Every
  \<^verbatim>\<open>throw\<close> is a value \<open>Inl e\<close> of the result type \<open>error + 'a\<close>.
\<close>

type_synonym byte = "8 word"
type_synonym buffer = "byte list"

datatype error =
    TypeError        \<comment> \<open>calling \<^verbatim>\<open>undefined\<close>, reading a field of \<^verbatim>\<open>undefined\<close>\<close>
  | RangeError       \<comment> \<open>Node's \<^verbatim>\<open>ERR_OUT_OF_RANGE\<close> of the Buffer writers and typed arrays\<close>
  | DeveloperError   \<comment> \<open>Cesium's argument checks\<close>
  | RuntimeError     \<comment> \<open>Cesium's \<^verbatim>\<open>Matrix4.inverse\<close> on a singular matrix\<close>
  | EncodingFailed   \<comment> \<open>\<^verbatim>\<open>throw 'Error: Encoding Failed.'\<close>\<close>

fun ebind :: "error + 'a \<Rightarrow> ('a \<Rightarrow> error + 'b) \<Rightarrow> error + 'b" where
  "ebind (Inl e) f = Inl e"
| "ebind (Inr v) f = f v"

text \<open>\<^verbatim>\<open>for (i = 0; i < n; ++i) body\<close> is \<open>forLoop [0..<n] body\<close>: the body runs on each
  index in turn and the first exception ends the loop.\<close>

fun forLoop :: "nat list \<Rightarrow> (nat \<Rightarrow> 's \<Rightarrow> error + 's) \<Rightarrow> 's \<Rightarrow> error + 's" where
  "forLoop [] body s = Inr s"
| "forLoop (i # is) body s = ebind (body i s) (forLoop is body)"

fun defaultValue :: "'a option \<Rightarrow> 'a \<Rightarrow> 'a" where
  "defaultValue None d = d"
| "defaultValue (Some v) d = v"

fun defined :: "'a option \<Rightarrow> bool" where
  "defined None = False"
| "defined (Some v) = True"

subsection \<open>Component types and attributes\<close>

text \<open>The keys of Cesium's \<^verbatim>\<open>ComponentDatatype\<close>, which the strings in
  \<^verbatim>\<open>property.componentType\<close> index (\<open>SIGNED_INT\<close> is Cesium's \<^verbatim>\<open>INT\<close>, a name
  Isabelle reserves), and the four values of \<^verbatim>\<open>property.type\<close>.\<close>

datatype component_datatype =
  BYTE | UNSIGNED_BYTE | SHORT | UNSIGNED_SHORT | SIGNED_INT | UNSIGNED_INT | FLOAT | DOUBLE

datatype attribute_type = SCALAR | VEC2 | VEC3 | VEC4

fun getSizeInBytes :: "component_datatype \<Rightarrow> nat" where
  "getSizeInBytes BYTE = 1"
| "getSizeInBytes UNSIGNED_BYTE = 1"
| "getSizeInBytes SHORT = 2"
| "getSizeInBytes UNSIGNED_SHORT = 2"
| "getSizeInBytes SIGNED_INT = 4"
| "getSizeInBytes UNSIGNED_INT = 4"
| "getSizeInBytes FLOAT = 4"
| "getSizeInBytes DOUBLE = 8"

definition sizeOfUint8 :: nat where "sizeOfUint8 = 1"
definition sizeOfUint16 :: nat where "sizeOfUint16 = 2"
definition sizeOfUint32 :: nat where "sizeOfUint32 = 4"
definition sizeOfFloat32 :: nat where "sizeOfFloat32 = 4"

text \<open>The object every attribute encoder returns. \<open>batchLength\<close> is present only on
  the object of \<^verbatim>\<open>getBatchIds\<close>.\<close>

record property =
  buffer :: buffer
  propertyName :: string
  componentType :: component_datatype
  attrType :: attribute_type
  batchLength :: "nat option"

subsection \<open>Node's Buffer\<close>

definition Buffer_alloc :: "nat \<Rightarrow> buffer" where
  "Buffer_alloc n = replicate n 0"

definition Buffer_concat :: "buffer list \<Rightarrow> buffer" where
  "Buffer_concat bufs = concat bufs"

text \<open>The writers check the value's range, then the offset, and store the value
  truncated, least significant byte first.\<close>

definition writeUInt8 :: "real \<Rightarrow> nat \<Rightarrow> buffer \<Rightarrow> error + buffer" where
  "writeUInt8 v off buf =
     (if v > 255 \<or> v < 0 then Inl RangeError
      else if length buf < off + 1 then Inl RangeError
      else Inr (buf[off := word_of_int \<lfloor>v\<rfloor>]))"

definition writeUInt16LE :: "real \<Rightarrow> nat \<Rightarrow> buffer \<Rightarrow> error + buffer" where
  "writeUInt16LE v off buf =
     (if v > 65535 \<or> v < 0 then Inl RangeError
      else if length buf < off + 2 then Inl RangeError
      else Inr (buf[off := word_of_int \<lfloor>v\<rfloor>,
                    off + 1 := word_of_int (\<lfloor>v\<rfloor> div 256)]))"

definition writeUInt32LE :: "real \<Rightarrow> nat \<Rightarrow> buffer \<Rightarrow> error + buffer" where
  "writeUInt32LE v off buf =
     (if v > 4294967295 \<or> v < 0 then Inl RangeError
      else if length buf < off + 4 then Inl RangeError
      else Inr (buf[off := word_of_int \<lfloor>v\<rfloor>,
                    off + 1 := word_of_int (\<lfloor>v\<rfloor> div 256),
                    off + 2 := word_of_int (\<lfloor>v\<rfloor> div 65536),
                    off + 3 := word_of_int (\<lfloor>v\<rfloor> div 16777216)]))"

text \<open>JavaScript's \<^verbatim>\<open><<\<close>: the left operand as a 32-bit integer, the count modulo 32,
  the result read as a signed 32-bit integer.\<close>

definition js_shl :: "int \<Rightarrow> nat \<Rightarrow> int" where
  "js_shl a n = sint (push_bit (n mod 32) (word_of_int a :: 32 word))"

section \<open>Attribute encoders\<close>

subsection \<open>getBatchIds\<close>

definition getBatchIds :: "nat list \<Rightarrow> error + property" where
  "getBatchIds batchIds =
     (let pointsLength = length batchIds;
          batchLength = fold (\<lambda>i batchLength. max (batchIds ! i + 1) batchLength)
                          [0..<pointsLength] 0
      in
      ebind
        (if batchLength \<le> 256 then
           ebind (forLoop [0..<pointsLength]
                    (\<lambda>i buf. writeUInt8 (real (batchIds ! i)) (i * sizeOfUint8) buf)
                    (Buffer_alloc (pointsLength * sizeOfUint8)))
             (\<lambda>buf. Inr (buf, UNSIGNED_BYTE))
         else if batchLength \<le> 65536 then
           ebind (forLoop [0..<pointsLength]
                    (\<lambda>i buf. writeUInt16LE (real (batchIds ! i)) (i * sizeOfUint16) buf)
                    (Buffer_alloc (pointsLength * sizeOfUint16)))
             (\<lambda>buf. Inr (buf, UNSIGNED_SHORT))
         else
           ebind (forLoop [0..<pointsLength]
                    (\<lambda>i buf. writeUInt32LE (real (batchIds ! i)) (i * sizeOfUint32) buf)
                    (Buffer_alloc (pointsLength * sizeOfUint32)))
             (\<lambda>buf. Inr (buf, UNSIGNED_INT)))
        (\<lambda>(buf, ct). Inr \<lparr>buffer = buf, propertyName = ''BATCH_ID'', componentType = ct,
                           attrType = SCALAR, batchLength = Some batchLength\<rparr>))"


section \<open>Numbers and external collaborators\<close>

subsection \<open>JavaScript numbers\<close>

text \<open>
  A double is a real, NaN or an infinity; the sign of zero is not represented, so a
  division by zero takes the zero as positive. An arithmetic operation on two reals
  rounds its exact result with \<open>round64\<close>, which is a parameter of the model (see
  \<open>externals\<close> below): it gives the double nearest to a real, or an infinity on overflow.
  The operations on NaN and the infinities are those of IEEE 754.
\<close>

datatype number = Num real | NaN | PosInfinity | NegInfinity

subsection \<open>Cesium's Cartesian3 and Matrix4\<close>

datatype cartesian3 = Cartesian3 (cart_x: number) (cart_y: number) (cart_z: number)

text \<open>A \<^verbatim>\<open>Matrix4\<close> by the sixteen entries of its column-major array, index 0 to 15.\<close>

datatype matrix4 =
  Matrix4 number number number number  number number number number
          number number number number  number number number number

datatype color = Color (red: number) (green: number) (blue: number) (alpha: number)

subsection \<open>Libraries taken as parameters\<close>

datatype draco_type = POSITION | NORMAL | COLOR | GENERIC

datatype encoding_method = POINT_CLOUD_SEQUENTIAL_ENCODING

text \<open>What one \<^verbatim>\<open>pointCloudBuilder.Add...Attribute\<close> call is given.\<close>

record draco_attribute =
  addFunction :: string
  dracoType :: draco_type
  numPoints :: nat
  numberOfComponents :: nat
  typedArray :: "component_datatype \<times> buffer"

text \<open>The encoder's settings at the time of the encode call. \<open>encodingMethod\<close> is
  \<open>None\<close> when \<^verbatim>\<open>SetEncodingMethod\<close> was not called, and the encoder then chooses.\<close>

record encoder_settings =
  speedOptions :: nat
  attributeQuantization :: "(draco_type \<times> nat) list"
  encodingMethod :: "encoding_method option"

text \<open>
  The code of the libraries and the rounding of the machine are not part of the
  repository; what the generator calls is a parameter of the model: the rounding of a
  real to a double, Cesium's seedable random numbers (\<open>'rng\<close> is the state of the
  generator, a random number is a real from 0 to 1), the simplex noise of the package
  of that name (\<open>'sx\<close> is the permutation table its constructor draws), Node's
  conversion of a number to the bits of a 32-bit float, Cesium's \<^verbatim>\<open>Matrix4.inverse\<close> and
  \<^verbatim>\<open>AttributeCompression.octEncode\<close>, and the Draco encoder: the id
  \<^verbatim>\<open>Add...Attribute\<close> returns for an attribute added to a point cloud holding the given
  ones, and the length and the bytes (\<^verbatim>\<open>GetValue\<close>) of
  \<^verbatim>\<open>EncodePointCloudToDracoBuffer\<close>.
\<close>

record ('rng, 'sx) externals =
  round64 :: "real \<Rightarrow> number"
  setRandomNumberSeed :: "nat \<Rightarrow> 'rng"
  nextRandomNumber :: "'rng \<Rightarrow> real \<times> 'rng"
  newSimplexNoise :: "'rng \<Rightarrow> 'sx \<times> 'rng"
  noise4D :: "'sx \<Rightarrow> number \<Rightarrow> number \<Rightarrow> number \<Rightarrow> number \<Rightarrow> number"
  float32 :: "number \<Rightarrow> 32 word"
  Matrix4_inverse :: "matrix4 \<Rightarrow> error + matrix4"
  octEncode :: "cartesian3 \<Rightarrow> error + number \<times> number"
  AddAttribute :: "draco_attribute list \<Rightarrow> draco_attribute \<Rightarrow> int"
  EncodePointCloudToDracoBuffer ::
    "draco_attribute list \<Rightarrow> encoder_settings \<Rightarrow> int \<times> (nat \<Rightarrow> int)"

subsection \<open>Arithmetic\<close>

fun js_neg :: "number \<Rightarrow> number" where
  "js_neg (Num a) = Num (- a)"
| "js_neg NaN = NaN"
| "js_neg PosInfinity = NegInfinity"
| "js_neg NegInfinity = PosInfinity"

fun js_add :: "('rng, 'sx) externals \<Rightarrow> number \<Rightarrow> number \<Rightarrow> number" where
  "js_add X (Num a) (Num b) = round64 X (a + b)"
| "js_add X NaN b = NaN"
| "js_add X a NaN = NaN"
| "js_add X PosInfinity NegInfinity = NaN"
| "js_add X NegInfinity PosInfinity = NaN"
| "js_add X PosInfinity b = PosInfinity"
| "js_add X a PosInfinity = PosInfinity"
| "js_add X NegInfinity b = NegInfinity"
| "js_add X a NegInfinity = NegInfinity"

definition js_sub :: "('rng, 'sx) externals \<Rightarrow> number \<Rightarrow> number \<Rightarrow> number" where
  "js_sub X a b = js_add X a (js_neg b)"

fun js_mul :: "('rng, 'sx) externals \<Rightarrow> number \<Rightarrow> number \<Rightarrow> number" where
  "js_mul X (Num a) (Num b) = round64 X (a * b)"
| "js_mul X NaN b = NaN"
| "js_mul X a NaN = NaN"
| "js_mul X PosInfinity (Num b) =
     (if b = 0 then NaN else if 0 < b then PosInfinity else NegInfinity)"
| "js_mul X NegInfinity (Num b) =
     (if b = 0 then NaN else if 0 < b then NegInfinity else PosInfinity)"
| "js_mul X (Num a) PosInfinity =
     (if a = 0 then NaN else if 0 < a then PosInfinity else NegInfinity)"
| "js_mul X (Num a) NegInfinity =
     (if a = 0 then NaN else if 0 < a then NegInfinity else PosInfinity)"
| "js_mul X PosInfinity PosInfinity = PosInfinity"
| "js_mul X PosInfinity NegInfinity = NegInfinity"
| "js_mul X NegInfinity PosInfinity = NegInfinity"
| "js_mul X NegInfinity NegInfinity = PosInfinity"

fun js_div :: "('rng, 'sx) externals \<Rightarrow> number \<Rightarrow> number \<Rightarrow> number" where
  "js_div X (Num a) (Num b) =
     (if b = 0 then (if a = 0 then NaN else if 0 < a then PosInfinity else NegInfinity)
      else round64 X (a / b))"
| "js_div X NaN b = NaN"
| "js_div X a NaN = NaN"
| "js_div X (Num a) PosInfinity = Num 0"
| "js_div X (Num a) NegInfinity = Num 0"
| "js_div X PosInfinity (Num b) = (if 0 \<le> b then PosInfinity else NegInfinity)"
| "js_div X NegInfinity (Num b) = (if 0 \<le> b then NegInfinity else PosInfinity)"
| "js_div X PosInfinity b = NaN"
| "js_div X NegInfinity b = NaN"

text \<open>\<^verbatim>\<open>a > b\<close> and \<^verbatim>\<open>a === b\<close> on numbers, and \<^verbatim>\<open>isNaN\<close>.\<close>

fun js_gt :: "number \<Rightarrow> number \<Rightarrow> bool" where
  "js_gt (Num a) (Num b) = (b < a)"
| "js_gt NaN b = False"
| "js_gt a NaN = False"
| "js_gt PosInfinity PosInfinity = False"
| "js_gt PosInfinity b = True"
| "js_gt a NegInfinity = (a \<noteq> NegInfinity)"
| "js_gt a b = False"

fun js_eq :: "number \<Rightarrow> number \<Rightarrow> bool" where
  "js_eq (Num a) (Num b) = (a = b)"
| "js_eq PosInfinity PosInfinity = True"
| "js_eq NegInfinity NegInfinity = True"
| "js_eq a b = False"

fun isNaN :: "number \<Rightarrow> bool" where
  "isNaN NaN = True"
| "isNaN a = False"

text \<open>\<^verbatim>\<open>Math.floor\<close> and \<^verbatim>\<open>Math.abs\<close> are exact; \<^verbatim>\<open>Math.sqrt\<close>, \<^verbatim>\<open>Math.cos\<close> and
  \<^verbatim>\<open>Math.sin\<close> are taken as the rounded exact values, \<^verbatim>\<open>Math.PI\<close> as the rounded
  \<open>pi\<close>.\<close>

fun Math_floor :: "number \<Rightarrow> number" where
  "Math_floor (Num a) = Num (of_int \<lfloor>a\<rfloor>)"
| "Math_floor a = a"

fun Math_abs :: "number \<Rightarrow> number" where
  "Math_abs (Num a) = Num \<bar>a\<bar>"
| "Math_abs NaN = NaN"
| "Math_abs a = PosInfinity"

fun Math_sqrt :: "('rng, 'sx) externals \<Rightarrow> number \<Rightarrow> number" where
  "Math_sqrt X (Num a) = (if a < 0 then NaN else round64 X (sqrt a))"
| "Math_sqrt X PosInfinity = PosInfinity"
| "Math_sqrt X a = NaN"

fun Math_cos :: "('rng, 'sx) externals \<Rightarrow> number \<Rightarrow> number" where
  "Math_cos X (Num a) = round64 X (cos a)"
| "Math_cos X a = NaN"

fun Math_sin :: "('rng, 'sx) externals \<Rightarrow> number \<Rightarrow> number" where
  "Math_sin X (Num a) = round64 X (sin a)"
| "Math_sin X a = NaN"

definition Math_PI :: "('rng, 'sx) externals \<Rightarrow> number" where
  "Math_PI X = round64 X pi"

text \<open>The operand of a shift as an integer: truncated, and 0 for NaN and the
  infinities; \<open>js_shl\<close> wraps it to 32 bits.\<close>

fun ToInt32 :: "number \<Rightarrow> int" where
  "ToInt32 (Num a) = (if 0 \<le> a then \<lfloor>a\<rfloor> else \<lceil>a\<rceil>)"
| "ToInt32 a = 0"

subsection \<open>Buffer writers on numbers\<close>

text \<open>The integer writers of Node on a number: NaN passes the range check, whose two
  comparisons are false, and is stored as 0; an infinity fails the range check.\<close>

fun writeInteger ::
  "(real \<Rightarrow> nat \<Rightarrow> buffer \<Rightarrow> error + buffer) \<Rightarrow> number \<Rightarrow> nat \<Rightarrow> buffer \<Rightarrow> error + buffer" where
  "writeInteger writer (Num v) off buf = writer v off buf"
| "writeInteger writer NaN off buf = writer 0 off buf"
| "writeInteger writer PosInfinity off buf = Inl RangeError"
| "writeInteger writer NegInfinity off buf = Inl RangeError"

text \<open>\<^verbatim>\<open>writeFloatLE\<close> accepts every number and checks the offset.\<close>

definition writeFloatLE ::
  "('rng, 'sx) externals \<Rightarrow> number \<Rightarrow> nat \<Rightarrow> buffer \<Rightarrow> error + buffer" where
  "writeFloatLE X v off buf =
     (if length buf < off + 4 then Inl RangeError
      else Inr (buf[off := ucast (float32 X v),
                    off + 1 := ucast (drop_bit 8 (float32 X v)),
                    off + 2 := ucast (drop_bit 16 (float32 X v)),
                    off + 3 := ucast (drop_bit 24 (float32 X v))]))"

subsection \<open>Cartesian3 and Matrix4 functions\<close>

definition Cartesian3_ZERO :: cartesian3 where
  "Cartesian3_ZERO = Cartesian3 (Num 0) (Num 0) (Num 0)"

text \<open>The two arguments are never the same object in this file, so the comparison is
  by components, with \<^verbatim>\<open>===\<close>.\<close>

definition Cartesian3_equals :: "cartesian3 \<Rightarrow> cartesian3 \<Rightarrow> bool" where
  "Cartesian3_equals left right =
     (js_eq (cart_x left) (cart_x right) \<and> js_eq (cart_y left) (cart_y right) \<and>
      js_eq (cart_z left) (cart_z right))"

definition Cartesian3_magnitudeSquared ::
  "('rng, 'sx) externals \<Rightarrow> cartesian3 \<Rightarrow> number" where
  "Cartesian3_magnitudeSquared X c =
     js_add X (js_add X (js_mul X (cart_x c) (cart_x c)) (js_mul X (cart_y c) (cart_y c)))
       (js_mul X (cart_z c) (cart_z c))"

definition Cartesian3_magnitude :: "('rng, 'sx) externals \<Rightarrow> cartesian3 \<Rightarrow> number" where
  "Cartesian3_magnitude X c = Math_sqrt X (Cartesian3_magnitudeSquared X c)"

text \<open>\<^verbatim>\<open>Cartesian3.normalize\<close> divides by the magnitude and, in the unminified build that
  \<^verbatim>\<open>require('cesium')\<close> loads, throws a DeveloperError when a component of the result is
  NaN.\<close>

definition Cartesian3_normalize ::
  "('rng, 'sx) externals \<Rightarrow> cartesian3 \<Rightarrow> error + cartesian3" where
  "Cartesian3_normalize X c =
     (let magnitude = Cartesian3_magnitude X c;
          x = js_div X (cart_x c) magnitude;
          y = js_div X (cart_y c) magnitude;
          z = js_div X (cart_z c) magnitude
      in if isNaN x \<or> isNaN y \<or> isNaN z then Inl DeveloperError
         else Inr (Cartesian3 x y z))"

definition Cartesian3_multiplyByScalar ::
  "('rng, 'sx) externals \<Rightarrow> cartesian3 \<Rightarrow> number \<Rightarrow> cartesian3" where
  "Cartesian3_multiplyByScalar X c scalar =
     Cartesian3 (js_mul X (cart_x c) scalar) (js_mul X (cart_y c) scalar)
       (js_mul X (cart_z c) scalar)"

definition Cartesian3_subtract ::
  "('rng, 'sx) externals \<Rightarrow> cartesian3 \<Rightarrow> cartesian3 \<Rightarrow> cartesian3" where
  "Cartesian3_subtract X left right =
     Cartesian3 (js_sub X (cart_x left) (cart_x right)) (js_sub X (cart_y left) (cart_y right))
       (js_sub X (cart_z left) (cart_z right))"

definition Matrix4_IDENTITY :: matrix4 where
  "Matrix4_IDENTITY =
     Matrix4 (Num 1) (Num 0) (Num 0) (Num 0)  (Num 0) (Num 1) (Num 0) (Num 0)
             (Num 0) (Num 0) (Num 1) (Num 0)  (Num 0) (Num 0) (Num 0) (Num 1)"

fun Matrix4_getTranslation :: "matrix4 \<Rightarrow> cartesian3" where
  "Matrix4_getTranslation (Matrix4 m0 m1 m2 m3 m4 m5 m6 m7 m8 m9 m10 m11 m12 m13 m14 m15) =
     Cartesian3 m12 m13 m14"

fun Matrix4_transpose :: "matrix4 \<Rightarrow> matrix4" where
  "Matrix4_transpose (Matrix4 m0 m1 m2 m3 m4 m5 m6 m7 m8 m9 m10 m11 m12 m13 m14 m15) =
     Matrix4 m0 m4 m8 m12  m1 m5 m9 m13  m2 m6 m10 m14  m3 m7 m11 m15"

fun Matrix4_multiplyByPoint ::
  "('rng, 'sx) externals \<Rightarrow> matrix4 \<Rightarrow> cartesian3 \<Rightarrow> cartesian3" where
  "Matrix4_multiplyByPoint X
       (Matrix4 m0 m1 m2 m3 m4 m5 m6 m7 m8 m9 m10 m11 m12 m13 m14 m15) c =
     (let vX = cart_x c; vY = cart_y c; vZ = cart_z c in
      Cartesian3
        (js_add X (js_add X (js_add X (js_mul X m0 vX) (js_mul X m4 vY)) (js_mul X m8 vZ)) m12)
        (js_add X (js_add X (js_add X (js_mul X m1 vX) (js_mul X m5 vY)) (js_mul X m9 vZ)) m13)
        (js_add X (js_add X (js_add X (js_mul X m2 vX) (js_mul X m6 vY)) (js_mul X m10 vZ))
           m14))"

fun Matrix4_multiplyByPointAsVector ::
  "('rng, 'sx) externals \<Rightarrow> matrix4 \<Rightarrow> cartesian3 \<Rightarrow> cartesian3" where
  "Matrix4_multiplyByPointAsVector X
       (Matrix4 m0 m1 m2 m3 m4 m5 m6 m7 m8 m9 m10 m11 m12 m13 m14 m15) c =
     (let vX = cart_x c; vY = cart_y c; vZ = cart_z c in
      Cartesian3
        (js_add X (js_add X (js_mul X m0 vX) (js_mul X m4 vY)) (js_mul X m8 vZ))
        (js_add X (js_add X (js_mul X m1 vX) (js_mul X m5 vY)) (js_mul X m9 vZ))
        (js_add X (js_add X (js_mul X m2 vX) (js_mul X m6 vY)) (js_mul X m10 vZ)))"

subsection \<open>The state of the module\<close>

text \<open>The generator behind \<^verbatim>\<open>CesiumMath.nextRandomNumber\<close> and the variable
  \<^verbatim>\<open>simplex\<close>. The scratch objects of the module are written in full before they are
  read in every call, so they are local values of the model.\<close>

record ('rng, 'sx) module_state =
  randomNumberGenerator :: 'rng
  simplex :: 'sx

text \<open>Lines 25 and 26, run once when the module is loaded.\<close>

definition moduleLoad :: "('rng, 'sx) externals \<Rightarrow> ('rng, 'sx) module_state" where
  "moduleLoad X =
     (let rng = setRandomNumberSeed X 0;
          (sx, rng) = newSimplexNoise X rng
      in \<lparr>randomNumberGenerator = rng, simplex = sx\<rparr>)"

text \<open>Loops whose body draws random numbers and may throw: the generator's state is
  threaded through and survives an exception.\<close>

fun forLoopS :: "nat list \<Rightarrow> (nat \<Rightarrow> 's \<Rightarrow> 'rng \<Rightarrow> (error + 's) \<times> 'rng) \<Rightarrow> 's \<Rightarrow> 'rng
                   \<Rightarrow> (error + 's) \<times> 'rng" where
  "forLoopS [] body s rng = (Inr s, rng)"
| "forLoopS (i # is) body s rng =
     (case body i s rng of
        (Inl e, rng) \<Rightarrow> (Inl e, rng)
      | (Inr s, rng) \<Rightarrow> forLoopS is body s rng)"

text \<open>\<^verbatim>\<open>Color.fromRandom()\<close> without options draws red, green, blue and alpha.\<close>

definition Color_fromRandom :: "('rng, 'sx) externals \<Rightarrow> 'rng \<Rightarrow> color \<times> 'rng" where
  "Color_fromRandom X rng =
     (let (r, rng) = nextRandomNumber X rng;
          (g, rng) = nextRandomNumber X rng;
          (b, rng) = nextRandomNumber X rng;
          (a, rng) = nextRandomNumber X rng
      in (Color (Num r) (Num g) (Num b) (Num a), rng))"

section \<open>Batch table contents\<close>

text \<open>JavaScript's conversion of a non-negative integer to a string, for
  \<^verbatim>\<open>'section' + i\<close>.\<close>

fun numberToString :: "nat \<Rightarrow> string" where
  "numberToString n =
     (if n < 10 then [''0123456789'' ! n]
      else numberToString (n div 10) @ [''0123456789'' ! (n mod 10)])"

text \<open>The values a batch table JSON and a feature table JSON hold under their keys.\<close>

datatype bt_value =
    BtAttribute nat component_datatype attribute_type
      \<comment> \<open>\<^verbatim>\<open>{byteOffset, componentType, type}\<close>\<close>
  | BtNames "string list"
  | BtExtensions "string \<rightharpoonup> int"
      \<comment> \<open>\<^verbatim>\<open>{'3DTILES_draco_point_compression' : {properties}}\<close>\<close>

datatype ft_value =
    FtAttribute nat "component_datatype option"
      \<comment> \<open>\<^verbatim>\<open>{byteOffset, componentType}\<close>, the latter \<^verbatim>\<open>undefined\<close> unless the name is BATCH_ID\<close>
  | FtNumber nat
  | FtArray "number list"
  | FtExtensions "string \<rightharpoonup> int" nat nat
      \<comment> \<open>\<^verbatim>\<open>{'3DTILES_draco_point_compression' : {properties, byteOffset, byteLength}}\<close>\<close>

type_synonym batch_table_json = "string \<rightharpoonup> bt_value"
type_synonym feature_table_json = "string \<rightharpoonup> ft_value"

definition getBatchTableForBatchedPoints ::
  "('rng, 'sx) externals \<Rightarrow> nat \<Rightarrow> 'rng \<Rightarrow> (error + batch_table_json \<times> buffer) \<times> 'rng" where
  "getBatchTableForBatchedPoints X batchLength' rng =
     (let dimensionsBuffer = Buffer_alloc (batchLength' * 3 * sizeOfFloat32);
          idBuffer = Buffer_alloc (batchLength' * sizeOfUint32)
      in
      case forLoopS [0..<batchLength']
             (\<lambda>i (names, dimensionsBuffer, idBuffer) rng.
                let names = names @ [''section'' @ numberToString i];
                    (r1, rng) = nextRandomNumber X rng
                in
                case writeFloatLE X (Num r1) ((i * 3) * sizeOfFloat32) dimensionsBuffer of
                  Inl e \<Rightarrow> (Inl e, rng)
                | Inr dimensionsBuffer \<Rightarrow>
                let (r2, rng) = nextRandomNumber X rng in
                case writeFloatLE X (Num r2) ((i * 3 + 1) * sizeOfFloat32) dimensionsBuffer of
                  Inl e \<Rightarrow> (Inl e, rng)
                | Inr dimensionsBuffer \<Rightarrow>
                let (r3, rng) = nextRandomNumber X rng in
                case writeFloatLE X (Num r3) ((i * 3 + 2) * sizeOfFloat32) dimensionsBuffer of
                  Inl e \<Rightarrow> (Inl e, rng)
                | Inr dimensionsBuffer \<Rightarrow>
                case writeUInt32LE (real i) (i * sizeOfUint32) idBuffer of
                  Inl e \<Rightarrow> (Inl e, rng)
                | Inr idBuffer \<Rightarrow> (Inr (names, dimensionsBuffer, idBuffer), rng))
             ([], dimensionsBuffer, idBuffer) rng of
        (Inl e, rng) \<Rightarrow> (Inl e, rng)
      | (Inr (names, dimensionsBuffer', idBuffer), rng) \<Rightarrow>
          (Inr ([''name'' \<mapsto> BtNames names,
                 ''dimensions'' \<mapsto> BtAttribute 0 FLOAT VEC3,
                 ''id'' \<mapsto> BtAttribute (length dimensionsBuffer) UNSIGNED_INT SCALAR],
                Buffer_concat [dimensionsBuffer', idBuffer]), rng))"

definition getPerPointBatchTableProperties ::
  "('rng, 'sx) externals \<Rightarrow> nat \<Rightarrow> number list \<Rightarrow> 'rng \<Rightarrow> (error + property list) \<times> 'rng" where
  "getPerPointBatchTableProperties X pointsLength noiseValues rng =
     (case forLoopS [0..<pointsLength]
             (\<lambda>i (temperaturesBuffer, secondaryColorBuffer, idBuffer) rng.
                let temperature = noiseValues ! i;
                    (r, rng) = nextRandomNumber X rng;
                    secondaryColor = [Num r, Num 0.0, Num 0.0]
                in
                (ebind (writeFloatLE X temperature (i * sizeOfFloat32) temperaturesBuffer)
                   (\<lambda>temperaturesBuffer.
                 ebind (writeFloatLE X (secondaryColor ! 0) ((i * 3) * sizeOfFloat32)
                          secondaryColorBuffer) (\<lambda>secondaryColorBuffer.
                 ebind (writeFloatLE X (secondaryColor ! 1) ((i * 3 + 1) * sizeOfFloat32)
                          secondaryColorBuffer) (\<lambda>secondaryColorBuffer.
                 ebind (writeFloatLE X (secondaryColor ! 2) ((i * 3 + 2) * sizeOfFloat32)
                          secondaryColorBuffer) (\<lambda>secondaryColorBuffer.
                 ebind (writeUInt16LE (real i) (i * sizeOfUint16) idBuffer) (\<lambda>idBuffer.
                 Inr (temperaturesBuffer, secondaryColorBuffer, idBuffer)))))), rng))
             (Buffer_alloc (pointsLength * sizeOfFloat32),
              Buffer_alloc (pointsLength * 3 * sizeOfFloat32),
              Buffer_alloc (pointsLength * sizeOfUint16)) rng of
        (Inl e, rng) \<Rightarrow> (Inl e, rng)
      | (Inr (temperaturesBuffer, secondaryColorBuffer, idBuffer), rng) \<Rightarrow>
          (Inr [\<lparr>buffer = temperaturesBuffer, propertyName = ''temperature'',
                  componentType = FLOAT, attrType = SCALAR, batchLength = None\<rparr>,
                \<lparr>buffer = secondaryColorBuffer, propertyName = ''secondaryColor'',
                  componentType = FLOAT, attrType = VEC3, batchLength = None\<rparr>,
                \<lparr>buffer = idBuffer, propertyName = ''id'',
                  componentType = UNSIGNED_SHORT, attrType = SCALAR, batchLength = None\<rparr>],
           rng))"

section \<open>Color encoders\<close>

definition getColorsRGB :: "('rng, 'sx) externals \<Rightarrow> color list \<Rightarrow> error + property" where
  "getColorsRGB X colors =
     (let colorsLength = length colors in
      ebind (forLoop [0..<colorsLength]
               (\<lambda>i buf.
                  let color = colors ! i;
                      r = Math_floor (js_mul X (red color) (Num 255));
                      g = Math_floor (js_mul X (green color) (Num 255));
                      b = Math_floor (js_mul X (blue color) (Num 255))
                  in ebind (writeInteger writeUInt8 r (i * 3) buf) (\<lambda>buf.
                     ebind (writeInteger writeUInt8 g (i * 3 + 1) buf) (\<lambda>buf.
                     writeInteger writeUInt8 b (i * 3 + 2) buf)))
               (Buffer_alloc (colorsLength * 3)))
        (\<lambda>buf. Inr \<lparr>buffer = buf, propertyName = ''RGB'', componentType = UNSIGNED_BYTE,
                     attrType = VEC3, batchLength = None\<rparr>))"

definition getColorsRGBA :: "('rng, 'sx) externals \<Rightarrow> color list \<Rightarrow> error + property" where
  "getColorsRGBA X colors =
     (let colorsLength = length colors in
      ebind (forLoop [0..<colorsLength]
               (\<lambda>i buf.
                  let color = colors ! i;
                      r = Math_floor (js_mul X (red color) (Num 255));
                      g = Math_floor (js_mul X (green color) (Num 255));
                      b = Math_floor (js_mul X (blue color) (Num 255));
                      a = Math_floor (js_mul X (alpha color) (Num 128))
                  in ebind (writeInteger writeUInt8 r (i * 4) buf) (\<lambda>buf.
                     ebind (writeInteger writeUInt8 g (i * 4 + 1) buf) (\<lambda>buf.
                     ebind (writeInteger writeUInt8 b (i * 4 + 2) buf) (\<lambda>buf.
                     writeInteger writeUInt8 a (i * 4 + 3) buf))))
               (Buffer_alloc (colorsLength * 4)))
        (\<lambda>buf. Inr \<lparr>buffer = buf, propertyName = ''RGBA'', componentType = UNSIGNED_BYTE,
                     attrType = VEC4, batchLength = None\<rparr>))"

text \<open>\<^verbatim>\<open>(r << 11) + (g << 5) + b\<close> on integers.\<close>

definition packedColor :: "int \<Rightarrow> int \<Rightarrow> int \<Rightarrow> int" where
  "packedColor r g b = js_shl r 11 + js_shl g 5 + b"

text \<open>The shifts take \<open>r\<close> and \<open>g\<close> as 32-bit integers, and \<open>b\<close> is added as a number:
  the sum is NaN or infinite when \<open>b\<close> is. For a finite \<open>b\<close>, which is an integer, the sum
  is the integer \<open>packedColor\<close>; the doubles round it only beyond \<open>2 ^ 53\<close>, where the
  writer's range check fails on the rounded and on the exact sum alike.\<close>

definition getColorsRGB565 :: "('rng, 'sx) externals \<Rightarrow> color list \<Rightarrow> error + property" where
  "getColorsRGB565 X colors =
     (let colorsLength = length colors in
      ebind (forLoop [0..<colorsLength]
               (\<lambda>i buf.
                  let color = colors ! i;
                      r = Math_floor (js_mul X (red color) (Num 31));
                      g = Math_floor (js_mul X (green color) (Num 63));
                      b = Math_floor (js_mul X (blue color) (Num 31));
                      packedColor =
                        (case b of
                           Num v \<Rightarrow> Num (of_int (packedColor (ToInt32 r) (ToInt32 g) \<lfloor>v\<rfloor>))
                         | NaN \<Rightarrow> NaN
                         | PosInfinity \<Rightarrow> PosInfinity
                         | NegInfinity \<Rightarrow> NegInfinity)
                  in writeInteger writeUInt16LE packedColor (i * sizeOfUint16) buf)
               (Buffer_alloc (colorsLength * sizeOfUint16)))
        (\<lambda>buf. Inr \<lparr>buffer = buf, propertyName = ''RGB565'', componentType = UNSIGNED_SHORT,
                     attrType = SCALAR, batchLength = None\<rparr>))"

section \<open>Procedural point source\<close>

text \<open>\<^verbatim>\<open>getPosition\<close>: the lattice coordinate of index \<open>i\<close>. \<^verbatim>\<open>width\<close> is 1 for one to
  three points, and the three divisions by \<^verbatim>\<open>width - 1\<close> then give NaN or an infinity.
  \<^verbatim>\<open>Math.round(Math.pow(pointsLength, 1/3))\<close> is taken as the rounded exact cube
  root.\<close>

definition getPosition :: "('rng, 'sx) externals \<Rightarrow> nat \<Rightarrow> nat \<Rightarrow> cartesian3" where
  "getPosition X i pointsLength =
     (let width = Num (of_int (round (real pointsLength powr (1 / 3))));
          z = Math_floor (js_div X (Num (real i)) (js_mul X width width));
          y = Math_floor (js_div X (js_sub X (Num (real i)) (js_mul X (js_mul X z width) width))
                            width);
          x = js_sub X (Num (real i)) (js_mul X width (js_add X y (js_mul X width z)));
          x = js_sub X (js_div X x (js_sub X width (Num 1))) (Num 0.5);
          y = js_sub X (js_div X y (js_sub X width (Num 1))) (Num 0.5);
          z = js_sub X (js_div X z (js_sub X width (Num 1))) (Num 0.5)
      in Cartesian3 x y z)"

text \<open>The shape and color functions are called through variables, so they share one
  type each; those that draw no random number return the generator unchanged.\<close>

type_synonym 'rng shape_function = "nat \<Rightarrow> nat \<Rightarrow> number \<Rightarrow> 'rng \<Rightarrow> cartesian3 \<times> 'rng"

type_synonym 'rng color_function = "cartesian3 \<Rightarrow> 'rng \<Rightarrow> color \<times> 'rng"

definition boxFunction :: "('rng, 'sx) externals \<Rightarrow> 'rng shape_function" where
  "boxFunction X i pointsLength radius rng =
     (let position = getPosition X i pointsLength;
          position = Cartesian3_multiplyByScalar X position radius
      in (position, rng))"

definition sphereFunction :: "('rng, 'sx) externals \<Rightarrow> 'rng shape_function" where
  "sphereFunction X i pointsLength radius rng =
     (let (r1, rng) = nextRandomNumber X rng;
          theta = js_mul X (js_mul X (Num r1) (Num 2)) (Math_PI X);
          (r2, rng) = nextRandomNumber X rng;
          phi = js_sub X (js_mul X (Num r2) (Math_PI X)) (js_div X (Math_PI X) (Num 2.0));
          x = js_mul X (js_mul X radius (Math_cos X theta)) (Math_cos X phi);
          y = js_mul X radius (Math_sin X phi);
          z = js_mul X (js_mul X radius (Math_sin X theta)) (Math_cos X phi)
      in (Cartesian3 x y z, rng))"

definition randomFunction :: "('rng, 'sx) externals \<Rightarrow> 'rng color_function" where
  "randomFunction X position rng = Color_fromRandom X rng"

definition gradientFunction :: "('rng, 'sx) externals \<Rightarrow> 'rng color_function" where
  "gradientFunction X position rng =
     (let r = js_add X (cart_x position) (Num 0.5);
          g = js_add X (cart_y position) (Num 0.5);
          b = js_add X (cart_z position) (Num 0.5)
      in (Color r g b (Num 1.0), rng))"

definition getNoise ::
  "('rng, 'sx) externals \<Rightarrow> 'sx \<Rightarrow> cartesian3 \<Rightarrow> number option \<Rightarrow> number" where
  "getNoise X sx position time =
     (let time = defaultValue time (Num 0.0) in
      Math_abs (noise4D X sx (cart_x position) (cart_y position) (cart_z position) time))"

definition getNoiseFunction ::
  "('rng, 'sx) externals \<Rightarrow> 'sx \<Rightarrow> number option \<Rightarrow> 'rng color_function" where
  "getNoiseFunction X sx time position rng =
     (let noise = getNoise X sx position time in (Color noise noise noise noise, rng))"

definition getBatchId :: "cartesian3 \<Rightarrow> nat" where
  "getBatchId position =
     (let x = (if js_gt (cart_x position) (Num 0) then 0 else 1);
          y = (if js_gt (cart_y position) (Num 0) then 0 else 1);
          z = (if js_gt (cart_z position) (Num 0) then 0 else 1)
      in push_bit 2 x OR push_bit 1 y OR z)"

subsection \<open>Positions and normals\<close>

definition getPositions :: "('rng, 'sx) externals \<Rightarrow> cartesian3 list \<Rightarrow> error + property" where
  "getPositions X positions =
     (let pointsLength = length positions in
      ebind (forLoop [0..<pointsLength]
               (\<lambda>i buf.
                  let position = positions ! i in
                  ebind (writeFloatLE X (cart_x position) ((i * 3) * sizeOfFloat32) buf) (\<lambda>buf.
                  ebind (writeFloatLE X (cart_y position) ((i * 3 + 1) * sizeOfFloat32) buf) (\<lambda>buf.
                  writeFloatLE X (cart_z position) ((i * 3 + 2) * sizeOfFloat32) buf)))
               (Buffer_alloc (pointsLength * 3 * sizeOfFloat32)))
        (\<lambda>buf. Inr \<lparr>buffer = buf, propertyName = ''POSITION'', componentType = FLOAT,
                     attrType = VEC3, batchLength = None\<rparr>))"

text \<open>\<^verbatim>\<open>Math.pow(2, 16)\<close> is 65536. \<^verbatim>\<open>scale\<close> is zero for a tile of width zero, and the
  quotients are then NaN or infinite.\<close>

definition getPositionsQuantized ::
  "('rng, 'sx) externals \<Rightarrow> cartesian3 list \<Rightarrow> number \<Rightarrow> error + property" where
  "getPositionsQuantized X positions radius =
     (let min = js_neg radius;
          max = radius;
          range = js_sub X (Num 65536) (Num 1);
          scale = js_sub X max min;
          pointsLength = length positions
      in
      ebind (forLoop [0..<pointsLength]
               (\<lambda>i buf.
                  let position = positions ! i;
                      x = js_div X (js_mul X (js_sub X (cart_x position) min) range) scale;
                      y = js_div X (js_mul X (js_sub X (cart_y position) min) range) scale;
                      z = js_div X (js_mul X (js_sub X (cart_z position) min) range) scale
                  in
                  ebind (writeInteger writeUInt16LE x ((i * 3) * sizeOfUint16) buf) (\<lambda>buf.
                  ebind (writeInteger writeUInt16LE y ((i * 3 + 1) * sizeOfUint16) buf) (\<lambda>buf.
                  writeInteger writeUInt16LE z ((i * 3 + 2) * sizeOfUint16) buf)))
               (Buffer_alloc (pointsLength * 3 * sizeOfUint16)))
        (\<lambda>buf. Inr \<lparr>buffer = buf, propertyName = ''POSITION_QUANTIZED'',
                     componentType = UNSIGNED_SHORT, attrType = VEC3, batchLength = None\<rparr>))"

definition getNormals :: "('rng, 'sx) externals \<Rightarrow> cartesian3 list \<Rightarrow> error + property" where
  "getNormals X normals =
     (let pointsLength = length normals in
      ebind (forLoop [0..<pointsLength]
               (\<lambda>i buf.
                  let normal = normals ! i in
                  ebind (writeFloatLE X (cart_x normal) ((i * 3) * sizeOfFloat32) buf) (\<lambda>buf.
                  ebind (writeFloatLE X (cart_y normal) ((i * 3 + 1) * sizeOfFloat32) buf) (\<lambda>buf.
                  writeFloatLE X (cart_z normal) ((i * 3 + 2) * sizeOfFloat32) buf)))
               (Buffer_alloc (pointsLength * 3 * sizeOfFloat32)))
        (\<lambda>buf. Inr \<lparr>buffer = buf, propertyName = ''NORMAL'', componentType = FLOAT,
                     attrType = VEC3, batchLength = None\<rparr>))"

definition getNormalsOctEncoded ::
  "('rng, 'sx) externals \<Rightarrow> cartesian3 list \<Rightarrow> error + property" where
  "getNormalsOctEncoded X normals =
     (let pointsLength = length normals in
      ebind (forLoop [0..<pointsLength]
               (\<lambda>i buf.
                  ebind (octEncode X (normals ! i)) (\<lambda>encodedNormal.
                  ebind (writeInteger writeUInt8 (fst encodedNormal) (i * 2) buf) (\<lambda>buf.
                  writeInteger writeUInt8 (snd encodedNormal) (i * 2 + 1) buf)))
               (Buffer_alloc (pointsLength * 2 * sizeOfUint8)))
        (\<lambda>buf. Inr \<lparr>buffer = buf, propertyName = ''NORMAL_OCT16P'',
                     componentType = UNSIGNED_BYTE, attrType = VEC2, batchLength = None\<rparr>))"

subsection \<open>getPoints\<close>

text \<open>Lines 482 to 486: the normal of a point in local space.\<close>

definition localNormal :: "('rng, 'sx) externals \<Rightarrow> cartesian3 \<Rightarrow> error + cartesian3" where
  "localNormal X position =
     (if Cartesian3_equals position Cartesian3_ZERO
      then Inr (Cartesian3 (Num 1.0) (Num 0.0) (Num 0.0))
      else Cartesian3_normalize X position)"

text \<open>The five arrays the loop of \<^verbatim>\<open>getPoints\<close> fills, and the object it returns.\<close>

record samples =
  samplePositions :: "cartesian3 list"
  sampleNormals :: "cartesian3 list"
  sampleBatchIds :: "nat list"
  sampleColors :: "color list"
  sampleNoiseValues :: "number list"

record points =
  positionAttribute :: property
  normalAttribute :: property
  batchIdAttribute :: property
  colorAttribute :: "property option"
  noiseValues :: "number list"

text \<open>One iteration of the loop, lines 479 to 503. Calling a function variable that
  is \<^verbatim>\<open>undefined\<close> throws a TypeError.\<close>

definition getPointsStep ::
  "('rng, 'sx) externals \<Rightarrow> 'sx \<Rightarrow> nat \<Rightarrow> number \<Rightarrow> 'rng color_function option
     \<Rightarrow> 'rng shape_function option \<Rightarrow> bool \<Rightarrow> bool \<Rightarrow> matrix4 \<Rightarrow> matrix4 \<Rightarrow> cartesian3
     \<Rightarrow> number \<Rightarrow> nat \<Rightarrow> samples \<Rightarrow> 'rng \<Rightarrow> (error + samples) \<times> 'rng" where
  "getPointsStep X sx pointsLength radius colorFunction shapeFunction quantizePositions
       relativeToCenter transform inverseTranspose center time i arrays rng =
     (let unitPosition = getPosition X i pointsLength in
      case shapeFunction of
        None \<Rightarrow> (Inl TypeError, rng)
      | Some shapeFunction \<Rightarrow>
     (let (position, rng) = shapeFunction i pointsLength radius rng in
      case localNormal X position of
        Inl e \<Rightarrow> (Inl e, rng)
      | Inr normal \<Rightarrow>
     (let batchId = getBatchId position in
      case colorFunction of
        None \<Rightarrow> (Inl TypeError, rng)
      | Some colorFunction \<Rightarrow>
     (let (color, rng) = colorFunction unitPosition rng;
          noise = getNoise X sx unitPosition (Some time);
          position = Matrix4_multiplyByPoint X transform position;
          normal = Matrix4_multiplyByPointAsVector X inverseTranspose normal
      in
      case Cartesian3_normalize X normal of
        Inl e \<Rightarrow> (Inl e, rng)
      | Inr normal \<Rightarrow>
     (let position = (if relativeToCenter \<or> quantizePositions
                      then Cartesian3_subtract X position center else position)
      in (Inr \<lparr>samplePositions = samplePositions arrays @ [position],
                sampleNormals = sampleNormals arrays @ [normal],
                sampleBatchIds = sampleBatchIds arrays @ [batchId],
                sampleColors = sampleColors arrays @ [color],
                sampleNoiseValues = sampleNoiseValues arrays @ [noise]\<rparr>, rng))))))"

definition getPoints ::
  "('rng, 'sx) externals \<Rightarrow> 'sx \<Rightarrow> nat \<Rightarrow> number \<Rightarrow> (color list \<Rightarrow> error + property) option
     \<Rightarrow> 'rng color_function option \<Rightarrow> 'rng shape_function option \<Rightarrow> bool \<Rightarrow> bool \<Rightarrow> bool
     \<Rightarrow> matrix4 \<Rightarrow> number \<Rightarrow> 'rng \<Rightarrow> (error + points) \<times> 'rng" where
  "getPoints X sx pointsLength radius colorModeFunction colorFunction shapeFunction
       quantizePositions octEncodeNormals relativeToCenter transform time rng =
     (case Matrix4_inverse X (Matrix4_transpose transform) of
        Inl e \<Rightarrow> (Inl e, rng)
      | Inr inverseTranspose \<Rightarrow>
     (let center = Matrix4_getTranslation transform in
      case forLoopS [0..<pointsLength]
             (getPointsStep X sx pointsLength radius colorFunction shapeFunction
                quantizePositions relativeToCenter transform inverseTranspose center time)
             \<lparr>samplePositions = [], sampleNormals = [], sampleBatchIds = [],
              sampleColors = [], sampleNoiseValues = []\<rparr> rng of
        (Inl e, rng) \<Rightarrow> (Inl e, rng)
      | (Inr arrays, rng) \<Rightarrow>
          (ebind (if quantizePositions
                  then getPositionsQuantized X (samplePositions arrays) radius
                  else getPositions X (samplePositions arrays)) (\<lambda>positionAttribute.
           ebind (if octEncodeNormals then getNormalsOctEncoded X (sampleNormals arrays)
                  else getNormals X (sampleNormals arrays)) (\<lambda>normalAttribute.
           ebind (getBatchIds (sampleBatchIds arrays)) (\<lambda>batchIdAttribute.
           ebind (case colorModeFunction of
                    Some colorModeFunction \<Rightarrow>
                      ebind (colorModeFunction (sampleColors arrays)) (\<lambda>c. Inr (Some c))
                  | None \<Rightarrow> Inr None) (\<lambda>colorAttribute.
           Inr \<lparr>positionAttribute = positionAttribute, normalAttribute = normalAttribute,
                batchIdAttribute = batchIdAttribute, colorAttribute = colorAttribute,
                noiseValues = sampleNoiseValues arrays\<rparr>)))), rng)))"

section \<open>Buffer assembly and table descriptors\<close>

text \<open>\<^verbatim>\<open>Math.ceil(length / byteAlignment) * byteAlignment\<close>. The quotient of a length by
  1, 2, 4 or 8 is exact in floating point, so the real quotient is the value JavaScript
  computes.\<close>

definition alignedOffset :: "nat \<Rightarrow> nat \<Rightarrow> nat" where
  "alignedOffset len byteAlignment = nat \<lceil>real len / real byteAlignment\<rceil> * byteAlignment"

text \<open>\<^verbatim>\<open>defined(dracoJson) && defined(dracoJson.properties[name])\<close>, for the feature
  table's \<^verbatim>\<open>{properties, byteOffset, byteLength}\<close> and the batch table's
  \<^verbatim>\<open>{properties}\<close>.\<close>

definition dracoFeatureCovers :: "((string \<rightharpoonup> int) \<times> nat \<times> nat) option \<Rightarrow> string \<Rightarrow> bool" where
  "dracoFeatureCovers dracoFeatureTableJson name =
     (case dracoFeatureTableJson of
        None \<Rightarrow> False
      | Some (properties, byteOffset, byteLength) \<Rightarrow> defined (properties name))"

definition dracoBatchCovers :: "(string \<rightharpoonup> int) option \<Rightarrow> string \<Rightarrow> bool" where
  "dracoBatchCovers dracoBatchTableJson name =
     (case dracoBatchTableJson of
        None \<Rightarrow> False
      | Some properties \<Rightarrow> defined (properties name))"

text \<open>The body of the loop of lines 170 to 185, on the feature table JSON and binary.\<close>

definition featureTableStep ::
  "((string \<rightharpoonup> int) \<times> nat \<times> nat) option \<Rightarrow> property
     \<Rightarrow> feature_table_json \<times> buffer \<Rightarrow> feature_table_json \<times> buffer" where
  "featureTableStep dracoFeatureTableJson property state =
     (let (featureTableJson, featureTableBinary) = state;
          name = propertyName property;
          componentType = componentType property;
          byteOffset = 0;
          (byteOffset, featureTableBinary) =
            (if \<not> dracoFeatureCovers dracoFeatureTableJson name then
               let byteAlignment = getSizeInBytes componentType;
                   byteOffset = alignedOffset (length featureTableBinary) byteAlignment;
                   padding = Buffer_alloc (byteOffset - length featureTableBinary)
               in (byteOffset, Buffer_concat [featureTableBinary, padding, buffer property])
             else (byteOffset, featureTableBinary))
      in (featureTableJson(name \<mapsto>
            FtAttribute byteOffset (if name = ''BATCH_ID'' then Some componentType else None)),
          featureTableBinary))"

text \<open>The body of the loop of lines 187 to 203, on the batch table JSON and binary.\<close>

definition batchTableStep ::
  "(string \<rightharpoonup> int) option \<Rightarrow> property
     \<Rightarrow> batch_table_json \<times> buffer \<Rightarrow> batch_table_json \<times> buffer" where
  "batchTableStep dracoBatchTableJson property state =
     (let (batchTableJson, batchTableBinary) = state;
          name = propertyName property;
          componentType = componentType property;
          byteOffset = 0;
          (byteOffset, batchTableBinary) =
            (if \<not> dracoBatchCovers dracoBatchTableJson name then
               let byteAlignment = getSizeInBytes componentType;
                   byteOffset = alignedOffset (length batchTableBinary) byteAlignment;
                   padding = Buffer_alloc (byteOffset - length batchTableBinary)
               in (byteOffset, Buffer_concat [batchTableBinary, padding, buffer property])
             else (byteOffset, batchTableBinary))
      in (batchTableJson(name \<mapsto> BtAttribute byteOffset componentType (attrType property)),
          batchTableBinary))"


section \<open>Geometry compression adapter\<close>

fun getAddAttributeFunctionName :: "component_datatype \<Rightarrow> string option" where
  "getAddAttributeFunctionName UNSIGNED_BYTE = Some ''AddUInt8Attribute''"
| "getAddAttributeFunctionName BYTE = Some ''AddInt8Attribute''"
| "getAddAttributeFunctionName UNSIGNED_SHORT = Some ''AddUInt16Attribute''"
| "getAddAttributeFunctionName SHORT = Some ''AddInt16Attribute''"
| "getAddAttributeFunctionName UNSIGNED_INT = Some ''AddUInt32Attribute''"
| "getAddAttributeFunctionName SIGNED_INT = Some ''AddInt32Attribute''"
| "getAddAttributeFunctionName FLOAT = Some ''AddFloatAttribute''"
| "getAddAttributeFunctionName DOUBLE = None"

fun numberOfComponentsForType :: "attribute_type \<Rightarrow> nat" where
  "numberOfComponentsForType SCALAR = 1"
| "numberOfComponentsForType VEC2 = 2"
| "numberOfComponentsForType VEC3 = 3"
| "numberOfComponentsForType VEC4 = 4"

definition getDracoType :: "string \<Rightarrow> draco_type" where
  "getDracoType name =
     (if name = ''POSITION'' then POSITION
      else if name = ''NORMAL'' then NORMAL
      else if name = ''RGB'' \<or> name = ''RGBA'' then COLOR
      else GENERIC)"

text \<open>\<^verbatim>\<open>ComponentDatatype.createArrayBufferView\<close> without offset and length: a typed
  array over the buffer, of the buffer's length divided by the element size, which the
  typed array's constructor truncates.\<close>

definition createArrayBufferView ::
  "component_datatype \<Rightarrow> buffer \<Rightarrow> component_datatype \<times> buffer" where
  "createArrayBufferView componentDatatype buf =
     (let length' = length buf div getSizeInBytes componentDatatype
      in (componentDatatype, take (length' * getSizeInBytes componentDatatype) buf))"

record draco_results =
  dracoBuffer :: buffer
  attributeIds :: "(string \<times> int) list"

text \<open>The first loop of \<^verbatim>\<open>dracoEncodeProperties\<close>, lines 295 to 304, on the point cloud
  built so far and the object \<^verbatim>\<open>attributeIds\<close>. An entry of \<^verbatim>\<open>properties\<close> is
  \<^verbatim>\<open>undefined\<close> when \<^verbatim>\<open>getPropertyByName\<close> found no attribute of the name.\<close>

definition addProperty ::
  "('rng, 'sx) externals \<Rightarrow> nat \<Rightarrow> property option list \<Rightarrow> nat
     \<Rightarrow> draco_attribute list \<times> (string \<times> int) list
     \<Rightarrow> error + draco_attribute list \<times> (string \<times> int) list" where
  "addProperty X pointsLength properties i state =
     (case properties ! i of
        None \<Rightarrow> Inl TypeError
      | Some property \<Rightarrow>
          (let (pointCloud, attributeIds) = state;
               componentDatatype = componentType property;
               typedArray = createArrayBufferView componentDatatype (buffer property);
               numberOfComponents = numberOfComponentsForType (attrType property);
               addAttributeFunctionName = getAddAttributeFunctionName componentDatatype;
               name = propertyName property;
               dracoType = getDracoType name
           in
           case addAttributeFunctionName of
             None \<Rightarrow> Inl TypeError
           | Some addAttributeFunctionName \<Rightarrow>
               (let attribute = \<lparr>addFunction = addAttributeFunctionName, dracoType = dracoType,
                                  numPoints = pointsLength,
                                  numberOfComponents = numberOfComponents,
                                  typedArray = typedArray\<rparr>
                in Inr (pointCloud @ [attribute],
                        AList.update name (AddAttribute X pointCloud attribute) attributeIds))))"

text \<open>Lines 306 to 320: the encoder's settings; the encoding method is set only when the
  order is to be preserved.\<close>

definition encoderSettings :: "bool \<Rightarrow> encoder_settings" where
  "encoderSettings preserveOrder =
     (let dracoCompressionSpeed = 7;
          dracoPositionBits = 14;
          dracoNormalBits = 8;
          dracoColorBits = 8;
          dracoGenericBits = 12;
          encoder = \<lparr>speedOptions = dracoCompressionSpeed,
                     attributeQuantization =
                       [(POSITION, dracoPositionBits), (NORMAL, dracoNormalBits),
                        (COLOR, dracoColorBits), (GENERIC, dracoGenericBits)],
                     encodingMethod = None\<rparr>
      in if preserveOrder
         then encoder\<lparr>encodingMethod := Some POINT_CLOUD_SEQUENTIAL_ENCODING\<rparr>
         else encoder)"

definition dracoEncodeProperties ::
  "('rng, 'sx) externals \<Rightarrow> nat \<Rightarrow> property option list \<Rightarrow> bool \<Rightarrow> error + draco_results" where
  "dracoEncodeProperties X pointsLength properties preserveOrder =
     ebind (forLoop [0..<length properties] (addProperty X pointsLength properties) ([], []))
       (\<lambda>(pointCloud, attributeIds).
          let encoder = encoderSettings preserveOrder;
              (encodedLength, encodedDracoDataArray) =
                 EncodePointCloudToDracoBuffer X pointCloud encoder
          in
          if encodedLength \<le> 0 then Inl EncodingFailed
          else
            let encodedData =
                  fold (\<lambda>i encodedData. encodedData[i := word_of_int (encodedDracoDataArray i)])
                    [0..<nat encodedLength] (Buffer_alloc (nat encodedLength))
            in Inr \<lparr>dracoBuffer = encodedData, attributeIds = attributeIds\<rparr>)"

text \<open>\<^verbatim>\<open>properties.find\<close> on an array of attributes, and on an array that may hold
  \<^verbatim>\<open>undefined\<close>, where reading \<^verbatim>\<open>element.propertyName\<close> throws a TypeError.\<close>

fun getPropertyByName :: "property list \<Rightarrow> string \<Rightarrow> property option" where
  "getPropertyByName [] name = None"
| "getPropertyByName (element # properties) name =
     (if propertyName element = name then Some element
      else getPropertyByName properties name)"

fun getPropertyByNameU :: "property option list \<Rightarrow> string \<Rightarrow> error + property option" where
  "getPropertyByNameU [] name = Inr None"
| "getPropertyByNameU (None # properties) name = Inl TypeError"
| "getPropertyByNameU (Some element # properties) name =
     (if propertyName element = name then Inr (Some element)
      else getPropertyByNameU properties name)"

text \<open>Lines 347 to 362 of \<^verbatim>\<open>dracoEncode\<close>: the attributes handed to the encoder and the
  encoding order.\<close>

definition dracoPropertiesOf ::
  "string list option \<Rightarrow> property list \<Rightarrow> property list \<Rightarrow> property option list" where
  "dracoPropertiesOf dracoSemantics featureTableProperties batchTableProperties =
     (case dracoSemantics of
        None \<Rightarrow> [] @ map Some featureTableProperties
      | Some dracoSemantics \<Rightarrow>
          fold (\<lambda>i dracoProperties.
                  dracoProperties @
                    [getPropertyByName featureTableProperties (dracoSemantics ! i)])
            [0..<length dracoSemantics] [])
     @ map Some batchTableProperties"

definition preserveOrderOf ::
  "property option list \<Rightarrow> property list \<Rightarrow> property list \<Rightarrow> error + bool" where
  "preserveOrderOf dracoProperties featureTableProperties batchTableProperties =
     ebind (getPropertyByNameU dracoProperties ''NORMAL'') (\<lambda>normal.
       let encodeNormals = defined normal;
           hasUncompressedAttributes =
             length dracoProperties
               < length featureTableProperties + length batchTableProperties
       in Inr (encodeNormals \<or> hasUncompressedAttributes))"

record draco_encoded =
  encodedBuffer :: buffer
  dracoFeatureTableJson :: "((string \<rightharpoonup> int) \<times> nat \<times> nat) option"
  dracoBatchTableJson :: "(string \<rightharpoonup> int) option"

text \<open>\<^verbatim>\<open>Object.keys\<close> of the two objects has three keys and one key, whatever the
  properties are.\<close>

definition dracoEncode ::
  "('rng, 'sx) externals \<Rightarrow> nat \<Rightarrow> string list option \<Rightarrow> property list \<Rightarrow> property list
     \<Rightarrow> error + draco_encoded" where
  "dracoEncode X pointsLength dracoSemantics featureTableProperties batchTableProperties =
     (let dracoProperties =
            dracoPropertiesOf dracoSemantics featureTableProperties batchTableProperties
      in
      ebind (preserveOrderOf dracoProperties featureTableProperties batchTableProperties)
        (\<lambda>preserveOrder.
      ebind (dracoEncodeProperties X pointsLength dracoProperties preserveOrder)
        (\<lambda>dracoResults.
      let dracoBuffer = dracoBuffer dracoResults;
          dracoAttributeIds = attributeIds dracoResults;
          (featureProperties, batchProperties) =
             fold (\<lambda>(name, attributeId) (featureProperties, batchProperties).
                     (if defined (getPropertyByName featureTableProperties name)
                      then featureProperties(name \<mapsto> attributeId) else featureProperties,
                      if defined (getPropertyByName batchTableProperties name)
                      then batchProperties(name \<mapsto> attributeId) else batchProperties))
               dracoAttributeIds (Map.empty, Map.empty);
          featureKeys = [''properties'', ''byteOffset'', ''byteLength''];
          batchKeys = [''properties'']
      in Inr \<lparr>encodedBuffer = dracoBuffer,
               dracoFeatureTableJson =
                 (if length featureKeys = 0 then None
                  else Some (featureProperties, 0, length dracoBuffer)),
               dracoBatchTableJson =
                 (if length batchKeys = 0 then None else Some batchProperties)\<rparr>)))"

section \<open>The two tables of a tile\<close>

text \<open>What \<^verbatim>\<open>createPointCloudTile\<close> hands to \<^verbatim>\<open>createPnts\<close>, with the list of extensions
  it returns beside the tile. \<^verbatim>\<open>createPnts\<close> writes the container and is in a file
  outside the sources at hand.\<close>

record tile =
  featureTableJson :: feature_table_json
  featureTableBinary :: buffer
  batchTableJson :: batch_table_json
  batchTableBinary :: buffer
  extensionsUsed :: "string list option"

text \<open>Lines 131 to 217: the two tables from the attributes and the result of the
  compression, before the per-batch table replaces the batch table.\<close>

definition assembleTables ::
  "('rng, 'sx) externals \<Rightarrow> draco_encoded option \<Rightarrow> property list \<Rightarrow> property list \<Rightarrow> nat
     \<Rightarrow> number list option \<Rightarrow> bool \<Rightarrow> bool \<Rightarrow> number \<Rightarrow> number \<Rightarrow> cartesian3 \<Rightarrow> tile" where
  "assembleTables X dracoResults featureTableProperties batchTableProperties pointsLength
       constantColor quantizePositions relativeToCenter tileWidth radius center =
     (let featureTableJson = Map.empty;
          featureTableBinary = Buffer_alloc 0;
          batchTableJson = Map.empty;
          batchTableBinary = Buffer_alloc 0;
          (featureTableJson, featureTableBinary, batchTableJson, extensionsUsed,
             dracoFeatureTableJson, dracoBatchTableJson) =
            (case dracoResults of
               None \<Rightarrow> (featureTableJson, featureTableBinary, batchTableJson, None, None, None)
             | Some dracoResults \<Rightarrow>
                 (let dracoBuffer = encodedBuffer dracoResults;
                      dracoFeatureTableJson = dracoFeatureTableJson dracoResults;
                      dracoBatchTableJson = dracoBatchTableJson dracoResults;
                      featureTableBinary = Buffer_concat [featureTableBinary, dracoBuffer];
                      featureTableJson =
                        (case dracoFeatureTableJson of
                           Some (properties, byteOffset, byteLength) \<Rightarrow>
                             featureTableJson(''extensions'' \<mapsto>
                               FtExtensions properties byteOffset byteLength)
                         | None \<Rightarrow> featureTableJson);
                      batchTableJson =
                        (case dracoBatchTableJson of
                           Some properties \<Rightarrow>
                             batchTableJson(''extensions'' \<mapsto> BtExtensions properties)
                         | None \<Rightarrow> batchTableJson)
                  in (featureTableJson, featureTableBinary, batchTableJson,
                      Some [''3DTILES_draco_point_compression''],
                      dracoFeatureTableJson, dracoBatchTableJson)));
          (featureTableJson, featureTableBinary) =
            fold (featureTableStep dracoFeatureTableJson) featureTableProperties
              (featureTableJson, featureTableBinary);
          (batchTableJson, batchTableBinary) =
            fold (batchTableStep dracoBatchTableJson) batchTableProperties
              (batchTableJson, batchTableBinary);
          featureTableJson = featureTableJson(''POINTS_LENGTH'' \<mapsto> FtNumber pointsLength);
          featureTableJson =
            (case constantColor of
               Some constantColor \<Rightarrow>
                 featureTableJson(''CONSTANT_RGBA'' \<mapsto> FtArray constantColor)
             | None \<Rightarrow> featureTableJson);
          featureTableJson =
            (if quantizePositions then
               featureTableJson(
                 ''QUANTIZED_VOLUME_SCALE'' \<mapsto> FtArray [tileWidth, tileWidth, tileWidth],
                 ''QUANTIZED_VOLUME_OFFSET'' \<mapsto>
                    FtArray [js_sub X (cart_x center) radius, js_sub X (cart_y center) radius,
                             js_sub X (cart_z center) radius])
             else if relativeToCenter then
               featureTableJson(''RTC_CENTER'' \<mapsto>
                 FtArray [cart_x center, cart_y center, cart_z center])
             else featureTableJson)
      in \<lparr>featureTableJson = featureTableJson, featureTableBinary = featureTableBinary,
          batchTableJson = batchTableJson, batchTableBinary = batchTableBinary,
          extensionsUsed = extensionsUsed\<rparr>)"

text \<open>Lines 137 to 238, from the compression to the returned object: the exception
  thrown or the tile, with the state of the generator.\<close>

definition tileOfAttributes ::
  "('rng, 'sx) externals \<Rightarrow> bool \<Rightarrow> string list option \<Rightarrow> bool \<Rightarrow> nat
     \<Rightarrow> property list \<Rightarrow> property list \<Rightarrow> property \<Rightarrow> number list option
     \<Rightarrow> bool \<Rightarrow> bool \<Rightarrow> number \<Rightarrow> number \<Rightarrow> cartesian3 \<Rightarrow> 'rng \<Rightarrow> (error + tile) \<times> 'rng" where
  "tileOfAttributes X draco dracoSemantics batched pointsLength featureTableProperties
       batchTableProperties batchIds constantColor quantizePositions relativeToCenter
       tileWidth radius center rng =
     (case (if draco
            then ebind (dracoEncode X pointsLength dracoSemantics featureTableProperties
                          batchTableProperties) (\<lambda>dracoResults. Inr (Some dracoResults))
            else Inr None) of
        Inl e \<Rightarrow> (Inl e, rng)
      | Inr dracoResults \<Rightarrow>
     (let tables = assembleTables X dracoResults featureTableProperties batchTableProperties
                     pointsLength constantColor quantizePositions relativeToCenter
                     tileWidth radius center
      in
      if batched then
        (case batchLength batchIds of
           None \<Rightarrow> (Inl TypeError, rng)
         | Some batchLength' \<Rightarrow>
        (case getBatchTableForBatchedPoints X batchLength' rng of
           (Inl e, rng) \<Rightarrow> (Inl e, rng)
         | (Inr (json, binary), rng) \<Rightarrow>
             (Inr (tables\<lparr>batchTableJson := json, batchTableBinary := binary,
                     featureTableJson :=
                       (featureTableJson tables)(''BATCH_LENGTH'' \<mapsto> FtNumber batchLength')\<rparr>),
              rng)))
      else (Inr tables, rng)))"

text \<open>Lines 109 to 120: the attributes of the feature table.\<close>

definition featureTablePropertiesOf :: "points \<Rightarrow> bool \<Rightarrow> bool \<Rightarrow> property list" where
  "featureTablePropertiesOf points generateNormals batched =
     (let positions = positionAttribute points;
          normals = normalAttribute points;
          batchIds = batchIdAttribute points;
          colors = colorAttribute points;
          featureTableProperties = [positions];
          featureTableProperties =
            (case colors of
               Some colors \<Rightarrow> featureTableProperties @ [colors]
             | None \<Rightarrow> featureTableProperties);
          featureTableProperties =
            (if generateNormals then featureTableProperties @ [normals]
             else featureTableProperties);
          featureTableProperties =
            (if batched then featureTableProperties @ [batchIds]
             else featureTableProperties)
      in featureTableProperties)"

text \<open>Lines 109 to 129: the attributes of the two tables. What follows them is
  \<open>tileOfAttributes\<close>.\<close>

definition tileOfPoints ::
  "('rng, 'sx) externals \<Rightarrow> bool \<Rightarrow> string list option \<Rightarrow> bool \<Rightarrow> bool \<Rightarrow> bool \<Rightarrow> nat
     \<Rightarrow> points \<Rightarrow> number list option \<Rightarrow> bool \<Rightarrow> bool \<Rightarrow> number \<Rightarrow> number \<Rightarrow> cartesian3
     \<Rightarrow> 'rng \<Rightarrow> (error + tile) \<times> 'rng" where
  "tileOfPoints X draco dracoSemantics batched generateNormals perPointProperties pointsLength
       points constantColor quantizePositions relativeToCenter tileWidth radius center rng =
     (let batchIds = batchIdAttribute points;
          noiseValues = noiseValues points;
          featureTableProperties = featureTablePropertiesOf points generateNormals batched
      in
      case (if perPointProperties
            then getPerPointBatchTableProperties X pointsLength noiseValues rng
            else (Inr [], rng)) of
        (Inl e, rng) \<Rightarrow> (Inl e, rng)
      | (Inr batchTableProperties, rng) \<Rightarrow>
          tileOfAttributes X draco dracoSemantics batched pointsLength featureTableProperties
            batchTableProperties batchIds constantColor quantizePositions relativeToCenter
            tileWidth radius center rng)"

text \<open>Lines 79 to 106: the three function variables and the constant color, from the
  strings of the options. A variable no branch assigns stays \<^verbatim>\<open>undefined\<close>.\<close>

definition shapeFunctionOf ::
  "('rng, 'sx) externals \<Rightarrow> string \<Rightarrow> 'rng shape_function option" where
  "shapeFunctionOf X shape =
     (if shape = ''sphere'' then Some (sphereFunction X)
      else if shape = ''box'' then Some (boxFunction X)
      else None)"

definition colorFunctionOf ::
  "('rng, 'sx) externals \<Rightarrow> 'sx \<Rightarrow> string \<Rightarrow> number \<Rightarrow> 'rng color_function option" where
  "colorFunctionOf X sx color time =
     (if color = ''random'' then Some (randomFunction X)
      else if color = ''gradient'' then Some (gradientFunction X)
      else if color = ''noise'' then Some (getNoiseFunction X sx (Some time))
      else None)"

definition colorModeOf ::
  "('rng, 'sx) externals \<Rightarrow> string
     \<Rightarrow> (color list \<Rightarrow> error + property) option \<times> number list option" where
  "colorModeOf X colorMode =
     (if colorMode = ''rgb'' then (Some (getColorsRGB X), None)
      else if colorMode = ''rgba'' then (Some (getColorsRGBA X), None)
      else if colorMode = ''rgb565'' then (Some (getColorsRGB565 X), None)
      else if colorMode = ''constant'' then (None, Some [Num 255, Num 255, Num 0, Num 51])
      else (None, None))"

section \<open>createPointCloudTile\<close>

record options =
  tileWidth :: "number option"
  transform :: "matrix4 option"
  pointsLength :: "nat option"
  colorMode :: "string option"
  color :: "string option"
  shape :: "string option"
  generateNormals :: "bool option"
  draco :: "bool option"
  dracoSemantics :: "string list option"
  octEncodeNormals :: "bool option"
  quantizePositions :: "bool option"
  batched :: "bool option"
  perPointProperties :: "bool option"
  relativeToCenter :: "bool option"
  time :: "number option"

definition EMPTY_OBJECT :: options where
  "EMPTY_OBJECT =
     \<lparr>tileWidth = None, transform = None, pointsLength = None, colorMode = None,
      color = None, shape = None, generateNormals = None, draco = None,
      dracoSemantics = None, octEncodeNormals = None, quantizePositions = None,
      batched = None, perPointProperties = None, relativeToCenter = None, time = None\<rparr>"

text \<open>The function takes the state of the module and returns it with the result, which
  is the exception thrown or the tile. The generator's state is the only part of the
  state a call writes. Lines 54 to 108 are below; the rest of the body is
  \<open>tileOfPoints\<close>.\<close>

definition createPointCloudTile ::
  "('rng, 'sx) externals \<Rightarrow> options option \<Rightarrow> ('rng, 'sx) module_state
     \<Rightarrow> (error + tile) \<times> ('rng, 'sx) module_state" where
  "createPointCloudTile X options g =
     (let rng = setRandomNumberSeed X 0;
          options = defaultValue options EMPTY_OBJECT;
          tileWidth = defaultValue (tileWidth options) (Num 10.0);
          transform = defaultValue (transform options) Matrix4_IDENTITY;
          pointsLength = defaultValue (pointsLength options) 1000;
          colorMode = defaultValue (colorMode options) ''rgb'';
          color = defaultValue (color options) ''random'';
          shape = defaultValue (shape options) ''box'';
          generateNormals = defaultValue (generateNormals options) False;
          draco = defaultValue (draco options) False;
          dracoSemantics = dracoSemantics options;
          octEncodeNormals = (defaultValue (octEncodeNormals options) False \<and> \<not> draco);
          quantizePositions = (defaultValue (quantizePositions options) False \<and> \<not> draco);
          batched = defaultValue (batched options) False;
          perPointProperties = defaultValue (perPointProperties options) False;
          relativeToCenter = defaultValue (relativeToCenter options) True;
          time = defaultValue (time options) (Num 0.0);
          colorMode = (if colorMode = ''rgb565'' \<and> draco then ''rgb'' else colorMode);
          radius = js_div X tileWidth (Num 2.0);
          center = Matrix4_getTranslation transform;
          shapeFunction = shapeFunctionOf X shape;
          colorFunction = colorFunctionOf X (simplex g) color time;
          (colorModeFunction, constantColor) = colorModeOf X colorMode
      in
      case getPoints X (simplex g) pointsLength radius colorModeFunction colorFunction
             shapeFunction quantizePositions octEncodeNormals relativeToCenter transform
             time rng of
        (Inl e, rng) \<Rightarrow> (Inl e, g\<lparr>randomNumberGenerator := rng\<rparr>)
      | (Inr points, rng) \<Rightarrow>
          (case tileOfPoints X draco dracoSemantics batched generateNormals
                  perPointProperties pointsLength points constantColor quantizePositions
                  relativeToCenter tileWidth radius center rng of
             (result, rng) \<Rightarrow> (result, g\<lparr>randomNumberGenerator := rng\<rparr>)))"

section \<open>The alignment rule as the specification words it\<close>

text \<open>For each attribute in order: the alignment is the size of its component type, the
  offset is the current section length rounded up to a multiple of the alignment, the
  padding is the offset minus the current length, and the section grows by the padding,
  in zero bytes, and the attribute's bytes. \<open>sectionLayout len ps\<close> lists the padding and
  the offset of each attribute of \<open>ps\<close> appended to a section of length \<open>len\<close>, and
  \<open>sectionBytes len ps\<close> is what the section grows by.\<close>

definition roundUp :: "nat \<Rightarrow> nat \<Rightarrow> nat" where
  "roundUp len alignment = ((len + alignment - 1) div alignment) * alignment"

fun sectionLayout :: "nat \<Rightarrow> property list \<Rightarrow> (nat \<times> nat) list" where
  "sectionLayout len [] = []"
| "sectionLayout len (p # ps) =
     (let alignment = getSizeInBytes (componentType p);
          offset = roundUp len alignment;
          padding = offset - len
      in (padding, offset) # sectionLayout (offset + length (buffer p)) ps)"

definition sectionBytes :: "nat \<Rightarrow> property list \<Rightarrow> buffer" where
  "sectionBytes len ps =
     concat (map2 (\<lambda>p (padding, offset). replicate padding 0 @ buffer p) ps
               (sectionLayout len ps))"

section \<open>Module states and an instance of the parameters\<close>

text \<open>The states the module can be in: as loaded, or after a call of
  \<^verbatim>\<open>createPointCloudTile\<close> with any options, whether it returned or threw.\<close>

inductive reachable :: "('rng, 'sx) externals \<Rightarrow> ('rng, 'sx) module_state \<Rightarrow> bool"
  for X :: "('rng, 'sx) externals" where
  loaded: "reachable X (moduleLoad X)"
| called: "reachable X g \<Longrightarrow> reachable X (snd (createPointCloudTile X options g))"

text \<open>An instance of the parameters on which the model can be run: exact arithmetic, a
  generator that counts its draws and always returns 0, a noise that is 0, floats
  written as zero bits, an inverse that is right for the identity matrix, and an encoder
  that numbers the attributes in the order they are added and returns one byte per
  attribute, each 1, so that it fails on an empty point cloud.\<close>

definition stubExternals :: "(nat, unit) externals" where
  "stubExternals =
     \<lparr>round64 = Num,
      setRandomNumberSeed = (\<lambda>seed. seed),
      nextRandomNumber = (\<lambda>rng. (0, rng + 1)),
      newSimplexNoise = (\<lambda>rng. ((), rng + 256)),
      noise4D = (\<lambda>sx x y z w. Num 0),
      float32 = (\<lambda>v. 0),
      Matrix4_inverse = (\<lambda>m. Inr m),
      octEncode = (\<lambda>c. Inr (Num 0, Num 0)),
      AddAttribute = (\<lambda>pointCloud attribute. int (length pointCloud)),
      EncodePointCloudToDracoBuffer =
        (\<lambda>pointCloud encoder. (int (length pointCloud), (\<lambda>i. 1)))\<rparr>"

section \<open>Loops that fill a buffer\<close>

lemma forLoop_append:
  "forLoop (xs @ ys) body s = ebind (forLoop xs body s) (forLoop ys body)"
proof (induction xs arbitrary: s)
  case Nil
  show ?case by simp
next
  case (Cons i xs)
  show ?case by (cases "body i s") (simp_all add: Cons.IH)
qed

lemma forLoop_fill_upto:
  assumes step: "\<And>i buf. i < n \<Longrightarrow> length buf = n * k \<Longrightarrow>
                   body i buf = Inr (take (i * k) buf @ enc i @ drop (i * k + k) buf)"
      and len: "\<And>i. i < n \<Longrightarrow> length (enc i) = k"
      and j: "j \<le> n"
  shows "forLoop [0..<j] body (replicate (n * k) 0) =
           Inr (concat (map enc [0..<j]) @ replicate ((n - j) * k) 0)"
  using j
proof (induction j)
  case 0
  show ?case by simp
next
  case (Suc j)
  then have jn: "j < n" and IH: "forLoop [0..<j] body (replicate (n * k) 0) =
           Inr (concat (map enc [0..<j]) @ replicate ((n - j) * k) 0)"
    by simp_all
  have lc: "length (concat (map enc [0..<j])) = j * k"
    using jn len by (induction j) simp_all
  have split: "(n - j) * k = k + (n - Suc j) * k"
    using jn by (metis Suc_diff_Suc mult_Suc)
  define pre where "pre = concat (map enc [0..<j])"
  have lpre: "length pre = j * k" using lc by (simp add: pre_def)
  let ?buf = "pre @ replicate ((n - j) * k) 0"
  have lbuf: "length ?buf = n * k"
    using jn lpre by (simp add: algebra_simps flip: add_mult_distrib)
  have tk: "take (j * k) ?buf = pre" using lpre by simp
  have dr: "drop (j * k + k) ?buf = replicate ((n - Suc j) * k) 0"
    using lpre by (simp add: split)
  have "body j ?buf = Inr (pre @ enc j @ replicate ((n - Suc j) * k) 0)"
    using step [OF jn lbuf] tk dr by simp
  then show ?case
    using IH by (simp add: forLoop_append pre_def)
qed

lemma forLoop_fill:
  assumes "\<And>i buf. i < n \<Longrightarrow> length buf = n * k \<Longrightarrow>
                   body i buf = Inr (take (i * k) buf @ enc i @ drop (i * k + k) buf)"
      and "\<And>i. i < n \<Longrightarrow> length (enc i) = k"
  shows "forLoop [0..<n] body (Buffer_alloc (n * k)) = Inr (concat (map enc [0..<n]))"
  using forLoop_fill_upto [OF assms, of n] by (simp add: Buffer_alloc_def)

lemma update1_conv:
  "off < length buf \<Longrightarrow> buf[off := a] = take off buf @ [a] @ drop (off + 1) buf"
  by (simp add: upd_conv_take_nth_drop)

lemma update2_conv:
  "off + 1 < length buf \<Longrightarrow>
   buf[off := a, off + 1 := b] = take off buf @ [a, b] @ drop (off + 2) buf"
  by (rule nth_equalityI)
     (auto simp: nth_append nth_list_update nth_Cons' min_def intro!: arg_cong [where f = "(!) buf"])

lemma update4_conv:
  "off + 3 < length buf \<Longrightarrow>
   buf[off := a, off + 1 := b, off + 2 := c, off + 3 := d] =
     take off buf @ [a, b, c, d] @ drop (off + 4) buf"
  by (rule nth_equalityI)
     (auto simp: nth_append nth_list_update nth_Cons' min_def intro!: arg_cong [where f = "(!) buf"])

lemma fold_index:
  "fold (\<lambda>i. f (xs ! i)) [0..<length xs] a = fold f xs a"
proof (induction xs arbitrary: a rule: rev_induct)
  case Nil
  show ?case by simp
next
  case (snoc x xs)
  have "fold (\<lambda>i. f ((xs @ [x]) ! i)) [0..<length xs] a = fold (\<lambda>i. f (xs ! i)) [0..<length xs] a"
    by (rule fold_cong) (simp_all add: nth_append)
  then show ?case using snoc by simp
qed

lemma fold_max_succ:
  "fold (\<lambda>v b. max (v + 1) b) xs (a::nat) = Max (insert a ((\<lambda>v. v + 1) ` set xs))"
proof (induction xs arbitrary: a)
  case Nil
  show ?case by simp
next
  case (Cons x xs)
  have "Max (insert (max (x + 1) a) ((\<lambda>v. v + 1) ` set xs)) =
        Max (insert a (insert (x + 1) ((\<lambda>v. v + 1) ` set xs)))"
    by (cases "set xs = {}") (simp_all add: max.assoc max.commute max.left_commute)
  then show ?case using Cons by simp
qed

lemma map_index: "map (\<lambda>i. f (xs ! i)) [0..<length xs] = map f xs"
  by (rule nth_equalityI) simp_all

lemma concat_map_index:
  "concat (map (\<lambda>i. f (xs ! i)) [0..<length xs]) = concat (map f xs)"
  by (simp only: map_index)

lemma word_of_int_div_numeral:
  "(word_of_int (int v div numeral k) :: byte) = of_nat (v div numeral k)"
proof -
  have "int v div numeral k = int (v div numeral k)"
    by (simp add: zdiv_int)
  then show ?thesis by (simp only: of_int_of_nat_eq)
qed

lemma batchLength_fold:
  fixes ids :: "nat list"
  shows "fold (\<lambda>i batchLength. max (ids ! i + 1) batchLength) [0..<length ids] 0 =
     (if ids = [] then 0 else Max (set ids) + 1)"
proof (cases "ids = []")
  case True
  then show ?thesis by simp
next
  case False
  have "fold (\<lambda>i. max (ids ! i + 1)) [0..<length ids] 0 =
          Max (insert 0 ((\<lambda>v. v + 1) ` set ids))"
    using fold_index [where f = "\<lambda>v. max (v + 1)" and xs = ids and a = 0]
          fold_max_succ [of ids 0] by simp
  moreover have "Max (insert 0 ((\<lambda>v. v + 1) ` set ids)) = Max ((\<lambda>v. v + 1) ` set ids)"
    using False by (simp add: max_def)
  moreover have "Max ((\<lambda>v. v + 1) ` set ids) = Max (set ids) + 1"
    using False by (intro mono_Max_commute [symmetric]) (auto simp: mono_def)
  ultimately show ?thesis using False by simp
qed

lemma ids_bound:
  fixes ids :: "nat list"
  assumes "Max (set ids) + 1 \<le> b" and "i < length ids"
  shows "ids ! i < b"
proof -
  have "ids ! i \<le> Max (set ids)" using assms(2) by simp
  then show ?thesis using assms(1) by simp
qed

lemma writeUInt8_nat:
  assumes "v < 256" and "off < length buf"
  shows "writeUInt8 (real v) off buf = Inr (take off buf @ [of_nat v] @ drop (off + 1) buf)"
proof -
  have "real v \<le> 255" using assms(1) by simp
  moreover have "buf[off := of_nat v] = take off buf @ [of_nat v] @ drop (off + 1) buf"
    using assms(2) by (rule update1_conv)
  ultimately show ?thesis using assms(2) by (simp add: writeUInt8_def)
qed

lemma writeUInt16LE_nat:
  assumes "v < 65536" and "off + 1 < length buf"
  shows "writeUInt16LE (real v) off buf =
           Inr (take off buf @ [of_nat v, of_nat (v div 256)] @ drop (off + 2) buf)"
proof -
  have "real v \<le> 65535" using assms(1) by simp
  moreover have "buf[off := of_nat v, off + 1 := of_nat (v div 256)] =
      take off buf @ [of_nat v, of_nat (v div 256)] @ drop (off + 2) buf"
    using assms(2) by (rule update2_conv)
  ultimately show ?thesis
    using assms(2) by (simp add: writeUInt16LE_def word_of_int_div_numeral del: of_nat_div)
qed

lemma writeUInt32LE_nat:
  assumes "v < 4294967296" and "off + 3 < length buf"
  shows "writeUInt32LE (real v) off buf =
           Inr (take off buf @ [of_nat v, of_nat (v div 256), of_nat (v div 65536),
                  of_nat (v div 16777216)] @ drop (off + 4) buf)"
proof -
  have "real v \<le> 4294967295" using assms(1) by simp
  moreover have "buf[off := of_nat v, off + 1 := of_nat (v div 256),
        off + 2 := of_nat (v div 65536), off + 3 := of_nat (v div 16777216)] =
      take off buf @ [of_nat v, of_nat (v div 256), of_nat (v div 65536),
                  of_nat (v div 16777216)] @ drop (off + 4) buf"
    using assms(2) by (rule update4_conv)
  ultimately show ?thesis
    using assms(2) by (simp add: writeUInt32LE_def word_of_int_div_numeral del: of_nat_div)
qed

lemma bytes_loop8:
  assumes "\<And>i. i < length ids \<Longrightarrow> ids ! i < 256"
  shows "forLoop [0..<length ids]
           (\<lambda>i buf. writeUInt8 (real (ids ! i)) (i * sizeOfUint8) buf)
           (Buffer_alloc (length ids * sizeOfUint8)) = Inr (map of_nat ids)"
proof -
  have "forLoop [0..<length ids]
           (\<lambda>i buf. writeUInt8 (real (ids ! i)) (i * 1) buf)
           (Buffer_alloc (length ids * 1)) = Inr (concat (map (\<lambda>i. [of_nat (ids ! i)]) [0..<length ids]))"
  proof (rule forLoop_fill)
    fix i and buf :: buffer assume i: "i < length ids" and l: "length buf = length ids * 1"
    show "writeUInt8 (real (ids ! i)) (i * 1) buf = Inr (take (i * 1) buf @ [of_nat (ids ! i)] @ drop (i * 1 + 1) buf)"
      using i l assms [OF i] by (intro writeUInt8_nat) simp_all
  qed simp
  then show ?thesis
    using concat_map_index [where f = "\<lambda>v. [of_nat v :: byte]" and xs = ids]
    by (simp add: sizeOfUint8_def)
qed

lemma bytes_loop16:
  assumes "\<And>i. i < length ids \<Longrightarrow> ids ! i < 65536"
  shows "forLoop [0..<length ids]
           (\<lambda>i buf. writeUInt16LE (real (ids ! i)) (i * sizeOfUint16) buf)
           (Buffer_alloc (length ids * sizeOfUint16)) =
         Inr (concat (map (\<lambda>v. [of_nat v, of_nat (v div 256)]) ids))"
proof -
  have "forLoop [0..<length ids]
           (\<lambda>i buf. writeUInt16LE (real (ids ! i)) (i * 2) buf)
           (Buffer_alloc (length ids * 2)) =
        Inr (concat (map (\<lambda>i. [of_nat (ids ! i), of_nat (ids ! i div 256)]) [0..<length ids]))"
  proof (rule forLoop_fill)
    fix i and buf :: buffer assume i: "i < length ids" and l: "length buf = length ids * 2"
    show "writeUInt16LE (real (ids ! i)) (i * 2) buf =
        Inr (take (i * 2) buf @ [of_nat (ids ! i), of_nat (ids ! i div 256)] @ drop (i * 2 + 2) buf)"
      using i l assms [OF i] by (intro writeUInt16LE_nat) simp_all
  qed simp
  then show ?thesis
    by (simp only: sizeOfUint16_def
          concat_map_index [where f = "\<lambda>v. [of_nat v, of_nat (v div 256)]"])
qed

lemma bytes_loop32:
  assumes "\<And>i. i < length ids \<Longrightarrow> ids ! i < 4294967296"
  shows "forLoop [0..<length ids]
           (\<lambda>i buf. writeUInt32LE (real (ids ! i)) (i * sizeOfUint32) buf)
           (Buffer_alloc (length ids * sizeOfUint32)) =
         Inr (concat (map (\<lambda>v. [of_nat v, of_nat (v div 256), of_nat (v div 65536),
                                 of_nat (v div 16777216)]) ids))"
proof -
  have "forLoop [0..<length ids]
           (\<lambda>i buf. writeUInt32LE (real (ids ! i)) (i * 4) buf)
           (Buffer_alloc (length ids * 4)) =
        Inr (concat (map (\<lambda>i. [of_nat (ids ! i), of_nat (ids ! i div 256),
               of_nat (ids ! i div 65536), of_nat (ids ! i div 16777216)]) [0..<length ids]))"
  proof (rule forLoop_fill)
    fix i and buf :: buffer assume i: "i < length ids" and l: "length buf = length ids * 4"
    show "writeUInt32LE (real (ids ! i)) (i * 4) buf =
        Inr (take (i * 4) buf @ [of_nat (ids ! i), of_nat (ids ! i div 256),
               of_nat (ids ! i div 65536), of_nat (ids ! i div 16777216)] @ drop (i * 4 + 4) buf)"
      using i l assms [OF i] by (intro writeUInt32LE_nat) simp_all
  qed simp
  then show ?thesis
    by (simp only: sizeOfUint32_def
          concat_map_index [where f = "\<lambda>v. [of_nat v, of_nat (v div 256), of_nat (v div 65536),
                                 of_nat (v div 16777216)]"])
qed

section \<open>Batch ids\<close>

lemma getBatchIds_unfold:
  "getBatchIds batchIds =
     (let batchLength = (if batchIds = [] then 0 else Max (set batchIds) + 1) in
      ebind
        (if batchLength \<le> 256 then
           ebind (forLoop [0..<length batchIds]
                    (\<lambda>i buf. writeUInt8 (real (batchIds ! i)) (i * sizeOfUint8) buf)
                    (Buffer_alloc (length batchIds * sizeOfUint8)))
             (\<lambda>buf. Inr (buf, UNSIGNED_BYTE))
         else if batchLength \<le> 65536 then
           ebind (forLoop [0..<length batchIds]
                    (\<lambda>i buf. writeUInt16LE (real (batchIds ! i)) (i * sizeOfUint16) buf)
                    (Buffer_alloc (length batchIds * sizeOfUint16)))
             (\<lambda>buf. Inr (buf, UNSIGNED_SHORT))
         else
           ebind (forLoop [0..<length batchIds]
                    (\<lambda>i buf. writeUInt32LE (real (batchIds ! i)) (i * sizeOfUint32) buf)
                    (Buffer_alloc (length batchIds * sizeOfUint32)))
             (\<lambda>buf. Inr (buf, UNSIGNED_INT)))
        (\<lambda>(buf, ct). Inr \<lparr>buffer = buf, propertyName = ''BATCH_ID'', componentType = ct,
                           attrType = SCALAR, batchLength = Some batchLength\<rparr>))"
  unfolding getBatchIds_def Let_def batchLength_fold ..

lemma ids_below:
  fixes batchIds :: "nat list"
  assumes "(if batchIds = [] then 0 else Max (set batchIds) + 1) \<le> b" and "i < length batchIds"
  shows "batchIds ! i < b"
proof -
  have "batchIds \<noteq> []" using assms(2) by auto
  then show ?thesis using assms ids_bound [of batchIds b i] by simp
qed

lemma ids_above:
  fixes batchIds :: "nat list"
  assumes "b < (if batchIds = [] then 0 else Max (set batchIds) + 1)"
  shows "\<exists>v\<in>set batchIds. b \<le> v"
proof -
  have ne: "batchIds \<noteq> []" using assms by (auto split: if_splits)
  then have "Max (set batchIds) \<in> set batchIds" by (intro Max_in) simp_all
  moreover have "b \<le> Max (set batchIds)" using assms ne by simp
  ultimately show ?thesis by blast
qed

text \<open>
  Claim C3. The BATCH_ID attribute has the narrowest unsigned integer component type that
  holds \<open>batchLength\<close>, one more than the largest batch id (zero for no points):
  UNSIGNED_BYTE up to 256, UNSIGNED_SHORT above 256 and up to 65536, UNSIGNED_INT above
  65536. In the first two cases, and in the third up to \<open>2 ^ 32\<close>, the encoder returns
  the attribute, whose buffer is the ids written least significant byte first.
\<close>

theorem getBatchIds_component_type:
  fixes batchIds :: "nat list"
  shows
  "(let batchLength = (if batchIds = [] then 0 else Max (set batchIds) + 1) in
     (batchLength \<le> 256 \<longrightarrow>
        getBatchIds batchIds =
          Inr \<lparr>buffer = map of_nat batchIds, propertyName = ''BATCH_ID'',
               componentType = UNSIGNED_BYTE, attrType = SCALAR,
               batchLength = Some batchLength\<rparr>) \<and>
     (256 < batchLength \<and> batchLength \<le> 65536 \<longrightarrow>
        getBatchIds batchIds =
          Inr \<lparr>buffer = concat (map (\<lambda>v. [of_nat v, of_nat (v div 256)]) batchIds),
               propertyName = ''BATCH_ID'', componentType = UNSIGNED_SHORT, attrType = SCALAR,
               batchLength = Some batchLength\<rparr>) \<and>
     (65536 < batchLength \<and> batchLength \<le> 4294967296 \<longrightarrow>
        getBatchIds batchIds =
          Inr \<lparr>buffer = concat (map (\<lambda>v. [of_nat v, of_nat (v div 256), of_nat (v div 65536),
                                           of_nat (v div 16777216)]) batchIds),
               propertyName = ''BATCH_ID'', componentType = UNSIGNED_INT, attrType = SCALAR,
               batchLength = Some batchLength\<rparr>) \<and>
     (65536 < batchLength \<longrightarrow>
        (\<forall>p. getBatchIds batchIds = Inr p \<longrightarrow> componentType p = UNSIGNED_INT)))"
proof -
  define L where "L = (if batchIds = [] then 0 else Max (set batchIds) + 1)"
  have unf: "getBatchIds batchIds =
      ebind
        (if L \<le> 256 then
           ebind (forLoop [0..<length batchIds]
                    (\<lambda>i buf. writeUInt8 (real (batchIds ! i)) (i * sizeOfUint8) buf)
                    (Buffer_alloc (length batchIds * sizeOfUint8)))
             (\<lambda>buf. Inr (buf, UNSIGNED_BYTE))
         else if L \<le> 65536 then
           ebind (forLoop [0..<length batchIds]
                    (\<lambda>i buf. writeUInt16LE (real (batchIds ! i)) (i * sizeOfUint16) buf)
                    (Buffer_alloc (length batchIds * sizeOfUint16)))
             (\<lambda>buf. Inr (buf, UNSIGNED_SHORT))
         else
           ebind (forLoop [0..<length batchIds]
                    (\<lambda>i buf. writeUInt32LE (real (batchIds ! i)) (i * sizeOfUint32) buf)
                    (Buffer_alloc (length batchIds * sizeOfUint32)))
             (\<lambda>buf. Inr (buf, UNSIGNED_INT)))
        (\<lambda>(buf, ct). Inr \<lparr>buffer = buf, propertyName = ''BATCH_ID'', componentType = ct,
                           attrType = SCALAR, batchLength = Some L\<rparr>)"
    unfolding L_def using getBatchIds_unfold [of batchIds] by (simp only: Let_def)
  have c1: "getBatchIds batchIds =
          Inr \<lparr>buffer = map of_nat batchIds, propertyName = ''BATCH_ID'',
               componentType = UNSIGNED_BYTE, attrType = SCALAR, batchLength = Some L\<rparr>"
    if "L \<le> 256"
  proof -
    have "\<And>i. i < length batchIds \<Longrightarrow> batchIds ! i < 256"
      using that ids_below [of batchIds 256] by (simp add: L_def)
    then show ?thesis using that by (simp add: unf bytes_loop8)
  qed
  have c2: "getBatchIds batchIds =
          Inr \<lparr>buffer = concat (map (\<lambda>v. [of_nat v, of_nat (v div 256)]) batchIds),
               propertyName = ''BATCH_ID'', componentType = UNSIGNED_SHORT, attrType = SCALAR,
               batchLength = Some L\<rparr>"
    if "256 < L" "L \<le> 65536"
  proof -
    have "\<And>i. i < length batchIds \<Longrightarrow> batchIds ! i < 65536"
      using that ids_below [of batchIds 65536] by (simp add: L_def)
    then show ?thesis using that by (simp add: unf bytes_loop16)
  qed
  have c3: "getBatchIds batchIds =
          Inr \<lparr>buffer = concat (map (\<lambda>v. [of_nat v, of_nat (v div 256), of_nat (v div 65536),
                                           of_nat (v div 16777216)]) batchIds),
               propertyName = ''BATCH_ID'', componentType = UNSIGNED_INT, attrType = SCALAR,
               batchLength = Some L\<rparr>"
    if "65536 < L" "L \<le> 4294967296"
  proof -
    have "\<And>i. i < length batchIds \<Longrightarrow> batchIds ! i < 4294967296"
      using that ids_below [of batchIds 4294967296] by (simp add: L_def)
    then show ?thesis using that by (simp add: unf bytes_loop32)
  qed
  have c4: "componentType p = UNSIGNED_INT" if "65536 < L" "getBatchIds batchIds = Inr p" for p
  proof (cases "forLoop [0..<length batchIds]
                    (\<lambda>i buf. writeUInt32LE (real (batchIds ! i)) (i * sizeOfUint32) buf)
                    (Buffer_alloc (length batchIds * sizeOfUint32))")
    case (Inl e)
    then show ?thesis using that by (simp add: unf)
  next
    case (Inr buf)
    then show ?thesis using that by (auto simp: unf)
  qed
  show ?thesis
    unfolding Let_def L_def [symmetric] using c1 c2 c3 c4 by blast
qed

text \<open>The four cardinalities the specification names: 256, 257, 65536 and 65537.\<close>

theorem getBatchIds_component_type_witness:
  "getBatchIds [255] =
     Inr \<lparr>buffer = [255], propertyName = ''BATCH_ID'', componentType = UNSIGNED_BYTE,
          attrType = SCALAR, batchLength = Some 256\<rparr> \<and>
   getBatchIds [256] =
     Inr \<lparr>buffer = [0, 1], propertyName = ''BATCH_ID'', componentType = UNSIGNED_SHORT,
          attrType = SCALAR, batchLength = Some 257\<rparr> \<and>
   getBatchIds [65535] =
     Inr \<lparr>buffer = [255, 255], propertyName = ''BATCH_ID'', componentType = UNSIGNED_SHORT,
          attrType = SCALAR, batchLength = Some 65536\<rparr> \<and>
   getBatchIds [65536] =
     Inr \<lparr>buffer = [0, 0, 1, 0], propertyName = ''BATCH_ID'', componentType = UNSIGNED_INT,
          attrType = SCALAR, batchLength = Some 65537\<rparr>"
  using getBatchIds_component_type [of "[255]"] getBatchIds_component_type [of "[256]"]
        getBatchIds_component_type [of "[65535]"] getBatchIds_component_type [of "[65536]"]
  by (simp add: Let_def)

section \<open>Colors\<close>

lemma js_shl_small:
  assumes "0 \<le> a" and "a * 2 ^ n < 2 ^ 31" and "n < 32"
  shows "js_shl a n = a * 2 ^ n"
proof -
  have "push_bit n (word_of_int a :: 32 word) = word_of_int (a * 2 ^ n)"
    by (simp add: push_bit_eq_mult)
  moreover have "0 \<le> a * 2 ^ n" using assms(1) by simp
  then have "signed_take_bit (31::nat) (a * 2 ^ n) = a * 2 ^ n"
    using assms(2) by (intro signed_take_bit_int_eq_self) simp_all
  then have "sint (word_of_int (a * 2 ^ n) :: 32 word) = a * 2 ^ n"
    by (simp only: sint_sbintrunc') simp
  ultimately show ?thesis using assms(3) by (simp only: js_shl_def mod_less)
qed

lemma packedColor_value:
  assumes "0 \<le> r" "r \<le> 31" "0 \<le> g" "g \<le> 63"
  shows "packedColor r g b = r * 2048 + g * 32 + b"
proof -
  have "js_shl r 11 = r * 2 ^ 11" using assms by (intro js_shl_small) simp_all
  moreover have "js_shl g 5 = g * 2 ^ 5" using assms by (intro js_shl_small) simp_all
  ultimately show ?thesis by (simp add: packedColor_def)
qed

lemma packedColor_bits:
  assumes "0 \<le> r" "r \<le> 31" "0 \<le> g" "g \<le> 63" "0 \<le> b" "b \<le> 31"
  shows "0 \<le> packedColor r g b \<and> packedColor r g b \<le> 65535 \<and>
         drop_bit 11 (packedColor r g b) = r \<and>
         take_bit 6 (drop_bit 5 (packedColor r g b)) = g \<and>
         take_bit 5 (packedColor r g b) = b"
proof -
  define p where "p = r * 2048 + g * 32 + b"
  have v: "packedColor r g b = p"
    using assms by (simp add: packedColor_value p_def)
  have d11: "p div 2048 = r" unfolding p_def using assms by linarith
  have d5: "p div 32 = r * 64 + g" unfolding p_def using assms by linarith
  have "g mod 64 = g" using assms by (intro mod_pos_pos_trivial) simp_all
  then have m6: "(r * 64 + g) mod 64 = g" by (simp only: mod_mult_self3)
  have "p mod 32 = p - 32 * (p div 32)" by (simp add: minus_mult_div_eq_mod)
  then have m5: "p mod 32 = b" unfolding d5 by (simp add: p_def)
  have "0 \<le> p" "p \<le> 65535" unfolding p_def using assms by linarith+
  moreover have "drop_bit 11 p = r" using d11 by (simp add: drop_bit_eq_div)
  moreover have "take_bit 6 (drop_bit 5 p) = g"
    using d5 m6 by (simp add: drop_bit_eq_div take_bit_eq_mod)
  moreover have "take_bit 5 p = b" using m5 by (simp add: take_bit_eq_mod)
  ultimately show ?thesis unfolding v by blast
qed

lemma pc_full: "packedColor 31 63 31 = 0xFFFF \<and> packedColor 0 0 0 = 0x0000" by (simp add: packedColor_value)

lemma floor_scaled:
  fixes c :: real
  assumes "0 \<le> c" "c \<le> 1" "0 \<le> k"
  shows "0 \<le> \<lfloor>c * of_int k\<rfloor> \<and> \<lfloor>c * of_int k\<rfloor> \<le> k"
proof -
  have "0 \<le> c * of_int k" using assms by simp
  moreover have "c * of_int k \<le> of_int k" using assms by (simp add: mult_left_le_one_le)
  then have "\<lfloor>c * of_int k\<rfloor> \<le> \<lfloor>of_int k :: real\<rfloor>" by (rule floor_mono)
  ultimately show ?thesis by simp
qed

lemma writeUInt16LE_int:
  assumes "0 \<le> p" "p \<le> 65535" and "off + 1 < length buf"
  shows "writeUInt16LE (of_int p) off buf =
           Inr (take off buf @ [word_of_int p, word_of_int (p div 256)] @ drop (off + 2) buf)"
proof -
  have "buf[off := word_of_int p, off + 1 := word_of_int (p div 256)] =
      take off buf @ [word_of_int p, word_of_int (p div 256)] @ drop (off + 2) buf"
    using assms(3) by (rule update2_conv)
  then show ?thesis using assms by (simp add: writeUInt16LE_def)
qed

lemma writeUInt8_int:
  assumes "0 \<le> p" "p \<le> 255" and "off < length buf"
  shows "writeUInt8 (of_int p) off buf = Inr (buf[off := word_of_int p])"
  using assms by (simp add: writeUInt8_def)

lemma ToInt32_of_int: "ToInt32 (Num (of_int k)) = k"
  by simp

lemma getColorsRGB565_buffer:
  fixes X :: "('rng, 'sx) externals"
  assumes "\<And>c. c \<in> set colors \<Longrightarrow>
             0 \<le> ToInt32 (Math_floor (js_mul X (red c) (Num 31))) \<and>
             ToInt32 (Math_floor (js_mul X (red c) (Num 31))) \<le> 31 \<and>
             0 \<le> ToInt32 (Math_floor (js_mul X (green c) (Num 63))) \<and>
             ToInt32 (Math_floor (js_mul X (green c) (Num 63))) \<le> 63 \<and>
             (\<exists>k. Math_floor (js_mul X (blue c) (Num 31)) = Num (of_int k) \<and> 0 \<le> k \<and> k \<le> 31)"
  shows "getColorsRGB565 X colors =
           Inr \<lparr>buffer =
                  concat (map (\<lambda>c. [word_of_int
                                      (packedColor (ToInt32 (Math_floor (js_mul X (red c) (Num 31))))
                                         (ToInt32 (Math_floor (js_mul X (green c) (Num 63))))
                                         (ToInt32 (Math_floor (js_mul X (blue c) (Num 31))))),
                                    word_of_int
                                      (packedColor (ToInt32 (Math_floor (js_mul X (red c) (Num 31))))
                                         (ToInt32 (Math_floor (js_mul X (green c) (Num 63))))
                                         (ToInt32 (Math_floor (js_mul X (blue c) (Num 31)))) div 256)])
                            colors),
                propertyName = ''RGB565'', componentType = UNSIGNED_SHORT,
                attrType = SCALAR, batchLength = None\<rparr>"
proof -
  let ?r = "\<lambda>c. Math_floor (js_mul X (red c) (Num 31))"
  let ?g = "\<lambda>c. Math_floor (js_mul X (green c) (Num 63))"
  let ?b = "\<lambda>c. Math_floor (js_mul X (blue c) (Num 31))"
  let ?p = "\<lambda>c. packedColor (ToInt32 (?r c)) (ToInt32 (?g c)) (ToInt32 (?b c))"
  let ?enc = "\<lambda>c. [word_of_int (?p c) :: byte, word_of_int (?p c div 256)]"
  let ?body = "\<lambda>i buf. writeInteger writeUInt16LE
                  (case ?b (colors ! i) of
                     Num v \<Rightarrow> Num (of_int (packedColor (ToInt32 (?r (colors ! i)))
                                            (ToInt32 (?g (colors ! i))) \<lfloor>v\<rfloor>))
                   | NaN \<Rightarrow> NaN
                   | PosInfinity \<Rightarrow> PosInfinity
                   | NegInfinity \<Rightarrow> NegInfinity) (i * 2) buf"
  have "forLoop [0..<length colors] ?body (Buffer_alloc (length colors * 2)) =
        Inr (concat (map (\<lambda>i. ?enc (colors ! i)) [0..<length colors]))"
  proof (rule forLoop_fill)
    fix i and buf :: buffer assume i: "i < length colors" and l: "length buf = length colors * 2"
    have c: "colors ! i \<in> set colors" using i by simp
    from assms [OF c] obtain k where
      r: "0 \<le> ToInt32 (?r (colors ! i))" "ToInt32 (?r (colors ! i)) \<le> 31" and
      g: "0 \<le> ToInt32 (?g (colors ! i))" "ToInt32 (?g (colors ! i)) \<le> 63" and
      k: "?b (colors ! i) = Num (of_int k)" "0 \<le> k" "k \<le> 31"
      by blast
    have bk: "ToInt32 (?b (colors ! i)) = k" unfolding k(1) by (rule ToInt32_of_int)
    have b: "0 \<le> ?p (colors ! i) \<and> ?p (colors ! i) \<le> 65535"
      unfolding bk using r g k(2,3)
      by (intro conjI packedColor_bits [THEN conjunct1]
            packedColor_bits [THEN conjunct2, THEN conjunct1])
    have "?body i buf = writeUInt16LE (of_int (?p (colors ! i))) (i * 2) buf"
      unfolding bk unfolding k(1) by simp
    also have "\<dots> = Inr (take (i * 2) buf @ ?enc (colors ! i) @ drop (i * 2 + 2) buf)"
      using i l b by (intro writeUInt16LE_int) simp_all
    finally show "?body i buf =
        Inr (take (i * 2) buf @ ?enc (colors ! i) @ drop (i * 2 + 2) buf)" .
  qed simp
  then have "forLoop [0..<length colors] ?body (Buffer_alloc (length colors * 2)) =
      Inr (concat (map ?enc colors))"
    by (simp only: concat_map_index [where f = ?enc])
  then show ?thesis
    by (simp add: getColorsRGB565_def Let_def sizeOfUint16_def)
qed

lemma getColorsRGB565_exact:
  fixes X :: "('rng, 'sx) externals"
  assumes x: "round64 X = Num"
      and "\<And>r g b a. (r, g, b, a) \<in> set cs \<Longrightarrow>
             0 \<le> r \<and> r \<le> 1 \<and> 0 \<le> g \<and> g \<le> 1 \<and> 0 \<le> b \<and> b \<le> 1"
  shows "getColorsRGB565 X (map (\<lambda>(r, g, b, a). Color (Num r) (Num g) (Num b) (Num a)) cs) =
           Inr \<lparr>buffer =
                  concat (map (\<lambda>(r, g, b, a).
                                 [word_of_int (packedColor \<lfloor>r * 31\<rfloor> \<lfloor>g * 63\<rfloor> \<lfloor>b * 31\<rfloor>),
                                  word_of_int (packedColor \<lfloor>r * 31\<rfloor> \<lfloor>g * 63\<rfloor> \<lfloor>b * 31\<rfloor>
                                                 div 256)]) cs),
                propertyName = ''RGB565'', componentType = UNSIGNED_SHORT,
                attrType = SCALAR, batchLength = None\<rparr>"
proof -
  let ?col = "\<lambda>(r, g, b, a). Color (Num r) (Num g) (Num b) (Num a)"
  have "getColorsRGB565 X (map ?col cs) =
      Inr \<lparr>buffer =
             concat (map (\<lambda>c. [word_of_int
                                 (packedColor (ToInt32 (Math_floor (js_mul X (red c) (Num 31))))
                                    (ToInt32 (Math_floor (js_mul X (green c) (Num 63))))
                                    (ToInt32 (Math_floor (js_mul X (blue c) (Num 31))))),
                               word_of_int
                                 (packedColor (ToInt32 (Math_floor (js_mul X (red c) (Num 31))))
                                    (ToInt32 (Math_floor (js_mul X (green c) (Num 63))))
                                    (ToInt32 (Math_floor (js_mul X (blue c) (Num 31)))) div 256)])
                       (map ?col cs)),
           propertyName = ''RGB565'', componentType = UNSIGNED_SHORT,
           attrType = SCALAR, batchLength = None\<rparr>"
  proof (rule getColorsRGB565_buffer)
    fix c assume "c \<in> set (map ?col cs)"
    then obtain r g b a where m: "(r, g, b, a) \<in> set cs"
      and c: "c = Color (Num r) (Num g) (Num b) (Num a)" by auto
    note rg = assms(2) [OF m]
    have "0 \<le> \<lfloor>r * 31\<rfloor> \<and> \<lfloor>r * 31\<rfloor> \<le> 31" using floor_scaled [of r 31] rg by simp
    moreover have "0 \<le> \<lfloor>g * 63\<rfloor> \<and> \<lfloor>g * 63\<rfloor> \<le> 63" using floor_scaled [of g 63] rg by simp
    moreover have "0 \<le> \<lfloor>b * 31\<rfloor> \<and> \<lfloor>b * 31\<rfloor> \<le> 31" using floor_scaled [of b 31] rg by simp
    ultimately show "0 \<le> ToInt32 (Math_floor (js_mul X (red c) (Num 31))) \<and>
             ToInt32 (Math_floor (js_mul X (red c) (Num 31))) \<le> 31 \<and>
             0 \<le> ToInt32 (Math_floor (js_mul X (green c) (Num 63))) \<and>
             ToInt32 (Math_floor (js_mul X (green c) (Num 63))) \<le> 63 \<and>
             (\<exists>k. Math_floor (js_mul X (blue c) (Num 31)) = Num (of_int k) \<and> 0 \<le> k \<and> k \<le> 31)"
      unfolding c by (simp add: x)
  qed
  also have "concat (map (\<lambda>c. [word_of_int
                                 (packedColor (ToInt32 (Math_floor (js_mul X (red c) (Num 31))))
                                    (ToInt32 (Math_floor (js_mul X (green c) (Num 63))))
                                    (ToInt32 (Math_floor (js_mul X (blue c) (Num 31))))),
                               word_of_int
                                 (packedColor (ToInt32 (Math_floor (js_mul X (red c) (Num 31))))
                                    (ToInt32 (Math_floor (js_mul X (green c) (Num 63))))
                                    (ToInt32 (Math_floor (js_mul X (blue c) (Num 31)))) div 256)])
                       (map ?col cs)) =
      concat (map (\<lambda>(r, g, b, a).
                                 [word_of_int (packedColor \<lfloor>r * 31\<rfloor> \<lfloor>g * 63\<rfloor> \<lfloor>b * 31\<rfloor>) :: byte,
                                  word_of_int (packedColor \<lfloor>r * 31\<rfloor> \<lfloor>g * 63\<rfloor> \<lfloor>b * 31\<rfloor>
                                                 div 256)]) cs)"
    unfolding map_map
    by (rule arg_cong [where f = concat], rule map_cong) (auto simp: x)
  finally show ?thesis .
qed

text \<open>
  Claim C7. For components in range (red and blue at most 31, green at most 63), the
  packed color is \<open>(r << 11) + (g << 5) + b\<close>, that is \<open>r * 2048 + g * 32 + b\<close>, a
  16-bit value with red in the top five bits, green in the middle six and blue in the low
  five; full scale packs to \<open>0xFFFF\<close> and black to \<open>0x0000\<close>. For colors with components
  between 0 and 1, under exact arithmetic, \<^verbatim>\<open>getColorsRGB565\<close> returns an UNSIGNED_SHORT
  SCALAR attribute holding each packed color in two bytes, least significant first; and
  it does so under every rounding, for the scaled components as the code computes them,
  whenever they are in range.
\<close>

theorem getColorsRGB565_packing:
  "(0 \<le> r \<and> r \<le> 31 \<and> 0 \<le> g \<and> g \<le> 63 \<and> 0 \<le> b \<and> b \<le> 31 \<longrightarrow>
      packedColor r g b = r * 2048 + g * 32 + b \<and>
      0 \<le> packedColor r g b \<and> packedColor r g b \<le> 65535 \<and>
      drop_bit 11 (packedColor r g b) = r \<and>
      take_bit 6 (drop_bit 5 (packedColor r g b)) = g \<and>
      take_bit 5 (packedColor r g b) = b) \<and>
   packedColor 31 63 31 = 0xFFFF \<and>
   packedColor 0 0 0 = 0x0000 \<and>
   (round64 X = Num \<and>
    (\<forall>(r, g, b, a)\<in>set cs. 0 \<le> r \<and> r \<le> 1 \<and> 0 \<le> g \<and> g \<le> 1 \<and> 0 \<le> b \<and> b \<le> 1) \<longrightarrow>
      getColorsRGB565 X (map (\<lambda>(r, g, b, a). Color (Num r) (Num g) (Num b) (Num a)) cs) =
        Inr \<lparr>buffer =
               concat (map (\<lambda>(r, g, b, a).
                              [word_of_int (packedColor \<lfloor>r * 31\<rfloor> \<lfloor>g * 63\<rfloor> \<lfloor>b * 31\<rfloor>),
                               word_of_int (packedColor \<lfloor>r * 31\<rfloor> \<lfloor>g * 63\<rfloor> \<lfloor>b * 31\<rfloor>
                                              div 256)]) cs),
             propertyName = ''RGB565'', componentType = UNSIGNED_SHORT,
             attrType = SCALAR, batchLength = None\<rparr>) \<and>
   ((\<forall>c\<in>set colors.
        0 \<le> ToInt32 (Math_floor (js_mul X (red c) (Num 31))) \<and>
        ToInt32 (Math_floor (js_mul X (red c) (Num 31))) \<le> 31 \<and>
        0 \<le> ToInt32 (Math_floor (js_mul X (green c) (Num 63))) \<and>
        ToInt32 (Math_floor (js_mul X (green c) (Num 63))) \<le> 63 \<and>
        (\<exists>k. Math_floor (js_mul X (blue c) (Num 31)) = Num (of_int k) \<and> 0 \<le> k \<and> k \<le> 31)) \<longrightarrow>
      getColorsRGB565 X colors =
        Inr \<lparr>buffer =
               concat (map (\<lambda>c. [word_of_int
                                   (packedColor (ToInt32 (Math_floor (js_mul X (red c) (Num 31))))
                                      (ToInt32 (Math_floor (js_mul X (green c) (Num 63))))
                                      (ToInt32 (Math_floor (js_mul X (blue c) (Num 31))))),
                                 word_of_int
                                   (packedColor (ToInt32 (Math_floor (js_mul X (red c) (Num 31))))
                                      (ToInt32 (Math_floor (js_mul X (green c) (Num 63))))
                                      (ToInt32 (Math_floor (js_mul X (blue c) (Num 31))))
                                    div 256)])
                         colors),
             propertyName = ''RGB565'', componentType = UNSIGNED_SHORT,
             attrType = SCALAR, batchLength = None\<rparr>)"
proof (intro conjI impI)
  assume a: "0 \<le> r \<and> r \<le> 31 \<and> 0 \<le> g \<and> g \<le> 63 \<and> 0 \<le> b \<and> b \<le> 31"
  then show "packedColor r g b = r * 2048 + g * 32 + b" by (simp add: packedColor_value)
  from a packedColor_bits [of r g b]
  show "0 \<le> packedColor r g b" "packedColor r g b \<le> 65535"
    "drop_bit 11 (packedColor r g b) = r"
    "take_bit 6 (drop_bit 5 (packedColor r g b)) = g"
    "take_bit 5 (packedColor r g b) = b" by simp_all
next
  show "packedColor 31 63 31 = 0xFFFF" "packedColor 0 0 0 = 0x0000"
    using pc_full by simp_all
next
  assume "round64 X = Num \<and>
    (\<forall>(r, g, b, a)\<in>set cs. 0 \<le> r \<and> r \<le> 1 \<and> 0 \<le> g \<and> g \<le> 1 \<and> 0 \<le> b \<and> b \<le> 1)"
  then show "getColorsRGB565 X (map (\<lambda>(r, g, b, a). Color (Num r) (Num g) (Num b) (Num a)) cs) =
        Inr \<lparr>buffer =
               concat (map (\<lambda>(r, g, b, a).
                              [word_of_int (packedColor \<lfloor>r * 31\<rfloor> \<lfloor>g * 63\<rfloor> \<lfloor>b * 31\<rfloor>),
                               word_of_int (packedColor \<lfloor>r * 31\<rfloor> \<lfloor>g * 63\<rfloor> \<lfloor>b * 31\<rfloor>
                                              div 256)]) cs),
             propertyName = ''RGB565'', componentType = UNSIGNED_SHORT,
             attrType = SCALAR, batchLength = None\<rparr>"
    by (intro getColorsRGB565_exact) auto
next
  assume "\<forall>c\<in>set colors.
        0 \<le> ToInt32 (Math_floor (js_mul X (red c) (Num 31))) \<and>
        ToInt32 (Math_floor (js_mul X (red c) (Num 31))) \<le> 31 \<and>
        0 \<le> ToInt32 (Math_floor (js_mul X (green c) (Num 63))) \<and>
        ToInt32 (Math_floor (js_mul X (green c) (Num 63))) \<le> 63 \<and>
        (\<exists>k. Math_floor (js_mul X (blue c) (Num 31)) = Num (of_int k) \<and> 0 \<le> k \<and> k \<le> 31)"
  then show "getColorsRGB565 X colors =
        Inr \<lparr>buffer =
               concat (map (\<lambda>c. [word_of_int
                                   (packedColor (ToInt32 (Math_floor (js_mul X (red c) (Num 31))))
                                      (ToInt32 (Math_floor (js_mul X (green c) (Num 63))))
                                      (ToInt32 (Math_floor (js_mul X (blue c) (Num 31))))),
                                 word_of_int
                                   (packedColor (ToInt32 (Math_floor (js_mul X (red c) (Num 31))))
                                      (ToInt32 (Math_floor (js_mul X (green c) (Num 63))))
                                      (ToInt32 (Math_floor (js_mul X (blue c) (Num 31))))
                                    div 256)])
                         colors),
             propertyName = ''RGB565'', componentType = UNSIGNED_SHORT,
             attrType = SCALAR, batchLength = None\<rparr>"
    by (intro getColorsRGB565_buffer) blast
qed

text \<open>A white and a black point, under exact arithmetic.\<close>

theorem getColorsRGB565_packing_witness:
  "getColorsRGB565 stubExternals [Color (Num 1) (Num 1) (Num 1) (Num 1),
                                  Color (Num 0) (Num 0) (Num 0) (Num 1)] =
     Inr \<lparr>buffer = [255, 255, 0, 0], propertyName = ''RGB565'',
          componentType = UNSIGNED_SHORT, attrType = SCALAR, batchLength = None\<rparr> \<and>
   drop_bit 11 (packedColor 31 63 31) = 31 \<and>
   take_bit 6 (drop_bit 5 (packedColor 31 63 31)) = 63 \<and>
   take_bit 5 (packedColor 31 63 31) = 31"
  using getColorsRGB565_packing [of 31 63 31 stubExternals "[(1, 1, 1, 1), (0, 0, 0, 1)]"
          "[Color (Num 1) (Num 1) (Num 1) (Num 1), Color (Num 0) (Num 0) (Num 0) (Num 1)]"]
  by (simp add: packedColor_value stubExternals_def)


text \<open>
  Claim C8. The claim holds the stored alpha below half of full scale for every alpha
  between 0 and 1. The color \<^verbatim>\<open>gradientFunction\<close> gives the point at unit position
  \<open>(0, 0, 0.5)\<close> has alpha 1; \<^verbatim>\<open>getColorsRGBA\<close> stores it as the byte 128, and
  \<open>128 / 255\<close> is not below \<open>0.5\<close>. The arithmetic is exact on these values.
\<close>

theorem getColorsRGBA_alpha_one:
  "getColorsRGBA stubExternals
     [fst (gradientFunction stubExternals (Cartesian3 (Num 0) (Num 0) (Num 0.5)) rng)] =
     Inr \<lparr>buffer = [127, 127, 255, 128], propertyName = ''RGBA'',
          componentType = UNSIGNED_BYTE, attrType = VEC4, batchLength = None\<rparr> \<and>
   \<not> (128 / 255 < (0.5 :: real))"
  by (simp add: getColorsRGBA_def gradientFunction_def Let_def writeUInt8_def Buffer_alloc_def
        stubExternals_def eval_nat_numeral)

section \<open>Alignment of the assembled sections\<close>

lemma getSizeInBytes_pos: "0 < getSizeInBytes ct"
  by (cases ct) simp_all

lemma ceiling_nat_div:
  assumes "0 < a"
  shows "nat \<lceil>real len / real a\<rceil> = (len + a - 1) div a"
proof -
  define q where "q = (len + a - 1) div a"
  have 1: "q * a \<le> len + a - 1" by (simp add: q_def)
  have 2: "len + a - 1 < a + q * a"
    unfolding q_def using assms by (rule dividend_less_div_times)
  have up: "len \<le> q * a" using 2 assms by linarith
  have lo: "q * a < len + a" using 1 assms by linarith
  have "real len \<le> real (q * a)" using up by (simp only: of_nat_le_iff)
  then have le: "real len / real a \<le> real q"
    using assms by (simp add: pos_divide_le_eq)
  have "real (q * a) < real (len + a)" using lo by (simp only: of_nat_less_iff)
  then have "(real q - 1) * real a < real len"
    by (simp add: algebra_simps)
  then have gt: "real q - 1 < real len / real a"
    using assms by (simp add: pos_less_divide_eq)
  have "\<lceil>real len / real a\<rceil> = int q"
    by (rule ceiling_unique) (use le gt in simp_all)
  then show ?thesis by (simp add: q_def)
qed

lemma alignedOffset_roundUp:
  "0 < a \<Longrightarrow> alignedOffset len a = roundUp len a"
  by (simp add: alignedOffset_def roundUp_def ceiling_nat_div)

lemma roundUp_props:
  assumes "0 < a"
  shows "a dvd roundUp len a" and "len \<le> roundUp len a" and "roundUp len a - len < a"
proof -
  show "a dvd roundUp len a" by (simp add: roundUp_def)
  have 1: "roundUp len a \<le> len + a - 1" by (simp add: roundUp_def)
  have 2: "len + a - 1 < a + roundUp len a"
    unfolding roundUp_def using assms(1) by (rule dividend_less_div_times)
  show "len \<le> roundUp len a" using 2 assms(1) by linarith
  show "roundUp len a - len < a" using 1 assms(1) by linarith
qed

lemma featureTableStep_eq:
  "featureTableStep d p (j, b) =
     (j(propertyName p \<mapsto>
          FtAttribute
            (if dracoFeatureCovers d (propertyName p) then 0
             else roundUp (length b) (getSizeInBytes (componentType p)))
            (if propertyName p = ''BATCH_ID'' then Some (componentType p) else None)),
      if dracoFeatureCovers d (propertyName p) then b
      else b @ replicate (roundUp (length b) (getSizeInBytes (componentType p)) - length b) 0
             @ buffer p)"
  by (simp add: featureTableStep_def Let_def alignedOffset_roundUp getSizeInBytes_pos
        Buffer_alloc_def Buffer_concat_def)

lemma batchTableStep_eq:
  "batchTableStep d p (j, b) =
     (j(propertyName p \<mapsto>
          BtAttribute
            (if dracoBatchCovers d (propertyName p) then 0
             else roundUp (length b) (getSizeInBytes (componentType p)))
            (componentType p) (attrType p)),
      if dracoBatchCovers d (propertyName p) then b
      else b @ replicate (roundUp (length b) (getSizeInBytes (componentType p)) - length b) 0
             @ buffer p)"
  by (simp add: batchTableStep_def Let_def alignedOffset_roundUp getSizeInBytes_pos
        Buffer_alloc_def Buffer_concat_def)

lemma sectionBytes_Nil: "sectionBytes len [] = []"
  by (simp add: sectionBytes_def)

lemma sectionBytes_Cons:
  "sectionBytes len (p # ps) =
     replicate (roundUp len (getSizeInBytes (componentType p)) - len) 0 @ buffer p @
     sectionBytes (roundUp len (getSizeInBytes (componentType p)) + length (buffer p)) ps"
  by (simp add: sectionBytes_def Let_def)

lemma section_binary:
  assumes step: "\<And>p j b. snd (step p (j, b)) =
      (if covered (propertyName p) then b
       else b @ replicate (roundUp (length b) (getSizeInBytes (componentType p)) - length b) 0
              @ buffer p)"
  shows "snd (fold step props (j, b)) =
           b @ sectionBytes (length b) (filter (\<lambda>p. \<not> covered (propertyName p)) props)"
proof (induction props arbitrary: j b)
  case Nil
  show ?case by (simp add: sectionBytes_Nil)
next
  case (Cons p ps)
  obtain j' b' where s: "step p (j, b) = (j', b')" by (cases "step p (j, b)")
  have b': "b' = (if covered (propertyName p) then b
       else b @ replicate (roundUp (length b) (getSizeInBytes (componentType p)) - length b) 0
              @ buffer p)"
    using step [of p j b] s by simp
  show ?case
  proof (cases "covered (propertyName p)")
    case True
    then show ?thesis using Cons [of j' b'] s b' by simp
  next
    case False
    have le: "length b \<le> roundUp (length b) (getSizeInBytes (componentType p))"
      by (rule roundUp_props(2)) (rule getSizeInBytes_pos)
    have "length b' = roundUp (length b) (getSizeInBytes (componentType p)) + length (buffer p)"
      using False b' le by simp
    then show ?thesis using Cons [of j' b'] s b' False by (simp add: sectionBytes_Cons)
  qed
qed

lemma section_json_frame:
  assumes step: "\<And>p j b. fst (step p (j, b)) = j(propertyName p \<mapsto> val p j b)"
      and n: "n \<notin> propertyName ` set props"
  shows "fst (fold step props (j, b)) n = j n"
  using n
proof (induction props arbitrary: j b)
  case Nil
  show ?case by simp
next
  case (Cons p ps)
  obtain j' b' where s: "step p (j, b) = (j', b')" by (cases "step p (j, b)")
  have "j' = j(propertyName p \<mapsto> val p j b)" using step [of p j b] s by simp
  then have "j' n = j n" using Cons.prems by auto
  moreover have "fst (fold step ps (j', b')) n = j' n" using Cons by simp
  ultimately show ?case using s by simp
qed

lemma section_json_entries:
  assumes step: "\<And>p j b. step p (j, b) =
      (j(propertyName p \<mapsto>
           val p (if covered (propertyName p) then 0
                  else roundUp (length b) (getSizeInBytes (componentType p)))),
       if covered (propertyName p) then b
       else b @ replicate (roundUp (length b) (getSizeInBytes (componentType p)) - length b) 0
              @ buffer p)"
    and d: "distinct (map propertyName props)"
  shows "list_all2 (\<lambda>p (padding, offset).
             fst (fold step props (j, b)) (propertyName p) = Some (val p offset))
           (filter (\<lambda>p. \<not> covered (propertyName p)) props)
           (sectionLayout (length b) (filter (\<lambda>p. \<not> covered (propertyName p)) props))"
  using d
proof (induction props arbitrary: j b)
  case Nil
  show ?case by simp
next
  case (Cons p ps)
  let ?off = "roundUp (length b) (getSizeInBytes (componentType p))"
  have dps: "distinct (map propertyName ps)" and np: "propertyName p \<notin> propertyName ` set ps"
    using Cons.prems by simp_all
  show ?case
  proof (cases "covered (propertyName p)")
    case True
    then have "step p (j, b) = (j(propertyName p \<mapsto> val p 0), b)" by (simp add: step)
    then have g: "fold step (p # ps) (j, b) = fold step ps (j(propertyName p \<mapsto> val p 0), b)"
      by simp
    have f: "filter (\<lambda>p. \<not> covered (propertyName p)) (p # ps) =
             filter (\<lambda>p. \<not> covered (propertyName p)) ps" using True by simp
    show ?thesis unfolding f g by (rule Cons.IH [OF dps])
  next
    case False
    let ?j = "j(propertyName p \<mapsto> val p ?off)"
    let ?b = "b @ replicate (?off - length b) 0 @ buffer p"
    have s: "step p (j, b) = (?j, ?b)" using False by (simp add: step)
    have le: "length b \<le> ?off"
      by (rule roundUp_props(2)) (rule getSizeInBytes_pos)
    then have lb: "length ?b = ?off + length (buffer p)" by simp
    have "fst (fold step ps (?j, ?b)) (propertyName p) = ?j (propertyName p)"
      by (rule section_json_frame [where val = "\<lambda>p j b. val p (if covered (propertyName p) then 0
                  else roundUp (length b) (getSizeInBytes (componentType p)))"])
         (simp_all add: step np)
    then have hd: "fst (fold step ps (?j, ?b)) (propertyName p) = Some (val p ?off)" by simp
    have g: "fold step (p # ps) (j, b) = fold step ps (?j, ?b)" using s by simp
    have f: "filter (\<lambda>p. \<not> covered (propertyName p)) (p # ps) =
             p # filter (\<lambda>p. \<not> covered (propertyName p)) ps" using False by simp
    note IH = Cons.IH [OF dps, of ?j ?b, unfolded lb]
    show ?thesis unfolding f g
      by (simp only: sectionLayout.simps Let_def list_all2_Cons prod.case hd IH simp_thms)
  qed
qed

lemma section_aligned:
  "list_all2 (\<lambda>p (padding, offset).
       getSizeInBytes (componentType p) dvd offset \<and>
       padding < getSizeInBytes (componentType p) \<and>
       take (length (buffer p)) (drop offset (b @ sectionBytes (length b) ps)) = buffer p)
     ps (sectionLayout (length b) ps)"
proof (induction ps arbitrary: b)
  case Nil
  show ?case by simp
next
  case (Cons p ps)
  let ?a = "getSizeInBytes (componentType p)"
  let ?off = "roundUp (length b) ?a"
  let ?b = "b @ replicate (?off - length b) 0 @ buffer p"
  have a: "0 < ?a" by (rule getSizeInBytes_pos)
  have le: "length b \<le> ?off" using a by (rule roundUp_props(2))
  then have lb: "length ?b = ?off + length (buffer p)" by simp
  have whole: "b @ sectionBytes (length b) (p # ps) = ?b @ sectionBytes (length ?b) ps"
    by (simp add: sectionBytes_Cons lb del: length_append)
  have "length (b @ replicate (?off - length b) 0) = ?off" using le by simp
  then have "drop ?off (b @ sectionBytes (length b) (p # ps)) =
          buffer p @ sectionBytes (?off + length (buffer p)) ps"
    by (metis append.assoc append_eq_conv_conj sectionBytes_Cons)
  then have hd: "take (length (buffer p)) (drop ?off (b @ sectionBytes (length b) (p # ps))) =
          buffer p" by simp
  have tl: "list_all2 (\<lambda>q (padding, offset).
       getSizeInBytes (componentType q) dvd offset \<and>
       padding < getSizeInBytes (componentType q) \<and>
       take (length (buffer q)) (drop offset (b @ sectionBytes (length b) (p # ps))) = buffer q)
     ps (sectionLayout (?off + length (buffer p)) ps)"
    using Cons [of ?b, unfolded whole [symmetric], unfolded lb]
    by (rule list_all2_mono) assumption
  show ?case
    using hd tl roundUp_props(1) [OF a, of "length b"] roundUp_props(3) [OF a, of "length b"]
    by (simp add: Let_def)
qed

lemma length_sectionBytes:
  "length (sectionBytes len ps) =
     sum_list (map (\<lambda>p. length (buffer p)) ps) + sum_list (map fst (sectionLayout len ps))"
  by (induction ps arbitrary: len) (simp_all add: sectionBytes_Nil sectionBytes_Cons Let_def)

text \<open>
  Claim C1. Both assembly loops, started on any section and any JSON, with any result of
  the compression: the attributes that are not compressed are appended in order, each
  after zero padding, and the binary is the initial section followed by exactly the bytes
  of the rule (\<open>sectionBytes\<close>); its length is the initial length plus the attributes'
  lengths plus the paddings; every offset of the layout is a multiple of the size of the
  attribute's component type, the padding is smaller than that size, and the attribute's
  bytes stand at the offset; when the names are distinct, the JSON records that offset
  under the attribute's name. The offset the code computes with \<^verbatim>\<open>Math.ceil\<close> is the
  current length rounded up to the alignment.
\<close>

theorem section_offsets_aligned:
  "(let U = filter (\<lambda>p. \<not> dracoFeatureCovers dF (propertyName p)) fprops;
        L = sectionLayout (length fbin0) U;
        json = fst (fold (featureTableStep dF) fprops (fjson0, fbin0));
        bin = snd (fold (featureTableStep dF) fprops (fjson0, fbin0))
    in bin = fbin0 @ sectionBytes (length fbin0) U \<and>
       length bin = length fbin0 + sum_list (map (\<lambda>p. length (buffer p)) U)
                      + sum_list (map fst L) \<and>
       list_all2 (\<lambda>p (padding, offset).
           getSizeInBytes (componentType p) dvd offset \<and>
           padding < getSizeInBytes (componentType p) \<and>
           take (length (buffer p)) (drop offset bin) = buffer p) U L \<and>
       (distinct (map propertyName fprops) \<longrightarrow>
          list_all2 (\<lambda>p (padding, offset).
              json (propertyName p) =
                Some (FtAttribute offset
                        (if propertyName p = ''BATCH_ID'' then Some (componentType p) else None)))
            U L)) \<and>
   (let U = filter (\<lambda>p. \<not> dracoBatchCovers dB (propertyName p)) bprops;
        L = sectionLayout (length bbin0) U;
        json = fst (fold (batchTableStep dB) bprops (bjson0, bbin0));
        bin = snd (fold (batchTableStep dB) bprops (bjson0, bbin0))
    in bin = bbin0 @ sectionBytes (length bbin0) U \<and>
       length bin = length bbin0 + sum_list (map (\<lambda>p. length (buffer p)) U)
                      + sum_list (map fst L) \<and>
       list_all2 (\<lambda>p (padding, offset).
           getSizeInBytes (componentType p) dvd offset \<and>
           padding < getSizeInBytes (componentType p) \<and>
           take (length (buffer p)) (drop offset bin) = buffer p) U L \<and>
       (distinct (map propertyName bprops) \<longrightarrow>
          list_all2 (\<lambda>p (padding, offset).
              json (propertyName p) =
                Some (BtAttribute offset (componentType p) (attrType p)))
            U L)) \<and>
   alignedOffset len (getSizeInBytes ct) = roundUp len (getSizeInBytes ct)"
proof -
  let ?fU = "filter (\<lambda>p. \<not> dracoFeatureCovers dF (propertyName p)) fprops"
  let ?bU = "filter (\<lambda>p. \<not> dracoBatchCovers dB (propertyName p)) bprops"
  have fbin: "snd (fold (featureTableStep dF) fprops (fjson0, fbin0)) =
                fbin0 @ sectionBytes (length fbin0) ?fU"
    by (rule section_binary) (simp add: featureTableStep_eq)
  have bbin: "snd (fold (batchTableStep dB) bprops (bjson0, bbin0)) =
                bbin0 @ sectionBytes (length bbin0) ?bU"
    by (rule section_binary) (simp add: batchTableStep_eq)
  have fjson: "list_all2 (\<lambda>p (padding, offset).
              fst (fold (featureTableStep dF) fprops (fjson0, fbin0)) (propertyName p) =
                Some (FtAttribute offset
                        (if propertyName p = ''BATCH_ID'' then Some (componentType p) else None)))
            ?fU (sectionLayout (length fbin0) ?fU)"
    if "distinct (map propertyName fprops)"
    using that
    by (intro section_json_entries [where val = "\<lambda>p offset. FtAttribute offset
                        (if propertyName p = ''BATCH_ID'' then Some (componentType p) else None)"])
       (simp_all add: featureTableStep_eq)
  have bjson: "list_all2 (\<lambda>p (padding, offset).
              fst (fold (batchTableStep dB) bprops (bjson0, bbin0)) (propertyName p) =
                Some (BtAttribute offset (componentType p) (attrType p)))
            ?bU (sectionLayout (length bbin0) ?bU)"
    if "distinct (map propertyName bprops)"
    using that
    by (intro section_json_entries [where val = "\<lambda>p offset. BtAttribute offset
                       (componentType p) (attrType p)"])
       (simp_all add: batchTableStep_eq)
  have al: "alignedOffset len (getSizeInBytes ct) = roundUp len (getSizeInBytes ct)"
    by (rule alignedOffset_roundUp) (rule getSizeInBytes_pos)
  show ?thesis
    unfolding Let_def fbin bbin
    using fjson bjson al section_aligned [of fbin0 ?fU] section_aligned [of bbin0 ?bU]
    by (simp add: length_sectionBytes)
qed

text \<open>A feature table section that starts with one byte and receives three bytes and a
  float, and a batch table section that receives a byte and a short.\<close>

theorem section_offsets_aligned_witness:
  "snd (fold (featureTableStep None)
          [\<lparr>buffer = [1, 2, 3], propertyName = ''RGB'', componentType = UNSIGNED_BYTE,
             attrType = VEC3, batchLength = None\<rparr>,
           \<lparr>buffer = [4, 5, 6, 7], propertyName = ''NORMAL'', componentType = FLOAT,
             attrType = SCALAR, batchLength = None\<rparr>] (Map.empty, [9])) =
     [9, 1, 2, 3, 4, 5, 6, 7] \<and>
   fst (fold (featureTableStep None)
          [\<lparr>buffer = [1, 2, 3], propertyName = ''RGB'', componentType = UNSIGNED_BYTE,
             attrType = VEC3, batchLength = None\<rparr>,
           \<lparr>buffer = [4, 5, 6, 7], propertyName = ''NORMAL'', componentType = FLOAT,
             attrType = SCALAR, batchLength = None\<rparr>] (Map.empty, [9])) ''NORMAL'' =
     Some (FtAttribute 4 None) \<and>
   snd (fold (batchTableStep None)
          [\<lparr>buffer = [1], propertyName = ''flag'', componentType = UNSIGNED_BYTE,
             attrType = SCALAR, batchLength = None\<rparr>,
           \<lparr>buffer = [2, 3], propertyName = ''id'', componentType = UNSIGNED_SHORT,
             attrType = SCALAR, batchLength = None\<rparr>] (Map.empty, [])) =
     [1, 0, 2, 3] \<and>
   fst (fold (batchTableStep None)
          [\<lparr>buffer = [1], propertyName = ''flag'', componentType = UNSIGNED_BYTE,
             attrType = SCALAR, batchLength = None\<rparr>,
           \<lparr>buffer = [2, 3], propertyName = ''id'', componentType = UNSIGNED_SHORT,
             attrType = SCALAR, batchLength = None\<rparr>] (Map.empty, [])) ''id'' =
     Some (BtAttribute 2 UNSIGNED_SHORT SCALAR)"
  using section_offsets_aligned [of None
          "[\<lparr>buffer = [1, 2, 3], propertyName = ''RGB'', componentType = UNSIGNED_BYTE,
             attrType = VEC3, batchLength = None\<rparr>,
           \<lparr>buffer = [4, 5, 6, 7], propertyName = ''NORMAL'', componentType = FLOAT,
             attrType = SCALAR, batchLength = None\<rparr>]" "[9]" Map.empty None
          "[\<lparr>buffer = [1], propertyName = ''flag'', componentType = UNSIGNED_BYTE,
             attrType = SCALAR, batchLength = None\<rparr>,
           \<lparr>buffer = [2, 3], propertyName = ''id'', componentType = UNSIGNED_SHORT,
             attrType = SCALAR, batchLength = None\<rparr>]" "[]" Map.empty 0 BYTE]
  by (simp add: Let_def sectionBytes_def roundUp_def dracoFeatureCovers_def dracoBatchCovers_def)

section \<open>Failure of the compression\<close>

lemma createPointCloudTile_stages:
  fixes X :: "('rng, 'sx) externals"
  shows "createPointCloudTile X (Some opts) g =
     (case getPoints X (simplex g) (defaultValue (pointsLength opts) 1000)
             (js_div X (defaultValue (tileWidth opts) (Num 10.0)) (Num 2.0))
             (fst (colorModeOf X
                (if defaultValue (colorMode opts) ''rgb'' = ''rgb565'' \<and>
                    defaultValue (draco opts) False
                 then ''rgb'' else defaultValue (colorMode opts) ''rgb'')))
             (colorFunctionOf X (simplex g) (defaultValue (color opts) ''random'')
                (defaultValue (time opts) (Num 0.0)))
             (shapeFunctionOf X (defaultValue (shape opts) ''box''))
             (defaultValue (quantizePositions opts) False \<and> \<not> defaultValue (draco opts) False)
             (defaultValue (octEncodeNormals opts) False \<and> \<not> defaultValue (draco opts) False)
             (defaultValue (relativeToCenter opts) True)
             (defaultValue (transform opts) Matrix4_IDENTITY)
             (defaultValue (time opts) (Num 0.0)) (setRandomNumberSeed X 0) of
        (Inl e, rng) \<Rightarrow> (Inl e, g\<lparr>randomNumberGenerator := rng\<rparr>)
      | (Inr pts, rng) \<Rightarrow>
          (case tileOfPoints X (defaultValue (draco opts) False) (dracoSemantics opts)
                  (defaultValue (batched opts) False)
                  (defaultValue (generateNormals opts) False)
                  (defaultValue (perPointProperties opts) False)
                  (defaultValue (pointsLength opts) 1000) pts
                  (snd (colorModeOf X
                     (if defaultValue (colorMode opts) ''rgb'' = ''rgb565'' \<and>
                         defaultValue (draco opts) False
                      then ''rgb'' else defaultValue (colorMode opts) ''rgb'')))
                  (defaultValue (quantizePositions opts) False \<and>
                     \<not> defaultValue (draco opts) False)
                  (defaultValue (relativeToCenter opts) True)
                  (defaultValue (tileWidth opts) (Num 10.0))
                  (js_div X (defaultValue (tileWidth opts) (Num 10.0)) (Num 2.0))
                  (Matrix4_getTranslation (defaultValue (transform opts) Matrix4_IDENTITY))
                  rng of
             (result, rng) \<Rightarrow> (result, g\<lparr>randomNumberGenerator := rng\<rparr>)))"
  unfolding createPointCloudTile_def Let_def defaultValue.simps(2) case_prod_beta
  by (rule refl)

lemma fold_update_upto:
  "j \<le> n \<Longrightarrow>
   fold (\<lambda>i buf. buf[i := f i]) [0..<j] (replicate n z) = map f [0..<j] @ replicate (n - j) z"
proof (induction j)
  case 0
  show ?case by simp
next
  case (Suc j)
  then have IH: "fold (\<lambda>i buf. buf[i := f i]) [0..<j] (replicate n z) =
                   map f [0..<j] @ replicate (n - j) z" and jn: "j < n" by simp_all
  have "n - j = Suc (n - Suc j)" using jn by simp
  then have "(map f [0..<j] @ replicate (n - j) z)[j := f j] =
             map f [0..<j] @ f j # replicate (n - Suc j) z"
    by (simp add: list_update_append)
  then show ?case using IH by simp
qed

lemma fold_update_map:
  "fold (\<lambda>i buf. buf[i := f i]) [0..<n] (Buffer_alloc n) = map f [0..<n]"
  using fold_update_upto [of n n f 0] by (simp add: Buffer_alloc_def)

lemma dracoEncodeProperties_result:
  assumes "forLoop [0..<length props] (addProperty X n props) ([], []) = Inr (pc, ids)"
  shows "dracoEncodeProperties X n props po =
           (if fst (EncodePointCloudToDracoBuffer X pc (encoderSettings po)) \<le> 0
            then Inl EncodingFailed
            else Inr \<lparr>dracoBuffer =
                        map (\<lambda>i. word_of_int
                                    (snd (EncodePointCloudToDracoBuffer X pc (encoderSettings po)) i))
                          [0..<nat (fst (EncodePointCloudToDracoBuffer X pc (encoderSettings po)))],
                      attributeIds = ids\<rparr>)"
  using assms
  by (simp add: dracoEncodeProperties_def Let_def fold_update_map split: prod.splits)

lemma dracoEncode_fails:
  assumes "preserveOrderOf (dracoPropertiesOf sems ft bt) ft bt = Inr po"
      and "forLoop [0..<length (dracoPropertiesOf sems ft bt)]
             (addProperty X n (dracoPropertiesOf sems ft bt)) ([], []) = Inr (pc, ids)"
      and "fst (EncodePointCloudToDracoBuffer X pc (encoderSettings po)) \<le> 0"
  shows "dracoEncode X n sems ft bt = Inl EncodingFailed"
  using assms(1,3) dracoEncodeProperties_result [OF assms(2), of po]
  by (simp add: dracoEncode_def Let_def)

lemma tileOfAttributes_keeps_error:
  assumes "dracoEncode X n sems ft bt = Inl e"
  shows "tileOfAttributes X True sems b n ft bt ids cc qp rtc tw r c rng = (Inl e, rng)"
  using assms by (simp add: tileOfAttributes_def)

lemma tileOfPoints_keeps_error:
  assumes "(if pp then getPerPointBatchTableProperties X n (noiseValues pts) rng
            else (Inr [], rng)) = (Inr bt, rng')"
      and "dracoEncode X n sems (featureTablePropertiesOf pts gn b) bt = Inl e"
  shows "tileOfPoints X True sems b gn pp n pts cc qp rtc tw r c rng = (Inl e, rng')"
  using assms(1) tileOfAttributes_keeps_error [OF assms(2)]
  by (simp add: tileOfPoints_def Let_def)

lemmas stub_simps = stubExternals_def moduleLoad_def EMPTY_OBJECT_def
lemmas tile_simps = createPointCloudTile_def tileOfPoints_def tileOfAttributes_def
  featureTablePropertiesOf_def shapeFunctionOf_def colorFunctionOf_def colorModeOf_def
  assembleTables_def getPoints_def getPositions_def getPositionsQuantized_def getNormals_def
  getNormalsOctEncoded_def getBatchIds_def getColorsRGB_def getColorsRGBA_def getColorsRGB565_def
  dracoEncode_def dracoEncodeProperties_def dracoPropertiesOf_def preserveOrderOf_def
  addProperty_def createArrayBufferView_def encoderSettings_def getDracoType_def
  featureTableStep_def batchTableStep_def dracoFeatureCovers_def dracoBatchCovers_def
  alignedOffset_def Buffer_alloc_def Buffer_concat_def Matrix4_IDENTITY_def
  sizeOfUint8_def sizeOfUint16_def sizeOfUint32_def sizeOfFloat32_def
  getPerPointBatchTableProperties_def getBatchTableForBatchedPoints_def js_sub_def
lemmas point_simps = getPointsStep_def getPosition_def boxFunction_def sphereFunction_def
  randomFunction_def gradientFunction_def getNoise_def getNoiseFunction_def getBatchId_def
  Color_fromRandom_def localNormal_def Cartesian3_normalize_def Cartesian3_magnitude_def
  Cartesian3_magnitudeSquared_def Cartesian3_multiplyByScalar_def Cartesian3_subtract_def
  Cartesian3_equals_def Cartesian3_ZERO_def Math_PI_def writeFloatLE_def writeUInt8_def
  writeUInt16LE_def writeUInt32LE_def

text \<open>
  Claim C5. Once the attributes are added to the point cloud, a non-positive length
  reported by the encoder makes \<^verbatim>\<open>dracoEncodeProperties\<close> throw the encoding failure, and
  a positive length makes it return a buffer of exactly that length holding the encoder's
  bytes. In a call of \<^verbatim>\<open>createPointCloudTile\<close> with \<^verbatim>\<open>draco\<close> set in which the points and
  the per-point properties are generated and the attributes are added to the point cloud,
  a non-positive length reported by the encoder for that cloud, under the settings of the
  call, makes the call throw the encoding failure: it returns no tile, and the state of
  the module is the one the generation left.
\<close>

theorem compression_failure_is_fatal:
  fixes X :: "('rng, 'sx) externals" and opts :: options
  defines "n \<equiv> defaultValue (pointsLength opts) 1000"
      and "ft \<equiv> \<lambda>pts. featureTablePropertiesOf pts (defaultValue (generateNormals opts) False)
                         (defaultValue (batched opts) False)"
  shows
  "(forLoop [0..<length props] (addProperty X m props) ([], []) = Inr (pc, ids) \<longrightarrow>
      (fst (EncodePointCloudToDracoBuffer X pc (encoderSettings po)) \<le> 0 \<longrightarrow>
         dracoEncodeProperties X m props po = Inl EncodingFailed) \<and>
      (0 < fst (EncodePointCloudToDracoBuffer X pc (encoderSettings po)) \<longrightarrow>
         (\<exists>buf. dracoEncodeProperties X m props po =
                  Inr \<lparr>dracoBuffer = buf, attributeIds = ids\<rparr> \<and>
                int (length buf) = fst (EncodePointCloudToDracoBuffer X pc (encoderSettings po)) \<and>
                (\<forall>i < length buf.
                   buf ! i = word_of_int
                     (snd (EncodePointCloudToDracoBuffer X pc (encoderSettings po)) i))))) \<and>
   (draco opts = Some True \<and>
    getPoints X (simplex g) n
      (js_div X (defaultValue (tileWidth opts) (Num 10.0)) (Num 2.0))
      (fst (colorModeOf X
         (if defaultValue (colorMode opts) ''rgb'' = ''rgb565'' then ''rgb''
          else defaultValue (colorMode opts) ''rgb'')))
      (colorFunctionOf X (simplex g) (defaultValue (color opts) ''random'')
         (defaultValue (time opts) (Num 0.0)))
      (shapeFunctionOf X (defaultValue (shape opts) ''box''))
      False False (defaultValue (relativeToCenter opts) True)
      (defaultValue (transform opts) Matrix4_IDENTITY)
      (defaultValue (time opts) (Num 0.0)) (setRandomNumberSeed X 0) = (Inr pts, rng1) \<and>
    (if defaultValue (perPointProperties opts) False
     then getPerPointBatchTableProperties X n (noiseValues pts) rng1
     else (Inr [], rng1)) = (Inr bt, rng2) \<and>
    preserveOrderOf (dracoPropertiesOf (dracoSemantics opts) (ft pts) bt) (ft pts) bt =
      Inr po' \<and>
    forLoop [0..<length (dracoPropertiesOf (dracoSemantics opts) (ft pts) bt)]
      (addProperty X n (dracoPropertiesOf (dracoSemantics opts) (ft pts) bt)) ([], []) =
      Inr (pc', ids') \<and>
    fst (EncodePointCloudToDracoBuffer X pc' (encoderSettings po')) \<le> 0 \<longrightarrow>
      createPointCloudTile X (Some opts) g =
        (Inl EncodingFailed, g\<lparr>randomNumberGenerator := rng2\<rparr>))"
proof (intro conjI impI)
  assume l: "forLoop [0..<length props] (addProperty X m props) ([], []) = Inr (pc, ids)"
  note r = dracoEncodeProperties_result [OF l, of po]
  {
    assume "fst (EncodePointCloudToDracoBuffer X pc (encoderSettings po)) \<le> 0"
    then show "dracoEncodeProperties X m props po = Inl EncodingFailed" using r by simp
  }
  {
    assume p: "0 < fst (EncodePointCloudToDracoBuffer X pc (encoderSettings po))"
    let ?buf = "map (\<lambda>i. word_of_int
                         (snd (EncodePointCloudToDracoBuffer X pc (encoderSettings po)) i) :: byte)
                  [0..<nat (fst (EncodePointCloudToDracoBuffer X pc (encoderSettings po)))]"
    have "dracoEncodeProperties X m props po = Inr \<lparr>dracoBuffer = ?buf, attributeIds = ids\<rparr>"
      using r p by simp
    moreover have "int (length ?buf) = fst (EncodePointCloudToDracoBuffer X pc (encoderSettings po))"
      using p by simp
    moreover have "\<forall>i < length ?buf.
        ?buf ! i = word_of_int (snd (EncodePointCloudToDracoBuffer X pc (encoderSettings po)) i)"
      by simp
    ultimately show "\<exists>buf. dracoEncodeProperties X m props po =
                  Inr \<lparr>dracoBuffer = buf, attributeIds = ids\<rparr> \<and>
                int (length buf) = fst (EncodePointCloudToDracoBuffer X pc (encoderSettings po)) \<and>
                (\<forall>i < length buf.
                   buf ! i = word_of_int
                     (snd (EncodePointCloudToDracoBuffer X pc (encoderSettings po)) i))"
      by blast
  }
next
  assume a: "draco opts = Some True \<and>
    getPoints X (simplex g) n
      (js_div X (defaultValue (tileWidth opts) (Num 10.0)) (Num 2.0))
      (fst (colorModeOf X
         (if defaultValue (colorMode opts) ''rgb'' = ''rgb565'' then ''rgb''
          else defaultValue (colorMode opts) ''rgb'')))
      (colorFunctionOf X (simplex g) (defaultValue (color opts) ''random'')
         (defaultValue (time opts) (Num 0.0)))
      (shapeFunctionOf X (defaultValue (shape opts) ''box''))
      False False (defaultValue (relativeToCenter opts) True)
      (defaultValue (transform opts) Matrix4_IDENTITY)
      (defaultValue (time opts) (Num 0.0)) (setRandomNumberSeed X 0) = (Inr pts, rng1) \<and>
    (if defaultValue (perPointProperties opts) False
     then getPerPointBatchTableProperties X n (noiseValues pts) rng1
     else (Inr [], rng1)) = (Inr bt, rng2) \<and>
    preserveOrderOf (dracoPropertiesOf (dracoSemantics opts) (ft pts) bt) (ft pts) bt =
      Inr po' \<and>
    forLoop [0..<length (dracoPropertiesOf (dracoSemantics opts) (ft pts) bt)]
      (addProperty X n (dracoPropertiesOf (dracoSemantics opts) (ft pts) bt)) ([], []) =
      Inr (pc', ids') \<and>
    fst (EncodePointCloudToDracoBuffer X pc' (encoderSettings po')) \<le> 0"
  then have d: "defaultValue (draco opts) False = True" by simp
  from a have e: "dracoEncode X n (dracoSemantics opts) (ft pts) bt = Inl EncodingFailed"
    by (intro dracoEncode_fails [of _ _ _ po' X n pc' ids']) simp_all
  have t: "tileOfPoints X True (dracoSemantics opts) (defaultValue (batched opts) False)
             (defaultValue (generateNormals opts) False)
             (defaultValue (perPointProperties opts) False) n pts cc qp rtc tw r c rng1 =
           (Inl EncodingFailed, rng2)" for cc qp rtc tw r c
    using a e unfolding ft_def by (intro tileOfPoints_keeps_error) simp_all
  show "createPointCloudTile X (Some opts) g =
        (Inl EncodingFailed, g\<lparr>randomNumberGenerator := rng2\<rparr>)"
    unfolding createPointCloudTile_stages d using a t unfolding n_def by simp
qed

text \<open>An encoder that fails on a cloud of two attributes, in a call with \<^verbatim>\<open>draco\<close> set
  that generates the position and the color of one point on a sphere; and the encoder that
  returns one byte for a cloud of one attribute.\<close>

theorem compression_failure_is_fatal_witness:
  "createPointCloudTile
     (stubExternals\<lparr>EncodePointCloudToDracoBuffer :=
        (\<lambda>pointCloud encoder.
           (if length pointCloud = 2 then 0 else int (length pointCloud), (\<lambda>i. 1)))\<rparr>)
     (Some (EMPTY_OBJECT\<lparr>pointsLength := Some 1, shape := Some ''sphere'',
                          draco := Some True\<rparr>))
     (moduleLoad stubExternals) =
     (Inl EncodingFailed, (moduleLoad stubExternals)\<lparr>randomNumberGenerator := 6\<rparr>) \<and>
   (\<exists>buf. dracoEncodeProperties stubExternals 1
            [Some \<lparr>buffer = replicate 12 0, propertyName = ''POSITION'',
                    componentType = FLOAT, attrType = VEC3, batchLength = None\<rparr>] True =
            Inr \<lparr>dracoBuffer = buf, attributeIds = [(''POSITION'', 0)]\<rparr> \<and>
          int (length buf) = 1 \<and> (\<forall>i < length buf. buf ! i = 1))"
proof -
  let ?X = "stubExternals\<lparr>EncodePointCloudToDracoBuffer :=
        (\<lambda>pointCloud encoder.
           (if length pointCloud = 2 then 0 else int (length pointCloud), (\<lambda>i. 1)))\<rparr>"
  let ?o = "EMPTY_OBJECT\<lparr>pointsLength := Some 1, shape := Some ''sphere'',
                         draco := Some True\<rparr>"
  let ?g = "moduleLoad stubExternals"
  let ?pos = "\<lparr>buffer = replicate 12 0, propertyName = ''POSITION'',
                    componentType = FLOAT, attrType = VEC3, batchLength = None\<rparr>"
  let ?ft = "\<lambda>pts. featureTablePropertiesOf pts (defaultValue (generateNormals ?o) False)
                         (defaultValue (batched ?o) False)"
  have "\<exists>pts rng1 bt rng2 po' pc' ids'.
    draco ?o = Some True \<and>
    getPoints ?X (simplex ?g) (defaultValue (pointsLength ?o) 1000)
      (js_div ?X (defaultValue (tileWidth ?o) (Num 10.0)) (Num 2.0))
      (fst (colorModeOf ?X
         (if defaultValue (colorMode ?o) ''rgb'' = ''rgb565'' then ''rgb''
          else defaultValue (colorMode ?o) ''rgb'')))
      (colorFunctionOf ?X (simplex ?g) (defaultValue (color ?o) ''random'')
         (defaultValue (time ?o) (Num 0.0)))
      (shapeFunctionOf ?X (defaultValue (shape ?o) ''box''))
      False False (defaultValue (relativeToCenter ?o) True)
      (defaultValue (transform ?o) Matrix4_IDENTITY)
      (defaultValue (time ?o) (Num 0.0)) (setRandomNumberSeed ?X 0) = (Inr pts, rng1) \<and>
    (if defaultValue (perPointProperties ?o) False
     then getPerPointBatchTableProperties ?X (defaultValue (pointsLength ?o) 1000)
            (noiseValues pts) rng1
     else (Inr [], rng1)) = (Inr bt, rng2) \<and>
    preserveOrderOf (dracoPropertiesOf (dracoSemantics ?o) (?ft pts) bt) (?ft pts) bt =
      Inr po' \<and>
    forLoop [0..<length (dracoPropertiesOf (dracoSemantics ?o) (?ft pts) bt)]
      (addProperty ?X (defaultValue (pointsLength ?o) 1000)
         (dracoPropertiesOf (dracoSemantics ?o) (?ft pts) bt)) ([], []) =
      Inr (pc', ids') \<and>
    fst (EncodePointCloudToDracoBuffer ?X pc' (encoderSettings po')) \<le> 0 \<and> rng2 = 6"
    by (simp add: stub_simps tile_simps point_simps Let_def) (rule exI [of _ False], simp)
  then obtain pts rng1 bt rng2 po' pc' ids' where h: "draco ?o = Some True \<and>
    getPoints ?X (simplex ?g) (defaultValue (pointsLength ?o) 1000)
      (js_div ?X (defaultValue (tileWidth ?o) (Num 10.0)) (Num 2.0))
      (fst (colorModeOf ?X
         (if defaultValue (colorMode ?o) ''rgb'' = ''rgb565'' then ''rgb''
          else defaultValue (colorMode ?o) ''rgb'')))
      (colorFunctionOf ?X (simplex ?g) (defaultValue (color ?o) ''random'')
         (defaultValue (time ?o) (Num 0.0)))
      (shapeFunctionOf ?X (defaultValue (shape ?o) ''box''))
      False False (defaultValue (relativeToCenter ?o) True)
      (defaultValue (transform ?o) Matrix4_IDENTITY)
      (defaultValue (time ?o) (Num 0.0)) (setRandomNumberSeed ?X 0) = (Inr pts, rng1) \<and>
    (if defaultValue (perPointProperties ?o) False
     then getPerPointBatchTableProperties ?X (defaultValue (pointsLength ?o) 1000)
            (noiseValues pts) rng1
     else (Inr [], rng1)) = (Inr bt, rng2) \<and>
    preserveOrderOf (dracoPropertiesOf (dracoSemantics ?o) (?ft pts) bt) (?ft pts) bt =
      Inr po' \<and>
    forLoop [0..<length (dracoPropertiesOf (dracoSemantics ?o) (?ft pts) bt)]
      (addProperty ?X (defaultValue (pointsLength ?o) 1000)
         (dracoPropertiesOf (dracoSemantics ?o) (?ft pts) bt)) ([], []) =
      Inr (pc', ids') \<and>
    fst (EncodePointCloudToDracoBuffer ?X pc' (encoderSettings po')) \<le> 0" and r: "rng2 = 6"
    by blast
  have 1: "createPointCloudTile ?X (Some ?o) ?g = (Inl EncodingFailed, ?g\<lparr>randomNumberGenerator := 6\<rparr>)"
    using compression_failure_is_fatal [THEN conjunct2, THEN mp, OF h] unfolding r .
  have l: "forLoop [0..<length [Some ?pos]] (addProperty stubExternals 1 [Some ?pos]) ([], []) =
      Inr ([\<lparr>addFunction = ''AddFloatAttribute'', dracoType = POSITION, numPoints = 1,
              numberOfComponents = 3, typedArray = (FLOAT, replicate 12 0)\<rparr>],
           [(''POSITION'', 0)])"
    by (simp add: stub_simps tile_simps Let_def)
  have p: "0 < fst (EncodePointCloudToDracoBuffer stubExternals
              [\<lparr>addFunction = ''AddFloatAttribute'', dracoType = POSITION, numPoints = 1,
              numberOfComponents = 3, typedArray = (FLOAT, replicate 12 0)\<rparr>] (encoderSettings True))"
    by (simp add: stubExternals_def)
  have 2: "\<exists>buf. dracoEncodeProperties stubExternals 1 [Some ?pos] True =
            Inr \<lparr>dracoBuffer = buf, attributeIds = [(''POSITION'', 0)]\<rparr> \<and>
          int (length buf) = 1 \<and> (\<forall>i < length buf. buf ! i = 1)"
    using compression_failure_is_fatal [THEN conjunct1, THEN mp, OF l, THEN conjunct2, THEN mp, OF p]
    by (simp add: stubExternals_def)
  show ?thesis using 1 2 by (rule conjI)
qed


section \<open>The encoding order\<close>


lemma getPropertyByNameU_defined:
  "getPropertyByNameU dps nm = Inr r \<Longrightarrow>
     defined r \<longleftrightarrow> (\<exists>p. Some p \<in> set dps \<and> propertyName p = nm)"
proof (induction dps nm rule: getPropertyByNameU.induct)
  case (1 name)
  then show ?case by auto
next
  case (2 properties name)
  then show ?case by simp
next
  case (3 element properties name)
  then show ?case by (auto split: if_splits)
qed

lemma getPropertyByNameU_total:
  "None \<notin> set dps \<Longrightarrow> \<exists>r. getPropertyByNameU dps nm = Inr r"
  by (induction dps nm rule: getPropertyByNameU.induct) auto

lemma getPropertyByName_found:
  "nm \<in> propertyName ` set ft \<Longrightarrow> \<exists>p. getPropertyByName ft nm = Some p \<and> propertyName p = nm"
  by (induction ft) auto

lemma fold_snoc_map:
  "fold (\<lambda>i acc. acc @ [f (xs ! i)]) [0..<length xs] [] = map f xs"
proof -
  have "fold (\<lambda>i acc. acc @ [f (xs ! i)]) [0..<j] [] = map (\<lambda>i. f (xs ! i)) [0..<j]" for j
    by (induction j) simp_all
  then show ?thesis by (simp add: map_index)
qed

lemma dracoPropertiesOf_Some:
  "dracoPropertiesOf (Some sems) ft bt = map (getPropertyByName ft) sems @ map Some bt"
  by (simp add: dracoPropertiesOf_def fold_snoc_map)

lemma dracoPropertiesOf_None:
  "dracoPropertiesOf None ft bt = map Some ft @ map Some bt"
  by (simp add: dracoPropertiesOf_def)

lemma preserveOrderOf_result:
  assumes "preserveOrderOf dps ft bt = Inr po"
  shows "po = ((\<exists>p. Some p \<in> set dps \<and> propertyName p = ''NORMAL'') \<or>
               length dps < length ft + length bt)"
proof (cases "getPropertyByNameU dps ''NORMAL''")
  case (Inl e)
  then show ?thesis using assms by (simp add: preserveOrderOf_def)
next
  case (Inr r)
  then show ?thesis
    using assms getPropertyByNameU_defined [OF Inr] by (auto simp: preserveOrderOf_def Let_def)
qed

lemma excluded_iff_fewer:
  assumes "distinct sems" and "set sems \<subseteq> propertyName ` set ft"
      and "distinct (map propertyName ft)"
  shows "length sems < length ft \<longleftrightarrow> (\<exists>p\<in>set ft. propertyName p \<notin> set sems)"
proof -
  have cs: "card (set sems) = length sems" using assms(1) by (rule distinct_card)
  have cf: "card (propertyName ` set ft) = length ft"
    using assms(3) distinct_card [of "map propertyName ft"] by simp
  show ?thesis
  proof
    assume "length sems < length ft"
    then have "set sems \<noteq> propertyName ` set ft" using cs cf by auto
    then show "\<exists>p\<in>set ft. propertyName p \<notin> set sems" using assms(2) by auto
  next
    assume "\<exists>p\<in>set ft. propertyName p \<notin> set sems"
    then have "set sems \<subset> propertyName ` set ft" using assms(2) by auto
    then have "card (set sems) < card (propertyName ` set ft)"
      by (intro psubset_card_mono) simp_all
    then show "length sems < length ft" using cs cf by simp
  qed
qed

lemma chosen_normal:
  assumes "set sems \<subseteq> propertyName ` set ft"
  shows "(\<exists>p. Some p \<in> set (map (getPropertyByName ft) sems @ map Some bt) \<and>
              propertyName p = ''NORMAL'') \<longleftrightarrow>
         ''NORMAL'' \<in> set sems \<or> ''NORMAL'' \<in> propertyName ` set bt"
proof -
  have found: "\<exists>p. getPropertyByName ft s = Some p \<and> propertyName p = s" if "s \<in> set sems" for s
    using that assms by (intro getPropertyByName_found) auto
  show ?thesis
  proof
    assume "\<exists>p. Some p \<in> set (map (getPropertyByName ft) sems @ map Some bt) \<and>
              propertyName p = ''NORMAL''"
    then obtain p where p: "Some p \<in> getPropertyByName ft ` set sems \<or> p \<in> set bt"
        and n: "propertyName p = ''NORMAL''" by auto
    show "''NORMAL'' \<in> set sems \<or> ''NORMAL'' \<in> propertyName ` set bt"
    proof (cases "p \<in> set bt")
      case True
      then show ?thesis using n by force
    next
      case False
      then obtain s where s: "s \<in> set sems" "getPropertyByName ft s = Some p" using p by auto
      then have "propertyName p = s" using found [OF s(1)] by auto
      then show ?thesis using s(1) n by simp
    qed
  next
    assume "''NORMAL'' \<in> set sems \<or> ''NORMAL'' \<in> propertyName ` set bt"
    then show "\<exists>p. Some p \<in> set (map (getPropertyByName ft) sems @ map Some bt) \<and>
              propertyName p = ''NORMAL''"
    proof
      assume a: "''NORMAL'' \<in> set sems"
      obtain p where "getPropertyByName ft ''NORMAL'' = Some p" "propertyName p = ''NORMAL''"
        using found [OF a] by blast
      then show ?thesis using a by force
    next
      assume "''NORMAL'' \<in> propertyName ` set bt"
      then show ?thesis by auto
    qed
  qed
qed

lemma preserveOrderOf_wellformed:
  assumes "distinct sems" and "set sems \<subseteq> propertyName ` set ft"
      and "distinct (map propertyName ft)"
  shows "preserveOrderOf (dracoPropertiesOf (Some sems) ft bt) ft bt =
           Inr (''NORMAL'' \<in> set sems \<or> ''NORMAL'' \<in> propertyName ` set bt \<or>
                (\<exists>p\<in>set ft. propertyName p \<notin> set sems))"
proof -
  let ?dps = "map (getPropertyByName ft) sems @ map Some bt"
  have "getPropertyByName ft s \<noteq> None" if "s \<in> set sems" for s
  proof -
    have "s \<in> propertyName ` set ft" using that assms(2) by blast
    then show ?thesis using getPropertyByName_found [of s ft] by auto
  qed
  then have "None \<notin> getPropertyByName ft ` set sems" by force
  then have "None \<notin> set ?dps" by auto
  then obtain r where r: "getPropertyByNameU ?dps ''NORMAL'' = Inr r"
    using getPropertyByNameU_total by blast
  then obtain po where po: "preserveOrderOf ?dps ft bt = Inr po"
    by (simp add: preserveOrderOf_def Let_def)
  have "po = ((\<exists>p. Some p \<in> set ?dps \<and> propertyName p = ''NORMAL'') \<or>
               length ?dps < length ft + length bt)"
    using po by (rule preserveOrderOf_result)
  also have "\<dots> = (''NORMAL'' \<in> set sems \<or> ''NORMAL'' \<in> propertyName ` set bt \<or>
                (\<exists>p\<in>set ft. propertyName p \<notin> set sems))"
    using chosen_normal [OF assms(2), of bt] excluded_iff_fewer [OF assms] by auto
  finally show ?thesis using po by (simp add: dracoPropertiesOf_Some)
qed

lemma preserveOrderOf_all:
  "preserveOrderOf (dracoPropertiesOf None ft bt) ft bt =
     Inr (''NORMAL'' \<in> propertyName ` set (ft @ bt))"
proof -
  let ?dps = "map Some ft @ map Some bt"
  have "None \<notin> set ?dps" by auto
  then obtain r where r: "getPropertyByNameU ?dps ''NORMAL'' = Inr r"
    using getPropertyByNameU_total by blast
  then obtain po where po: "preserveOrderOf ?dps ft bt = Inr po"
    by (simp add: preserveOrderOf_def Let_def)
  have "po = ((\<exists>p. Some p \<in> set ?dps \<and> propertyName p = ''NORMAL'') \<or>
               length ?dps < length ft + length bt)"
    using po by (rule preserveOrderOf_result)
  also have "\<dots> = (''NORMAL'' \<in> propertyName ` set (ft @ bt))" by force
  finally show ?thesis using po by (simp add: dracoPropertiesOf_None)
qed

text \<open>
  Claim C4. With \<^verbatim>\<open>dracoSemantics = ['POSITION', 'POSITION']\<close> over the attributes
  POSITION and RGB, the positions are handed to the encoder twice and the colors are left
  out of the compression; \<^verbatim>\<open>hasUncompressedAttributes\<close> compares the two lengths, 2 and 2,
  and is false, so the order is not preserved and the encoding method is not set. An
  encoder that returns one byte, 1 when it was told to encode sequentially and 0
  otherwise, shows the settings \<^verbatim>\<open>dracoEncode\<close> passes on: 0 for this input, 1 for
  \<^verbatim>\<open>dracoSemantics = ['POSITION']\<close>, which leaves the same attribute out.
\<close>

theorem preserveOrder_duplicate_semantics:
  "dracoPropertiesOf (Some [''POSITION'', ''POSITION''])
     [\<lparr>buffer = replicate 12 0, propertyName = ''POSITION'', componentType = FLOAT,
        attrType = VEC3, batchLength = None\<rparr>,
      \<lparr>buffer = replicate 3 0, propertyName = ''RGB'', componentType = UNSIGNED_BYTE,
        attrType = VEC3, batchLength = None\<rparr>] [] =
     [Some \<lparr>buffer = replicate 12 0, propertyName = ''POSITION'', componentType = FLOAT,
             attrType = VEC3, batchLength = None\<rparr>,
      Some \<lparr>buffer = replicate 12 0, propertyName = ''POSITION'', componentType = FLOAT,
             attrType = VEC3, batchLength = None\<rparr>] \<and>
   preserveOrderOf
     [Some \<lparr>buffer = replicate 12 0, propertyName = ''POSITION'', componentType = FLOAT,
             attrType = VEC3, batchLength = None\<rparr>,
      Some \<lparr>buffer = replicate 12 0, propertyName = ''POSITION'', componentType = FLOAT,
             attrType = VEC3, batchLength = None\<rparr>]
     [\<lparr>buffer = replicate 12 0, propertyName = ''POSITION'', componentType = FLOAT,
        attrType = VEC3, batchLength = None\<rparr>,
      \<lparr>buffer = replicate 3 0, propertyName = ''RGB'', componentType = UNSIGNED_BYTE,
        attrType = VEC3, batchLength = None\<rparr>] [] = Inr False \<and>
   encodingMethod (encoderSettings False) = None \<and>
   encodingMethod (encoderSettings True) = Some POINT_CLOUD_SEQUENTIAL_ENCODING \<and>
   dracoEncode
     (stubExternals\<lparr>EncodePointCloudToDracoBuffer :=
        (\<lambda>pointCloud encoder.
           (1, (\<lambda>i. if encodingMethod encoder = Some POINT_CLOUD_SEQUENTIAL_ENCODING
                     then 1 else 0)))\<rparr>)
     1 (Some [''POSITION'', ''POSITION''])
     [\<lparr>buffer = replicate 12 0, propertyName = ''POSITION'', componentType = FLOAT,
        attrType = VEC3, batchLength = None\<rparr>,
      \<lparr>buffer = replicate 3 0, propertyName = ''RGB'', componentType = UNSIGNED_BYTE,
        attrType = VEC3, batchLength = None\<rparr>] [] =
     Inr \<lparr>encodedBuffer = [0],
          dracoFeatureTableJson = Some ([''POSITION'' \<mapsto> 1], 0, 1),
          dracoBatchTableJson = Some Map.empty\<rparr> \<and>
   dracoEncode
     (stubExternals\<lparr>EncodePointCloudToDracoBuffer :=
        (\<lambda>pointCloud encoder.
           (1, (\<lambda>i. if encodingMethod encoder = Some POINT_CLOUD_SEQUENTIAL_ENCODING
                     then 1 else 0)))\<rparr>)
     1 (Some [''POSITION''])
     [\<lparr>buffer = replicate 12 0, propertyName = ''POSITION'', componentType = FLOAT,
        attrType = VEC3, batchLength = None\<rparr>,
      \<lparr>buffer = replicate 3 0, propertyName = ''RGB'', componentType = UNSIGNED_BYTE,
        attrType = VEC3, batchLength = None\<rparr>] [] =
     Inr \<lparr>encodedBuffer = [1],
          dracoFeatureTableJson = Some ([''POSITION'' \<mapsto> 0], 0, 1),
          dracoBatchTableJson = Some Map.empty\<rparr>"
  by (simp add: stub_simps tile_simps Let_def)


section \<open>Normals\<close>

text \<open>
  Claim C9. The normal of the zero vector is the fallback \<open>(1, 0, 0)\<close>, under every
  rounding. For a cloud of one point, \<^verbatim>\<open>getPosition\<close> divides 0 by \<^verbatim>\<open>width - 1\<close>, which is
  0: the position is \<open>(NaN, NaN, NaN)\<close>, and the box shape keeps it. It is not equal to
  the zero vector, so \<^verbatim>\<open>Cartesian3.normalize\<close> is applied to it, computes NaN components
  and throws on them; the call of \<^verbatim>\<open>createPointCloudTile\<close> with \<^verbatim>\<open>pointsLength = 1\<close>
  throws.
\<close>

theorem normal_of_nan_position:
  "localNormal X Cartesian3_ZERO = Inr (Cartesian3 (Num 1.0) (Num 0.0) (Num 0.0)) \<and>
   getPosition stubExternals 0 1 = Cartesian3 NaN NaN NaN \<and>
   boxFunction stubExternals 0 1 (Num 5) rng = (Cartesian3 NaN NaN NaN, rng) \<and>
   \<not> Cartesian3_equals (Cartesian3 NaN NaN NaN) Cartesian3_ZERO \<and>
   js_div X NaN (Cartesian3_magnitude X (Cartesian3 NaN NaN NaN)) = NaN \<and>
   localNormal X (Cartesian3 NaN NaN NaN) = Inl DeveloperError \<and>
   createPointCloudTile stubExternals (Some (EMPTY_OBJECT\<lparr>pointsLength := Some 1\<rparr>))
     (moduleLoad stubExternals) =
     (Inl DeveloperError, (moduleLoad stubExternals)\<lparr>randomNumberGenerator := 0\<rparr>)"
  by (simp add: stub_simps tile_simps Let_def getPointsStep_def getPosition_def boxFunction_def
        localNormal_def Cartesian3_normalize_def Cartesian3_magnitude_def
        Cartesian3_magnitudeSquared_def Cartesian3_multiplyByScalar_def
        Cartesian3_equals_def Cartesian3_ZERO_def)


section \<open>The keys of the feature table\<close>

lemma featureTable_fold_dom:
  "dom (fst (fold (featureTableStep d) ps (j, b))) = dom j \<union> propertyName ` set ps"
proof (induction ps arbitrary: j b)
  case Nil
  show ?case by simp
next
  case (Cons p ps)
  obtain j' b' where s: "featureTableStep d p (j, b) = (j', b')"
    by (cases "featureTableStep d p (j, b)")
  then have "dom j' = insert (propertyName p) (dom j)"
    by (auto simp: featureTableStep_eq)
  then show ?case using Cons [of j' b'] s by auto
qed

lemma assembleTables_dom:
  "dom (featureTableJson (assembleTables X dr ft bt n cc qp rtc tw r c)) =
     propertyName ` set ft
     \<union> (case dr of None \<Rightarrow> {}
         | Some e \<Rightarrow> (case dracoFeatureTableJson e of None \<Rightarrow> {} | Some d \<Rightarrow> {''extensions''}))
     \<union> {''POINTS_LENGTH''}
     \<union> (case cc of None \<Rightarrow> {} | Some a \<Rightarrow> {''CONSTANT_RGBA''})
     \<union> (if qp then {''QUANTIZED_VOLUME_SCALE'', ''QUANTIZED_VOLUME_OFFSET''}
        else if rtc then {''RTC_CENTER''} else {})"
  by (auto simp: assembleTables_def Let_def split_beta featureTable_fold_dom
           split: option.splits)

lemma ebind_Inr_iff:
  "ebind m f = Inr r \<longleftrightarrow> (\<exists>v. m = Inr v \<and> f v = Inr r)"
  by (cases m) simp_all

lemma getPositions_name:
  "getPositions X ps = Inr p \<Longrightarrow>
     propertyName p = ''POSITION'' \<and> componentType p = FLOAT \<and> attrType p = VEC3"
  by (auto simp: getPositions_def Let_def ebind_Inr_iff)

lemma getPositionsQuantized_name:
  "getPositionsQuantized X ps r = Inr p \<Longrightarrow>
     propertyName p = ''POSITION_QUANTIZED'' \<and> componentType p = UNSIGNED_SHORT \<and>
     attrType p = VEC3"
  by (auto simp: getPositionsQuantized_def Let_def ebind_Inr_iff)

lemma getNormals_name:
  "getNormals X ns = Inr p \<Longrightarrow>
     propertyName p = ''NORMAL'' \<and> componentType p = FLOAT \<and> attrType p = VEC3"
  by (auto simp: getNormals_def Let_def ebind_Inr_iff)

lemma getNormalsOctEncoded_name:
  "getNormalsOctEncoded X ns = Inr p \<Longrightarrow>
     propertyName p = ''NORMAL_OCT16P'' \<and> componentType p = UNSIGNED_BYTE \<and> attrType p = VEC2"
  by (auto simp: getNormalsOctEncoded_def Let_def ebind_Inr_iff)

lemma getBatchIds_name:
  "getBatchIds ids = Inr p \<Longrightarrow>
     propertyName p = ''BATCH_ID'' \<and> attrType p = SCALAR \<and> batchLength p \<noteq> None"
  by (auto simp: getBatchIds_def Let_def ebind_Inr_iff split: if_splits)

lemma getColorsRGB_name:
  "getColorsRGB X cs = Inr p \<Longrightarrow>
     propertyName p = ''RGB'' \<and> componentType p = UNSIGNED_BYTE \<and> attrType p = VEC3"
  by (auto simp: getColorsRGB_def Let_def ebind_Inr_iff)

lemma getColorsRGBA_name:
  "getColorsRGBA X cs = Inr p \<Longrightarrow>
     propertyName p = ''RGBA'' \<and> componentType p = UNSIGNED_BYTE \<and> attrType p = VEC4"
  by (auto simp: getColorsRGBA_def Let_def ebind_Inr_iff)

lemma getColorsRGB565_name:
  "getColorsRGB565 X cs = Inr p \<Longrightarrow>
     propertyName p = ''RGB565'' \<and> componentType p = UNSIGNED_SHORT \<and> attrType p = SCALAR"
  by (auto simp: getColorsRGB565_def Let_def ebind_Inr_iff)

lemma getPoints_names:
  assumes "getPoints X sx n r cmf cf sf qp oe rtc tr tm rng = (Inr pts, rng')"
  shows "propertyName (positionAttribute pts) = (if qp then ''POSITION_QUANTIZED'' else ''POSITION'') \<and>
         propertyName (normalAttribute pts) = (if oe then ''NORMAL_OCT16P'' else ''NORMAL'') \<and>
         propertyName (batchIdAttribute pts) = ''BATCH_ID'' \<and>
         batchLength (batchIdAttribute pts) \<noteq> None \<and>
         (case cmf of
            None \<Rightarrow> colorAttribute pts = None
          | Some f \<Rightarrow> (\<exists>cs p. f cs = Inr p \<and> colorAttribute pts = Some p))"
proof -
  obtain invT where "Matrix4_inverse X (Matrix4_transpose tr) = Inr invT"
    using assms by (cases "Matrix4_inverse X (Matrix4_transpose tr)") (simp_all add: getPoints_def)
  note inv = this
  let ?loop = "forLoopS [0..<n]
             (getPointsStep X sx n r cf sf qp rtc tr invT (Matrix4_getTranslation tr) tm)
             \<lparr>samplePositions = [], sampleNormals = [], sampleBatchIds = [],
              sampleColors = [], sampleNoiseValues = []\<rparr> rng"
  obtain res r1 where l: "?loop = (res, r1)" by (cases ?loop)
  obtain arrays where a: "res = Inr arrays"
    using assms inv l by (cases res) (simp_all add: getPoints_def Let_def)
  have e: "ebind (if qp then getPositionsQuantized X (samplePositions arrays) r
                  else getPositions X (samplePositions arrays)) (\<lambda>positionAttribute.
           ebind (if oe then getNormalsOctEncoded X (sampleNormals arrays)
                  else getNormals X (sampleNormals arrays)) (\<lambda>normalAttribute.
           ebind (getBatchIds (sampleBatchIds arrays)) (\<lambda>batchIdAttribute.
           ebind (case cmf of
                    Some colorModeFunction \<Rightarrow>
                      ebind (colorModeFunction (sampleColors arrays)) (\<lambda>c. Inr (Some c))
                  | None \<Rightarrow> Inr None) (\<lambda>colorAttribute.
           Inr \<lparr>positionAttribute = positionAttribute, normalAttribute = normalAttribute,
                batchIdAttribute = batchIdAttribute, colorAttribute = colorAttribute,
                noiseValues = sampleNoiseValues arrays\<rparr>)))) = Inr pts"
    using assms inv l a by (simp add: getPoints_def Let_def)
  then obtain pa na ba ca where
    pa: "(if qp then getPositionsQuantized X (samplePositions arrays) r
          else getPositions X (samplePositions arrays)) = Inr pa" and
    na: "(if oe then getNormalsOctEncoded X (sampleNormals arrays)
          else getNormals X (sampleNormals arrays)) = Inr na" and
    ba: "getBatchIds (sampleBatchIds arrays) = Inr ba" and
    ca: "(case cmf of
            Some colorModeFunction \<Rightarrow>
              ebind (colorModeFunction (sampleColors arrays)) (\<lambda>c. Inr (Some c))
          | None \<Rightarrow> Inr None) = Inr ca" and
    pts: "pts = \<lparr>positionAttribute = pa, normalAttribute = na,
                batchIdAttribute = ba, colorAttribute = ca,
                noiseValues = sampleNoiseValues arrays\<rparr>"
    unfolding ebind_Inr_iff by auto
  have 1: "propertyName pa = (if qp then ''POSITION_QUANTIZED'' else ''POSITION'')"
    using pa getPositions_name [of X "samplePositions arrays" pa]
      getPositionsQuantized_name [of X "samplePositions arrays" r pa] by (auto split: if_splits)
  have 2: "propertyName na = (if oe then ''NORMAL_OCT16P'' else ''NORMAL'')"
    using na getNormals_name [of X "sampleNormals arrays" na]
      getNormalsOctEncoded_name [of X "sampleNormals arrays" na] by (auto split: if_splits)
  have 3: "propertyName ba = ''BATCH_ID''" "batchLength ba \<noteq> None"
    using ba getBatchIds_name by blast+
  have 4: "(case cmf of None \<Rightarrow> ca = None
          | Some f \<Rightarrow> (\<exists>cs p. f cs = Inr p \<and> ca = Some p))"
    using ca by (auto simp: ebind_Inr_iff split: option.splits)
  show ?thesis using 1 2 3 4 unfolding pts by (auto split: option.splits)
qed

lemma dracoEncode_success:
  "dracoEncode X n ds ft bt = Inr e \<Longrightarrow> dracoFeatureTableJson e \<noteq> None"
  by (auto simp: dracoEncode_def Let_def split_beta ebind_Inr_iff)

lemma tileOfAttributes_dom:
  assumes "tileOfAttributes X dr ds bd n ft bt bids cc qp rtc tw r c rng = (Inr t, rng')"
  shows "dom (featureTableJson t) =
     propertyName ` set ft
     \<union> (if dr then {''extensions''} else {})
     \<union> {''POINTS_LENGTH''}
     \<union> (case cc of None \<Rightarrow> {} | Some a \<Rightarrow> {''CONSTANT_RGBA''})
     \<union> (if qp then {''QUANTIZED_VOLUME_SCALE'', ''QUANTIZED_VOLUME_OFFSET''}
        else if rtc then {''RTC_CENTER''} else {})
     \<union> (if bd then {''BATCH_LENGTH''} else {})"
proof -
  obtain d where d: "(if dr then ebind (dracoEncode X n ds ft bt) (\<lambda>dracoResults. Inr (Some dracoResults))
            else Inr None) = Inr d"
    using assms by (cases "(if dr then ebind (dracoEncode X n ds ft bt) (\<lambda>dracoResults. Inr (Some dracoResults))
            else Inr None)") (simp_all add: tileOfAttributes_def)
  have dd: "(case d of None \<Rightarrow> {}
         | Some e \<Rightarrow> (case dracoFeatureTableJson e of None \<Rightarrow> {} | Some d \<Rightarrow> {''extensions''}))
       = (if dr then {''extensions''} else {})"
    using d dracoEncode_success [of X n ds ft bt]
    by (auto simp: ebind_Inr_iff split: if_splits option.splits)
  let ?tables = "assembleTables X d ft bt n cc qp rtc tw r c"
  have t: "(if bd then
        (case batchLength bids of
           None \<Rightarrow> (Inl TypeError, rng)
         | Some batchLength' \<Rightarrow>
        (case getBatchTableForBatchedPoints X batchLength' rng of
           (Inl e, rng) \<Rightarrow> (Inl e, rng)
         | (Inr (json, binary), rng) \<Rightarrow>
             (Inr (?tables\<lparr>batchTableJson := json, batchTableBinary := binary,
                     featureTableJson :=
                       (featureTableJson ?tables)(''BATCH_LENGTH'' \<mapsto> FtNumber batchLength')\<rparr>),
              rng)))
      else (Inr ?tables, rng)) = (Inr t, rng')"
    using assms unfolding tileOfAttributes_def d by (simp add: Let_def)
  have "dom (featureTableJson t) =
      dom (featureTableJson ?tables) \<union> (if bd then {''BATCH_LENGTH''} else {})"
    using t by (auto split: if_splits option.splits prod.splits sum.splits)
  then show ?thesis unfolding assembleTables_dom dd by simp
qed

lemma featureTablePropertiesOf_names:
  "propertyName ` set (featureTablePropertiesOf pts gn bd) =
     {propertyName (positionAttribute pts)}
     \<union> (case colorAttribute pts of None \<Rightarrow> {} | Some p \<Rightarrow> {propertyName p})
     \<union> (if gn then {propertyName (normalAttribute pts)} else {})
     \<union> (if bd then {propertyName (batchIdAttribute pts)} else {})"
  by (auto simp: featureTablePropertiesOf_def Let_def split: option.splits)

lemma tileOfPoints_dom:
  assumes "tileOfPoints X dr ds bd gn ppp n pts cc qp rtc tw r c rng = (Inr t, rng')"
  shows "dom (featureTableJson t) =
     {propertyName (positionAttribute pts)}
     \<union> (case colorAttribute pts of None \<Rightarrow> {} | Some p \<Rightarrow> {propertyName p})
     \<union> (if gn then {propertyName (normalAttribute pts)} else {})
     \<union> (if bd then {propertyName (batchIdAttribute pts)} else {})
     \<union> (if dr then {''extensions''} else {})
     \<union> {''POINTS_LENGTH''}
     \<union> (case cc of None \<Rightarrow> {} | Some a \<Rightarrow> {''CONSTANT_RGBA''})
     \<union> (if qp then {''QUANTIZED_VOLUME_SCALE'', ''QUANTIZED_VOLUME_OFFSET''}
        else if rtc then {''RTC_CENTER''} else {})
     \<union> (if bd then {''BATCH_LENGTH''} else {})"
proof -
  let ?pp = "if ppp then getPerPointBatchTableProperties X n (noiseValues pts) rng
            else (Inr [], rng)"
  obtain res rng1 where pp: "?pp = (res, rng1)" by (cases ?pp)
  obtain bt where "res = Inr bt"
    and "tileOfAttributes X dr ds bd n (featureTablePropertiesOf pts gn bd) bt
           (batchIdAttribute pts) cc qp rtc tw r c rng1 = (Inr t, rng')"
    using assms pp unfolding tileOfPoints_def Let_def
    by (cases res) simp_all
  from tileOfAttributes_dom [OF this(2)] show ?thesis
    unfolding featureTablePropertiesOf_names by simp
qed

lemma createPointCloudTile_success:
  fixes X :: "('rng, 'sx) externals"
  assumes "fst (createPointCloudTile X (Some opts) g) = Inr t"
  shows "\<exists>sx n r cf sf tr tm rng pts rng1 rng2.
     getPoints X sx n r
       (fst (colorModeOf X
          (if defaultValue (colorMode opts) ''rgb'' = ''rgb565'' \<and>
              defaultValue (draco opts) False
           then ''rgb'' else defaultValue (colorMode opts) ''rgb'')))
       cf sf
       (defaultValue (quantizePositions opts) False \<and> \<not> defaultValue (draco opts) False)
       (defaultValue (octEncodeNormals opts) False \<and> \<not> defaultValue (draco opts) False)
       (defaultValue (relativeToCenter opts) True) tr tm rng = (Inr pts, rng1) \<and>
     tileOfPoints X (defaultValue (draco opts) False) (dracoSemantics opts)
       (defaultValue (batched opts) False)
       (defaultValue (generateNormals opts) False)
       (defaultValue (perPointProperties opts) False) n pts
       (snd (colorModeOf X
          (if defaultValue (colorMode opts) ''rgb'' = ''rgb565'' \<and>
              defaultValue (draco opts) False
           then ''rgb'' else defaultValue (colorMode opts) ''rgb'')))
       (defaultValue (quantizePositions opts) False \<and> \<not> defaultValue (draco opts) False)
       (defaultValue (relativeToCenter opts) True)
       (defaultValue (tileWidth opts) (Num 10.0)) r
       (Matrix4_getTranslation tr) rng1 = (Inr t, rng2)"
  using assms unfolding createPointCloudTile_stages
  apply (simp split: prod.splits sum.splits split del: if_split)
  apply (intro exI conjI)
   apply assumption
  apply assumption
  done

lemma createPointCloudTile_keys:
  fixes X :: "('rng, 'sx) externals"
  assumes ok: "fst (createPointCloudTile X (Some opts) g) = Inr t"
  defines "dr \<equiv> defaultValue (draco opts) False"
  defines "cm \<equiv> (if defaultValue (colorMode opts) ''rgb'' = ''rgb565'' \<and>
                     defaultValue (draco opts) False
                  then ''rgb'' else defaultValue (colorMode opts) ''rgb'')"
  defines "qp \<equiv> defaultValue (quantizePositions opts) False \<and> \<not> dr"
  defines "oe \<equiv> defaultValue (octEncodeNormals opts) False \<and> \<not> dr"
  defines "bd \<equiv> defaultValue (batched opts) False"
  shows "dom (featureTableJson t) =
     {if qp then ''POSITION_QUANTIZED'' else ''POSITION''}
     \<union> (if cm = ''rgb'' then {''RGB''}
        else if cm = ''rgba'' then {''RGBA''}
        else if cm = ''rgb565'' then {''RGB565''}
        else {})
     \<union> (if defaultValue (generateNormals opts) False
        then {if oe then ''NORMAL_OCT16P'' else ''NORMAL''} else {})
     \<union> (if bd then {''BATCH_ID'', ''BATCH_LENGTH''} else {})
     \<union> (if dr then {''extensions''} else {})
     \<union> {''POINTS_LENGTH''}
     \<union> (if cm = ''constant'' then {''CONSTANT_RGBA''} else {})
     \<union> (if qp then {''QUANTIZED_VOLUME_SCALE'', ''QUANTIZED_VOLUME_OFFSET''}
        else if defaultValue (relativeToCenter opts) True then {''RTC_CENTER''} else {})"
proof -
  from createPointCloudTile_success [OF ok]
  obtain sx n r cf sf tr tm rng pts rng1 rng2 where
    gp: "getPoints X sx n r (fst (colorModeOf X cm)) cf sf qp oe
       (defaultValue (relativeToCenter opts) True) tr tm rng = (Inr pts, rng1)" and
    tp: "tileOfPoints X dr (dracoSemantics opts) bd
       (defaultValue (generateNormals opts) False)
       (defaultValue (perPointProperties opts) False) n pts (snd (colorModeOf X cm)) qp
       (defaultValue (relativeToCenter opts) True)
       (defaultValue (tileWidth opts) (Num 10.0)) r
       (Matrix4_getTranslation tr) rng1 = (Inr t, rng2)"
    unfolding dr_def cm_def qp_def oe_def bd_def by blast
  note nm = getPoints_names [OF gp]
  have col: "(case colorAttribute pts of None \<Rightarrow> {} | Some p \<Rightarrow> {propertyName p}) =
      (if cm = ''rgb'' then {''RGB''}
        else if cm = ''rgba'' then {''RGBA''}
        else if cm = ''rgb565'' then {''RGB565''}
        else {})"
    using nm getColorsRGB_name [of X] getColorsRGBA_name [of X] getColorsRGB565_name [of X]
    by (auto simp: colorModeOf_def split: if_splits)
  have cc: "(case snd (colorModeOf X cm) of None \<Rightarrow> {} | Some a \<Rightarrow> {''CONSTANT_RGBA''}) =
      (if cm = ''constant'' then {''CONSTANT_RGBA''} else {})"
    by (auto simp: colorModeOf_def split: if_splits)
  show ?thesis
    unfolding tileOfPoints_dom [OF tp] col cc using nm by auto
qed

section \<open>Options\<close>

text \<open>
  Claim C6, as the code has it. Line 67 clears \<^verbatim>\<open>quantizePositions\<close> when \<^verbatim>\<open>draco\<close> is
  set. In the feature table JSON of every tile returned, \<^verbatim>\<open>QUANTIZED_VOLUME_SCALE\<close> and
  \<^verbatim>\<open>QUANTIZED_VOLUME_OFFSET\<close> are present exactly when \<^verbatim>\<open>quantizePositions\<close> is set and
  \<^verbatim>\<open>draco\<close> is not, and \<^verbatim>\<open>RTC_CENTER\<close> is present exactly when they are absent and
  \<^verbatim>\<open>relativeToCenter\<close> is not cleared; so with \<^verbatim>\<open>quantizePositions\<close> set and \<^verbatim>\<open>draco\<close> not
  set the quantized volume is present and \<^verbatim>\<open>RTC_CENTER\<close> is absent, and \<^verbatim>\<open>RTC_CENTER\<close> is
  never present together with one of the other two.
\<close>

theorem quantized_volume_keys:
  assumes "fst (createPointCloudTile X (Some opts) g) = Inr t"
  shows "(''QUANTIZED_VOLUME_SCALE'' \<in> dom (featureTableJson t) \<longleftrightarrow>
            defaultValue (quantizePositions opts) False \<and> \<not> defaultValue (draco opts) False) \<and>
         (''QUANTIZED_VOLUME_OFFSET'' \<in> dom (featureTableJson t) \<longleftrightarrow>
            defaultValue (quantizePositions opts) False \<and> \<not> defaultValue (draco opts) False) \<and>
         (''RTC_CENTER'' \<in> dom (featureTableJson t) \<longleftrightarrow>
            \<not> (defaultValue (quantizePositions opts) False \<and> \<not> defaultValue (draco opts) False) \<and>
            defaultValue (relativeToCenter opts) True) \<and>
         (quantizePositions opts = Some True \<and> \<not> defaultValue (draco opts) False \<longrightarrow>
            ''QUANTIZED_VOLUME_SCALE'' \<in> dom (featureTableJson t) \<and>
            ''QUANTIZED_VOLUME_OFFSET'' \<in> dom (featureTableJson t) \<and>
            ''RTC_CENTER'' \<notin> dom (featureTableJson t)) \<and>
         \<not> (''RTC_CENTER'' \<in> dom (featureTableJson t) \<and>
            (''QUANTIZED_VOLUME_SCALE'' \<in> dom (featureTableJson t) \<or>
             ''QUANTIZED_VOLUME_OFFSET'' \<in> dom (featureTableJson t)))"
  unfolding createPointCloudTile_keys [OF assms] by (simp split del: if_split) auto

text \<open>A tile of one point on a sphere, with quantized positions.\<close>

theorem quantized_volume_keys_witness:
  "\<exists>t. fst (createPointCloudTile stubExternals
              (Some (EMPTY_OBJECT\<lparr>pointsLength := Some 1, shape := Some ''sphere'',
                                   quantizePositions := Some True\<rparr>))
              (moduleLoad stubExternals)) = Inr t \<and>
       ''QUANTIZED_VOLUME_SCALE'' \<in> dom (featureTableJson t) \<and>
       ''QUANTIZED_VOLUME_OFFSET'' \<in> dom (featureTableJson t) \<and>
       ''RTC_CENTER'' \<notin> dom (featureTableJson t)"
proof -
  let ?opts = "EMPTY_OBJECT\<lparr>pointsLength := Some 1, shape := Some ''sphere'',
                                   quantizePositions := Some True\<rparr>"
  have "\<exists>t. fst (createPointCloudTile stubExternals (Some ?opts) (moduleLoad stubExternals))
           = Inr t"
    by (simp add: stub_simps tile_simps point_simps Let_def)
  then obtain t where
    t: "fst (createPointCloudTile stubExternals (Some ?opts) (moduleLoad stubExternals)) = Inr t" ..
  have o: "quantizePositions ?opts = Some True" "\<not> defaultValue (draco ?opts) False"
    by (simp_all add: EMPTY_OBJECT_def)
  from quantized_volume_keys [OF t] o t show ?thesis by blast
qed

text \<open>
  Claim C6, as it is stated, fails. With \<^verbatim>\<open>quantizePositions\<close> and \<^verbatim>\<open>draco\<close> both set, the
  feature table JSON has \<^verbatim>\<open>RTC_CENTER\<close> and neither \<^verbatim>\<open>QUANTIZED_VOLUME_SCALE\<close> nor
  \<^verbatim>\<open>QUANTIZED_VOLUME_OFFSET\<close>.
\<close>

theorem quantized_volume_keys_counterexample:
  "\<exists>t. fst (createPointCloudTile stubExternals
              (Some (EMPTY_OBJECT\<lparr>pointsLength := Some 1, shape := Some ''sphere'',
                                   quantizePositions := Some True, draco := Some True\<rparr>))
              (moduleLoad stubExternals)) = Inr t \<and>
       ''QUANTIZED_VOLUME_SCALE'' \<notin> dom (featureTableJson t) \<and>
       ''QUANTIZED_VOLUME_OFFSET'' \<notin> dom (featureTableJson t) \<and>
       ''RTC_CENTER'' \<in> dom (featureTableJson t)"
  by (simp add: stub_simps tile_simps point_simps Let_def)

lemma rgb565_replaced:
  assumes "draco opts = Some True" "colorMode opts = Some ''rgb565''"
  shows "createPointCloudTile X (Some opts) g =
         createPointCloudTile X (Some (opts\<lparr>colorMode := Some ''rgb''\<rparr>)) g"
proof -
  have c: "(if ''rgb565'' = ''rgb565'' \<and> True then ''rgb'' else ''rgb565'') =
           (if ''rgb'' = ''rgb565'' \<and> True then ''rgb'' else ''rgb'')" by simp
  have s: "tileWidth (opts\<lparr>colorMode := Some ''rgb''\<rparr>) = tileWidth opts"
    "transform (opts\<lparr>colorMode := Some ''rgb''\<rparr>) = transform opts"
    "pointsLength (opts\<lparr>colorMode := Some ''rgb''\<rparr>) = pointsLength opts"
    "colorMode (opts\<lparr>colorMode := Some ''rgb''\<rparr>) = Some ''rgb''"
    "color (opts\<lparr>colorMode := Some ''rgb''\<rparr>) = color opts"
    "shape (opts\<lparr>colorMode := Some ''rgb''\<rparr>) = shape opts"
    "generateNormals (opts\<lparr>colorMode := Some ''rgb''\<rparr>) = generateNormals opts"
    "draco (opts\<lparr>colorMode := Some ''rgb''\<rparr>) = draco opts"
    "dracoSemantics (opts\<lparr>colorMode := Some ''rgb''\<rparr>) = dracoSemantics opts"
    "octEncodeNormals (opts\<lparr>colorMode := Some ''rgb''\<rparr>) = octEncodeNormals opts"
    "quantizePositions (opts\<lparr>colorMode := Some ''rgb''\<rparr>) = quantizePositions opts"
    "batched (opts\<lparr>colorMode := Some ''rgb''\<rparr>) = batched opts"
    "perPointProperties (opts\<lparr>colorMode := Some ''rgb''\<rparr>) = perPointProperties opts"
    "relativeToCenter (opts\<lparr>colorMode := Some ''rgb''\<rparr>) = relativeToCenter opts"
    "time (opts\<lparr>colorMode := Some ''rgb''\<rparr>) = time opts"
    by simp_all
  show ?thesis
    unfolding createPointCloudTile_stages s assms defaultValue.simps c by (rule refl)
qed

lemma createPointCloudTile_points:
  fixes X :: "('rng, 'sx) externals"
  assumes "fst (createPointCloudTile X (Some opts) g) = Inr t"
  shows "\<exists>pts rng1.
     getPoints X (simplex g) (defaultValue (pointsLength opts) 1000)
       (js_div X (defaultValue (tileWidth opts) (Num 10.0)) (Num 2.0))
       (fst (colorModeOf X
          (if defaultValue (colorMode opts) ''rgb'' = ''rgb565'' \<and>
              defaultValue (draco opts) False
           then ''rgb'' else defaultValue (colorMode opts) ''rgb'')))
       (colorFunctionOf X (simplex g) (defaultValue (color opts) ''random'')
          (defaultValue (time opts) (Num 0.0)))
       (shapeFunctionOf X (defaultValue (shape opts) ''box''))
       (defaultValue (quantizePositions opts) False \<and> \<not> defaultValue (draco opts) False)
       (defaultValue (octEncodeNormals opts) False \<and> \<not> defaultValue (draco opts) False)
       (defaultValue (relativeToCenter opts) True)
       (defaultValue (transform opts) Matrix4_IDENTITY)
       (defaultValue (time opts) (Num 0.0)) (setRandomNumberSeed X 0) = (Inr pts, rng1)"
  using assms unfolding createPointCloudTile_stages
  by (simp split: prod.splits sum.splits split del: if_split)

text \<open>
  Claim C10. With \<^verbatim>\<open>draco\<close> set and \<^verbatim>\<open>colorMode\<close> \<^verbatim>\<open>'rgb565'\<close>, a call is the call with
  \<^verbatim>\<open>colorMode\<close> \<^verbatim>\<open>'rgb'\<close>: the same result and the same state. When it returns a tile, the
  colors were encoded by \<^verbatim>\<open>getColorsRGB\<close>, whose attribute is named RGB, of UNSIGNED_BYTE
  components and type VEC3, and is an attribute of the feature table; the feature table
  JSON has the key RGB and no key RGB565.
\<close>

theorem rgb565_with_draco_is_rgb:
  fixes X :: "('rng, 'sx) externals"
  assumes "draco opts = Some True" and "colorMode opts = Some ''rgb565''"
  shows "createPointCloudTile X (Some opts) g =
           createPointCloudTile X (Some (opts\<lparr>colorMode := Some ''rgb''\<rparr>)) g \<and>
         (\<forall>t. fst (createPointCloudTile X (Some opts) g) = Inr t \<longrightarrow>
            ''RGB'' \<in> dom (featureTableJson t) \<and> ''RGB565'' \<notin> dom (featureTableJson t) \<and>
            (\<exists>pts rng1 cs p.
               getPoints X (simplex g) (defaultValue (pointsLength opts) 1000)
                 (js_div X (defaultValue (tileWidth opts) (Num 10.0)) (Num 2.0))
                 (Some (getColorsRGB X))
                 (colorFunctionOf X (simplex g) (defaultValue (color opts) ''random'')
                    (defaultValue (time opts) (Num 0.0)))
                 (shapeFunctionOf X (defaultValue (shape opts) ''box''))
                 False False (defaultValue (relativeToCenter opts) True)
                 (defaultValue (transform opts) Matrix4_IDENTITY)
                 (defaultValue (time opts) (Num 0.0)) (setRandomNumberSeed X 0) =
                 (Inr pts, rng1) \<and>
               colorAttribute pts = Some p \<and> getColorsRGB X cs = Inr p \<and>
               propertyName p = ''RGB'' \<and> componentType p = UNSIGNED_BYTE \<and>
               attrType p = VEC3 \<and>
               p \<in> set (featureTablePropertiesOf pts
                          (defaultValue (generateNormals opts) False)
                          (defaultValue (batched opts) False))))"
proof (intro conjI allI impI)
  show "createPointCloudTile X (Some opts) g =
           createPointCloudTile X (Some (opts\<lparr>colorMode := Some ''rgb''\<rparr>)) g"
    using assms by (rule rgb565_replaced)
next
  fix t assume t: "fst (createPointCloudTile X (Some opts) g) = Inr t"
  show "''RGB'' \<in> dom (featureTableJson t)" "''RGB565'' \<notin> dom (featureTableJson t)"
    unfolding createPointCloudTile_keys [OF t] using assms by simp_all
  from createPointCloudTile_points [OF t] obtain pts rng1 where
    gp: "getPoints X (simplex g) (defaultValue (pointsLength opts) 1000)
                 (js_div X (defaultValue (tileWidth opts) (Num 10.0)) (Num 2.0))
                 (Some (getColorsRGB X))
                 (colorFunctionOf X (simplex g) (defaultValue (color opts) ''random'')
                    (defaultValue (time opts) (Num 0.0)))
                 (shapeFunctionOf X (defaultValue (shape opts) ''box''))
                 False False (defaultValue (relativeToCenter opts) True)
                 (defaultValue (transform opts) Matrix4_IDENTITY)
                 (defaultValue (time opts) (Num 0.0)) (setRandomNumberSeed X 0) =
                 (Inr pts, rng1)"
    using assms by (auto simp: colorModeOf_def)
  from getPoints_names [OF gp] obtain cs p where
    p: "getColorsRGB X cs = Inr p" "colorAttribute pts = Some p" by auto
  have "p \<in> set (featureTablePropertiesOf pts (defaultValue (generateNormals opts) False)
                          (defaultValue (batched opts) False))"
    using p(2) by (simp add: featureTablePropertiesOf_def Let_def)
  then show "\<exists>pts rng1 cs p.
               getPoints X (simplex g) (defaultValue (pointsLength opts) 1000)
                 (js_div X (defaultValue (tileWidth opts) (Num 10.0)) (Num 2.0))
                 (Some (getColorsRGB X))
                 (colorFunctionOf X (simplex g) (defaultValue (color opts) ''random'')
                    (defaultValue (time opts) (Num 0.0)))
                 (shapeFunctionOf X (defaultValue (shape opts) ''box''))
                 False False (defaultValue (relativeToCenter opts) True)
                 (defaultValue (transform opts) Matrix4_IDENTITY)
                 (defaultValue (time opts) (Num 0.0)) (setRandomNumberSeed X 0) =
                 (Inr pts, rng1) \<and>
               colorAttribute pts = Some p \<and> getColorsRGB X cs = Inr p \<and>
               propertyName p = ''RGB'' \<and> componentType p = UNSIGNED_BYTE \<and>
               attrType p = VEC3 \<and>
               p \<in> set (featureTablePropertiesOf pts
                          (defaultValue (generateNormals opts) False)
                          (defaultValue (batched opts) False))"
    using gp p getColorsRGB_name [OF p(1)] by blast
qed

text \<open>A tile of one point on a sphere, with \<^verbatim>\<open>draco\<close> and \<^verbatim>\<open>colorMode\<close> \<^verbatim>\<open>'rgb565'\<close>.\<close>

theorem rgb565_with_draco_is_rgb_witness:
  "createPointCloudTile stubExternals
     (Some (EMPTY_OBJECT\<lparr>pointsLength := Some 1, shape := Some ''sphere'', draco := Some True,
                          colorMode := Some ''rgb565''\<rparr>)) (moduleLoad stubExternals) =
   createPointCloudTile stubExternals
     (Some (EMPTY_OBJECT\<lparr>pointsLength := Some 1, shape := Some ''sphere'', draco := Some True,
                          colorMode := Some ''rgb''\<rparr>)) (moduleLoad stubExternals) \<and>
   (\<exists>t. fst (createPointCloudTile stubExternals
               (Some (EMPTY_OBJECT\<lparr>pointsLength := Some 1, shape := Some ''sphere'', draco := Some True,
                                    colorMode := Some ''rgb565''\<rparr>))
               (moduleLoad stubExternals)) = Inr t \<and>
        ''RGB'' \<in> dom (featureTableJson t) \<and> ''RGB565'' \<notin> dom (featureTableJson t))"
proof -
  let ?opts = "EMPTY_OBJECT\<lparr>pointsLength := Some 1, shape := Some ''sphere'', draco := Some True,
                            colorMode := Some ''rgb565''\<rparr>"
  have o: "draco ?opts = Some True" "colorMode ?opts = Some ''rgb565''"
    by (simp_all add: EMPTY_OBJECT_def)
  have u: "?opts\<lparr>colorMode := Some ''rgb''\<rparr> =
      EMPTY_OBJECT\<lparr>pointsLength := Some 1, shape := Some ''sphere'', draco := Some True, colorMode := Some ''rgb''\<rparr>"
    by (simp add: EMPTY_OBJECT_def)
  have "\<exists>t. fst (createPointCloudTile stubExternals (Some ?opts) (moduleLoad stubExternals))
           = Inr t"
    by (simp add: stub_simps tile_simps point_simps Let_def)
  then obtain t where
    t: "fst (createPointCloudTile stubExternals (Some ?opts) (moduleLoad stubExternals)) = Inr t" ..
  note r = rgb565_with_draco_is_rgb [OF o, of stubExternals "moduleLoad stubExternals"]
  from r [THEN conjunct1] r [THEN conjunct2, rule_format, OF t] t
  show ?thesis unfolding u by blast
qed

lemma createPointCloudTile_simplex:
  "simplex (snd (createPointCloudTile X options g)) = simplex g"
  by (simp add: createPointCloudTile_def Let_def split_beta split: sum.split
        split del: if_split cong: if_weak_cong)

lemma createPointCloudTile_fst:
  assumes "simplex g1 = simplex g2"
  shows "fst (createPointCloudTile X options g1) = fst (createPointCloudTile X options g2)"
  unfolding createPointCloudTile_def Let_def assms
  by (simp add: split_beta split: sum.split split del: if_split cong: if_weak_cong)

lemma reachable_simplex:
  "reachable X g \<Longrightarrow> simplex g = simplex (moduleLoad X)"
  by (induction rule: reachable.induct) (simp_all add: createPointCloudTile_simplex)

text \<open>
  Claim C2. In every state the module can be in, a call returns the same result for the
  same options: the same tile, with the same two binaries, or the same exception. Each
  call seeds the generator of random numbers anew (line 54), so its result does not
  depend on the generator's state. The noise source is built once, when the module is
  loaded (lines 25 and 26), from the generator seeded there; no call writes it, so it is
  the same in every state.
\<close>

theorem generation_is_deterministic:
  assumes "reachable X g1" and "reachable X g2"
  shows "fst (createPointCloudTile X options g1) = fst (createPointCloudTile X options g2) \<and>
         (\<forall>t1 t2. fst (createPointCloudTile X options g1) = Inr t1 \<and>
                  fst (createPointCloudTile X options g2) = Inr t2 \<longrightarrow>
                  featureTableBinary t1 = featureTableBinary t2 \<and>
                  batchTableBinary t1 = batchTableBinary t2) \<and>
         fst (createPointCloudTile X options (g1\<lparr>randomNumberGenerator := r\<rparr>)) =
           fst (createPointCloudTile X options g1) \<and>
         simplex (snd (createPointCloudTile X options g1)) = simplex (moduleLoad X)"
proof (intro conjI)
  have "simplex g1 = simplex g2" using assms reachable_simplex by metis
  then show e: "fst (createPointCloudTile X options g1) =
      fst (createPointCloudTile X options g2)"
    by (rule createPointCloudTile_fst)
  show "\<forall>t1 t2. fst (createPointCloudTile X options g1) = Inr t1 \<and>
                  fst (createPointCloudTile X options g2) = Inr t2 \<longrightarrow>
                  featureTableBinary t1 = featureTableBinary t2 \<and>
                  batchTableBinary t1 = batchTableBinary t2"
    unfolding e by auto
  show "fst (createPointCloudTile X options (g1\<lparr>randomNumberGenerator := r\<rparr>)) =
           fst (createPointCloudTile X options g1)"
    by (rule createPointCloudTile_fst) simp
  show "simplex (snd (createPointCloudTile X options g1)) = simplex (moduleLoad X)"
    using assms(1) by (simp add: createPointCloudTile_simplex reachable_simplex)
qed

text \<open>The module as loaded and the module after a first call are in different states of
  the generator, and a call that draws random numbers, for a point on a sphere, its color
  and its properties, returns the same in both.\<close>

theorem generation_is_deterministic_witness:
  "fst (createPointCloudTile stubExternals
          (Some (EMPTY_OBJECT\<lparr>pointsLength := Some 1, shape := Some ''sphere'',
                          perPointProperties := Some True\<rparr>))
          (moduleLoad stubExternals)) =
   fst (createPointCloudTile stubExternals
          (Some (EMPTY_OBJECT\<lparr>pointsLength := Some 1, shape := Some ''sphere'',
                          perPointProperties := Some True\<rparr>))
          (snd (createPointCloudTile stubExternals
                  (Some (EMPTY_OBJECT\<lparr>pointsLength := Some 1, shape := Some ''sphere'',
                          perPointProperties := Some True\<rparr>))
                  (moduleLoad stubExternals)))) \<and>
   randomNumberGenerator (moduleLoad stubExternals) \<noteq>
   randomNumberGenerator
     (snd (createPointCloudTile stubExternals
             (Some (EMPTY_OBJECT\<lparr>pointsLength := Some 1, shape := Some ''sphere'',
                          perPointProperties := Some True\<rparr>))
             (moduleLoad stubExternals)))"
proof -
  let ?o = "Some (EMPTY_OBJECT\<lparr>pointsLength := Some 1, shape := Some ''sphere'',
                          perPointProperties := Some True\<rparr>)"
  have r1: "reachable stubExternals (moduleLoad stubExternals)" by (rule reachable.loaded)
  have r2: "reachable stubExternals
              (snd (createPointCloudTile stubExternals ?o (moduleLoad stubExternals)))"
    using r1 by (rule reachable.called)
  have d: "randomNumberGenerator (moduleLoad stubExternals) \<noteq>
      randomNumberGenerator
        (snd (createPointCloudTile stubExternals ?o (moduleLoad stubExternals)))"
    by (simp add: stub_simps tile_simps point_simps Let_def)
  from generation_is_deterministic [OF r1 r2, of ?o, THEN conjunct1] d
  show ?thesis by (rule conjI)
qed

end
